theory Spec2Isabelle
  imports Main
begin

section \<open>Headless controllers of \<open>src/index.ts\<close>\<close>

text \<open>
  The nine controller classes of \<open>src/index.ts\<close> (lines 784 to 1518) are embedded as
  state-passing functions. Every \<open>async\<close> method is cut at its \<open>await\<close>: the part
  that runs synchronously when the method is called is a function named \<open>..._call\<close>,
  the part that runs when the awaited transport promise settles is a function named
  \<open>..._settle\<close>, which takes the way the promise settled as an argument and returns
  what the method returns or throws together with the new controller. The method run
  without any other event between its call and its settlement is the composition of the
  two; overlapping calls are sequences of \<open>..._call\<close> and \<open>..._settle\<close> steps in any
  order.
\<close>

subsection \<open>JavaScript values that can be thrown\<close>

text \<open>An \<open>Error\<close> object; only its \<open>message\<close> is read by the controllers.\<close>

datatype js_error = JsError (error_message: string)

text \<open>
  The value a promise is rejected with. \<open>e instanceof Error\<close> holds exactly for
  \<open>VError\<close>; the other constructors are values that are not errors.
\<close>

datatype js_value =
    VUndefined
  | VNull
  | VBool bool
  | VString string
  | VError js_error

text \<open>
  \<open>String(e)\<close> on the values above; on an error whose name is \<open>Error\<close> it is the
  name, followed by \<open>: message\<close> when the message is not empty.
\<close>

fun js_String :: "js_value \<Rightarrow> string" where
  "js_String VUndefined = ''undefined''"
| "js_String VNull = ''null''"
| "js_String (VBool b) = (if b then ''true'' else ''false'')"
| "js_String (VString s) = s"
| "js_String (VError e) =
     (if error_message e = [] then ''Error'' else ''Error: '' @ error_message e)"

text \<open>\<open>e instanceof Error ? e : new Error(String(e))\<close>, the first line of every catch block.\<close>

fun to_error :: "js_value \<Rightarrow> js_error" where
  "to_error (VError e) = e"
| "to_error v = JsError (js_String v)"

text \<open>How an awaited promise settles.\<close>

datatype 'a settled = Fulfilled 'a | Rejected js_value

subsection \<open>Configuration and transport requests\<close>

record JamWidgetsConfig =
  siteKey :: string
  endpoint :: "string option"

datatype FeedbackType = Bug | Feature | General

text \<open>
  One constructor for each transport function a controller calls, with the options
  object it is called with. The controller records every call in \<open>requests\<close>.
\<close>

datatype request =
    Call_subscribe JamWidgetsConfig string
  | Call_joinWaitlist JamWidgetsConfig string "string option" "string option"
  | Call_submitForm JamWidgetsConfig string "(string \<times> js_value) list" int
  | Call_fetchReactions JamWidgetsConfig string
  | Call_addReaction JamWidgetsConfig string string
  | Call_removeReaction JamWidgetsConfig string string
  | Call_fetchComments JamWidgetsConfig string
  | Call_postComment JamWidgetsConfig string string string "string option" "string option"
  | Call_submitFeedback JamWidgetsConfig FeedbackType string "string option" "string option"
  | Call_fetchPoll JamWidgetsConfig string
  | Call_votePoll JamWidgetsConfig string "string list"
  | Call_fetchAnnouncements JamWidgetsConfig
  | Call_dismissAnnouncement JamWidgetsConfig int
  | Call_getViewCounts JamWidgetsConfig string
  | Call_recordView JamWidgetsConfig string

subsection \<open>Response and payload types\<close>

text \<open>
  \<open>SubscribeResponse\<close>, \<open>FormSubmitResponse\<close> and \<open>SubmitFeedbackResponse\<close> are the same
  structural type \<open>{success, message}\<close>; \<open>JoinWaitlistResponse\<close> adds an optional
  \<open>position\<close>.
\<close>

record MessageResponse =
  success :: bool
  message :: string

type_synonym SubscribeResponse = MessageResponse
type_synonym FormSubmitResponse = MessageResponse
type_synonym SubmitFeedbackResponse = MessageResponse

record JoinWaitlistResponse = MessageResponse +
  position :: "int option"

datatype Comment = Comment
  (comment_id: string)
  (comment_pageId: string)
  (comment_parentId: "string option")
  (authorName: string)
  (comment_content: string)
  (createdAt: string)
  (replies: "Comment list")

record FetchReactionsResponse =
  pageId :: string
  counts :: "string \<rightharpoonup> int"
  userReactions :: "string list"

text \<open>What \<open>addReaction\<close> and \<open>removeReaction\<close> resolve to.\<close>

record ReactionResult =
  reactionType :: string
  count :: int

record ViewCounts =
  pageId :: string
  views :: int
  uniqueVisitors :: int

record RecordViewResponse = ViewCounts +
  isNewVisitor :: bool

record VotePollResponse =
  success :: bool
  results :: "string \<rightharpoonup> int"
  totalVotes :: int

datatype ShowResultsMode = Always | After_vote | After_end | Never

record PollOption =
  option_id :: string
  option_text :: string

record PollSettings =
  multiSelect :: bool
  showResults :: ShowResultsMode

record Poll =
  poll_id :: int
  question :: string
  options :: "PollOption list"
  settings :: PollSettings
  endsAt :: "string option"
  isActive :: bool

record PollWithResults = Poll +
  results :: "string \<rightharpoonup> int"
  totalVotes :: int
  userVotes :: "string list option"

datatype AnnouncementType = AInfo | AWarning | ASuccess | AError

record Announcement =
  announcement_id :: int
  announcement_content :: string
  announcementType :: AnnouncementType
  linkUrl :: "string option"
  linkText :: "string option"
  isDismissible :: bool

subsection \<open>Controller state types\<close>

datatype ControllerStatus = Idle | Loading | Success | Error

text \<open>Every state interface has \<open>status\<close> and \<open>error\<close>; the rest extends them.\<close>

record base_state =
  status :: ControllerStatus
  error :: "js_error option"

text \<open>\<open>SubscribeState\<close>, \<open>FormState\<close> and \<open>FeedbackState\<close>.\<close>

record MessageState = base_state +
  message :: "string option"

type_synonym SubscribeState = MessageState
type_synonym FormState = MessageState
type_synonym FeedbackState = MessageState

record WaitlistState = MessageState +
  position :: "int option"

record ReactionsState = base_state +
  counts :: "string \<rightharpoonup> int"
  userReactions :: "string list"

record CommentsState = base_state +
  comments :: "Comment list"

record PollState = base_state +
  poll :: "PollWithResults option"

record AnnouncementsState = base_state +
  announcements :: "Announcement list"
  dismissed :: "int set"

record ViewCountsState = base_state +
  pageId :: string
  views :: int
  uniqueVisitors :: int

subsection \<open>The observable state cell\<close>

text \<open>
  A listener is a callback; the model knows it by its identity and records every
  invocation of it, with the snapshot it was given, in \<open>delivered\<close>. In \<open>notify\<close>
  and \<open>subscribe\<close> here the listeners return normally and leave the controller alone;
  \<open>notify_with\<close> and \<open>subscribe_with\<close> further down are the same methods for
  listeners that may throw or call back.

  \<open>listeners\<close> is the \<open>Set\<close> of callbacks in insertion order. \<open>requests\<close> is the
  sequence of transport calls issued so far.
\<close>

type_synonym listener = nat

record 's cell =
  config :: JamWidgetsConfig
  listeners :: "listener list"
  state :: 's
  delivered :: "(listener \<times> 's) list"
  requests :: "request list"

text \<open>\<open>Set.prototype.add\<close> and \<open>Set.prototype.delete\<close>.\<close>

definition set_add :: "'a \<Rightarrow> 'a list \<Rightarrow> 'a list" where
  "set_add x xs = (if x \<in> set xs then xs else xs @ [x])"

definition set_delete :: "'a \<Rightarrow> 'a list \<Rightarrow> 'a list" where
  "set_delete x xs = removeAll x xs"

text \<open>
  \<open>getState()\<close> returns a copy of \<open>_state\<close>. As a value, the copy is the state; which
  objects the copy shares with \<open>_state\<close> is the subject of the reference-level
  model below.
\<close>

definition getState :: "('s, 'z) cell_scheme \<Rightarrow> 's" where
  "getState c = state c"

definition notify :: "('s, 'z) cell_scheme \<Rightarrow> ('s, 'z) cell_scheme" where
  "notify c =
     (let st = getState c
      in c\<lparr>delivered := delivered c @ map (\<lambda>l. (l, st)) (listeners c)\<rparr>)"

text \<open>
  \<open>subscribe(listener)\<close> adds the listener, calls it with the current state and returns
  the closure \<open>() => this.listeners.delete(listener)\<close>, a function of the controller
  it is later run on.
\<close>

definition unsubscribe :: "listener \<Rightarrow> ('s, 'z) cell_scheme \<Rightarrow> ('s, 'z) cell_scheme" where
  "unsubscribe l c = c\<lparr>listeners := set_delete l (listeners c)\<rparr>"

definition subscribe ::
  "('s, 'z) cell_scheme \<Rightarrow> listener \<Rightarrow>
   (('s, 'z) cell_scheme \<Rightarrow> ('s, 'z) cell_scheme) \<times> ('s, 'z) cell_scheme" where
  "subscribe c l =
     (let c1 = c\<lparr>listeners := set_add l (listeners c)\<rparr>;
          c2 = c1\<lparr>delivered := delivered c1 @ [(l, getState c1)]\<rparr>
      in (unsubscribe l, c2))"

text \<open>Issuing a transport call.\<close>

definition issue :: "request \<Rightarrow> ('s, 'z) cell_scheme \<Rightarrow> ('s, 'z) cell_scheme" where
  "issue r c = c\<lparr>requests := requests c @ [r]\<rparr>"

definition new_cell :: "JamWidgetsConfig \<Rightarrow> 's \<Rightarrow> 's cell" where
  "new_cell cfg s =
     \<lparr>config = cfg, listeners = [], state = s, delivered = [], requests = []\<rparr>"

subsection \<open>SubscribeController\<close>

type_synonym SubscribeController = "SubscribeState cell"

definition new_SubscribeController :: "JamWidgetsConfig \<Rightarrow> SubscribeController" where
  "new_SubscribeController cfg =
     new_cell cfg \<lparr>status = Idle, error = None, message = None\<rparr>"

definition Subscribe_submit_call :: "SubscribeController \<Rightarrow> string \<Rightarrow> SubscribeController" where
  "Subscribe_submit_call c email =
     issue (Call_subscribe (config c) email)
       (notify (c\<lparr>state := \<lparr>status = Loading, error = None, message = None\<rparr>\<rparr>))"

definition Subscribe_submit_settle ::
  "SubscribeController \<Rightarrow> SubscribeResponse settled \<Rightarrow>
   (js_error + SubscribeResponse) \<times> SubscribeController" where
  "Subscribe_submit_settle c outcome =
     (case outcome of
        Fulfilled result \<Rightarrow>
          (Inr result,
           notify (c\<lparr>state := \<lparr>status = Success, error = None,
                                 message = Some (MessageResponse.message result)\<rparr>\<rparr>))
      | Rejected e \<Rightarrow>
          (let err = to_error e
           in (Inl err,
               notify (c\<lparr>state := \<lparr>status = Error, error = Some err,
                                     message = Some (error_message err)\<rparr>\<rparr>))))"

definition Subscribe_submit ::
  "SubscribeController \<Rightarrow> string \<Rightarrow> SubscribeResponse settled \<Rightarrow>
   (js_error + SubscribeResponse) \<times> SubscribeController" where
  "Subscribe_submit c email outcome =
     Subscribe_submit_settle (Subscribe_submit_call c email) outcome"

definition Subscribe_reset :: "SubscribeController \<Rightarrow> SubscribeController" where
  "Subscribe_reset c =
     notify (c\<lparr>state := \<lparr>status = Idle, error = None, message = None\<rparr>\<rparr>)"

subsection \<open>WaitlistController\<close>

type_synonym WaitlistController = "WaitlistState cell"

text \<open>The optional second argument of \<open>join\<close>, \<open>{name?, source?}\<close>.\<close>

record JoinOptions =
  opt_name :: "string option"
  opt_source :: "string option"

definition new_WaitlistController :: "JamWidgetsConfig \<Rightarrow> WaitlistController" where
  "new_WaitlistController cfg =
     new_cell cfg \<lparr>status = Idle, error = None, message = None, position = None\<rparr>"

definition Waitlist_join_call ::
  "WaitlistController \<Rightarrow> string \<Rightarrow> JoinOptions option \<Rightarrow> WaitlistController" where
  "Waitlist_join_call c email opts =
     issue (Call_joinWaitlist (config c) email (Option.bind opts opt_name) (Option.bind opts opt_source))
       (notify (c\<lparr>state := \<lparr>status = Loading, error = None, message = None,
                             position = None\<rparr>\<rparr>))"

definition Waitlist_join_settle ::
  "WaitlistController \<Rightarrow> JoinWaitlistResponse settled \<Rightarrow>
   (js_error + JoinWaitlistResponse) \<times> WaitlistController" where
  "Waitlist_join_settle c outcome =
     (case outcome of
        Fulfilled result \<Rightarrow>
          (Inr result,
           notify (c\<lparr>state := \<lparr>status = Success, error = None,
                                 message = Some (MessageResponse.message result),
                                 position = JoinWaitlistResponse.position result\<rparr>\<rparr>))
      | Rejected e \<Rightarrow>
          (let err = to_error e
           in (Inl err,
               notify (c\<lparr>state := \<lparr>status = Error, error = Some err,
                                     message = Some (error_message err),
                                     position = None\<rparr>\<rparr>))))"

definition Waitlist_join ::
  "WaitlistController \<Rightarrow> string \<Rightarrow> JoinOptions option \<Rightarrow> JoinWaitlistResponse settled \<Rightarrow>
   (js_error + JoinWaitlistResponse) \<times> WaitlistController" where
  "Waitlist_join c email opts outcome =
     Waitlist_join_settle (Waitlist_join_call c email opts) outcome"

definition Waitlist_reset :: "WaitlistController \<Rightarrow> WaitlistController" where
  "Waitlist_reset c =
     notify (c\<lparr>state := \<lparr>status = Idle, error = None, message = None, position = None\<rparr>\<rparr>)"

subsection \<open>FormController\<close>

text \<open>
  \<open>loadTime\<close> is \<open>Math.floor(Date.now() / 1000)\<close>; the clock reading \<open>now\<close>, in
  milliseconds, is an argument of the constructor and of \<open>reset\<close>.
\<close>

record 's form_cell = "'s cell" +
  formSlug :: string
  loadTime :: int

type_synonym FormController = "FormState form_cell"

definition new_FormController :: "JamWidgetsConfig \<Rightarrow> string \<Rightarrow> int \<Rightarrow> FormController" where
  "new_FormController cfg slug now =
     \<lparr>config = cfg, listeners = [],
      state = \<lparr>status = Idle, error = None, message = None\<rparr>,
      delivered = [], requests = [], formSlug = slug, loadTime = now div 1000\<rparr>"

definition Form_submit_call ::
  "FormController \<Rightarrow> (string \<times> js_value) list \<Rightarrow> FormController" where
  "Form_submit_call c data =
     issue (Call_submitForm (config c) (formSlug c) data (loadTime c))
       (notify (c\<lparr>state := \<lparr>status = Loading, error = None, message = None\<rparr>\<rparr>))"

definition Form_submit_settle ::
  "FormController \<Rightarrow> FormSubmitResponse settled \<Rightarrow>
   (js_error + FormSubmitResponse) \<times> FormController" where
  "Form_submit_settle c outcome =
     (case outcome of
        Fulfilled result \<Rightarrow>
          (Inr result,
           notify (c\<lparr>state := \<lparr>status = Success, error = None,
                                 message = Some (MessageResponse.message result)\<rparr>\<rparr>))
      | Rejected e \<Rightarrow>
          (let err = to_error e
           in (Inl err,
               notify (c\<lparr>state := \<lparr>status = Error, error = Some err,
                                     message = Some (error_message err)\<rparr>\<rparr>))))"

definition Form_submit ::
  "FormController \<Rightarrow> (string \<times> js_value) list \<Rightarrow> FormSubmitResponse settled \<Rightarrow>
   (js_error + FormSubmitResponse) \<times> FormController" where
  "Form_submit c data outcome = Form_submit_settle (Form_submit_call c data) outcome"

definition Form_reset :: "FormController \<Rightarrow> int \<Rightarrow> FormController" where
  "Form_reset c now =
     notify (c\<lparr>state := \<lparr>status = Idle, error = None, message = None\<rparr>,
               loadTime := now div 1000\<rparr>)"

subsection \<open>FeedbackController\<close>

type_synonym FeedbackController = "FeedbackState cell"

text \<open>The optional third argument of \<open>submit\<close>, \<open>{email?, pageUrl?}\<close>.\<close>

record FeedbackOptions =
  opt_email :: "string option"
  opt_pageUrl :: "string option"

definition new_FeedbackController :: "JamWidgetsConfig \<Rightarrow> FeedbackController" where
  "new_FeedbackController cfg =
     new_cell cfg \<lparr>status = Idle, error = None, message = None\<rparr>"

definition Feedback_submit_call ::
  "FeedbackController \<Rightarrow> FeedbackType \<Rightarrow> string \<Rightarrow> FeedbackOptions option \<Rightarrow>
   FeedbackController" where
  "Feedback_submit_call c type content opts =
     issue (Call_submitFeedback (config c) type content
              (Option.bind opts opt_email) (Option.bind opts opt_pageUrl))
       (notify (c\<lparr>state := \<lparr>status = Loading, error = None, message = None\<rparr>\<rparr>))"

definition Feedback_submit_settle ::
  "FeedbackController \<Rightarrow> SubmitFeedbackResponse settled \<Rightarrow>
   (js_error + SubmitFeedbackResponse) \<times> FeedbackController" where
  "Feedback_submit_settle c outcome =
     (case outcome of
        Fulfilled result \<Rightarrow>
          (Inr result,
           notify (c\<lparr>state := \<lparr>status = Success, error = None,
                                 message = Some (MessageResponse.message result)\<rparr>\<rparr>))
      | Rejected e \<Rightarrow>
          (let err = to_error e
           in (Inl err,
               notify (c\<lparr>state := \<lparr>status = Error, error = Some err,
                                     message = Some (error_message err)\<rparr>\<rparr>))))"

definition Feedback_submit ::
  "FeedbackController \<Rightarrow> FeedbackType \<Rightarrow> string \<Rightarrow> FeedbackOptions option \<Rightarrow>
   SubmitFeedbackResponse settled \<Rightarrow>
   (js_error + SubmitFeedbackResponse) \<times> FeedbackController" where
  "Feedback_submit c type content opts outcome =
     Feedback_submit_settle (Feedback_submit_call c type content opts) outcome"

definition Feedback_reset :: "FeedbackController \<Rightarrow> FeedbackController" where
  "Feedback_reset c =
     notify (c\<lparr>state := \<lparr>status = Idle, error = None, message = None\<rparr>\<rparr>)"

subsection \<open>ReactionsController\<close>

text \<open>A controller bound to a page: \<open>ReactionsController\<close>, \<open>CommentsController\<close>,
  \<open>ViewCountsController\<close> have the private field \<open>pageId\<close>.\<close>

record 's page_cell = "'s cell" +
  pageId :: string

type_synonym ReactionsController = "ReactionsState page_cell"

definition new_ReactionsController :: "JamWidgetsConfig \<Rightarrow> string \<Rightarrow> ReactionsController" where
  "new_ReactionsController cfg pid =
     \<lparr>config = cfg, listeners = [],
      state = \<lparr>status = Idle, error = None, counts = Map.empty, userReactions = []\<rparr>,
      delivered = [], requests = [], pageId = pid\<rparr>"

definition Reactions_fetch_call :: "ReactionsController \<Rightarrow> ReactionsController" where
  "Reactions_fetch_call c =
     issue (Call_fetchReactions (config c) (pageId c))
       (notify (c\<lparr>state := (state c)\<lparr>status := Loading, error := None\<rparr>\<rparr>))"

definition Reactions_fetch_settle ::
  "ReactionsController \<Rightarrow> FetchReactionsResponse settled \<Rightarrow>
   (js_error + ReactionsState) \<times> ReactionsController" where
  "Reactions_fetch_settle c outcome =
     (case outcome of
        Fulfilled result \<Rightarrow>
          (let c1 = notify (c\<lparr>state := (state c)
                       \<lparr>counts := FetchReactionsResponse.counts result,
                        userReactions := FetchReactionsResponse.userReactions result,
                        status := Success, error := None\<rparr>\<rparr>)
           in (Inr (getState c1), c1))
      | Rejected e \<Rightarrow>
          (let err = to_error e
           in (Inl err, notify (c\<lparr>state := (state c)\<lparr>status := Error, error := Some err\<rparr>\<rparr>))))"

definition Reactions_fetch ::
  "ReactionsController \<Rightarrow> FetchReactionsResponse settled \<Rightarrow>
   (js_error + ReactionsState) \<times> ReactionsController" where
  "Reactions_fetch c outcome = Reactions_fetch_settle (Reactions_fetch_call c) outcome"

text \<open>The default parameter \<open>reactionType: string = "like"\<close>.\<close>

definition default_like :: "string option \<Rightarrow> string" where
  "default_like rt = (case rt of None \<Rightarrow> ''like'' | Some t \<Rightarrow> t)"

text \<open>
  The assignment \<open>counts[k] = v\<close> of a number on the plain object \<open>counts\<close>, whose
  own properties the map holds. An own property is overwritten, a new key is created;
  for the key \<open>__proto__\<close>, when it is not an own property, the assignment runs the
  setter inherited from \<open>Object.prototype\<close>, which ignores a number: no key is created.
\<close>

definition assign_key :: "(string \<rightharpoonup> int) \<Rightarrow> string \<Rightarrow> int \<Rightarrow> (string \<rightharpoonup> int)" where
  "assign_key m k v = (if k = ''__proto__'' \<and> m k = None then m else m(k \<mapsto> v))"

definition Reactions_add_call :: "ReactionsController \<Rightarrow> string option \<Rightarrow> ReactionsController" where
  "Reactions_add_call c rt =
     issue (Call_addReaction (config c) (pageId c) (default_like rt)) c"

definition Reactions_add_settle ::
  "ReactionsController \<Rightarrow> string option \<Rightarrow> ReactionResult settled \<Rightarrow>
   (js_error + unit) \<times> ReactionsController" where
  "Reactions_add_settle c rt outcome =
     (case outcome of
        Fulfilled result \<Rightarrow>
          (let s1 = (state c)\<lparr>counts := assign_key (counts (state c)) (default_like rt) (count result)\<rparr>;
               s2 = (if default_like rt \<notin> set (userReactions s1)
                     then s1\<lparr>userReactions := userReactions s1 @ [default_like rt]\<rparr>
                     else s1)
           in (Inr (), notify (c\<lparr>state := s2\<rparr>)))
      | Rejected e \<Rightarrow>
          (let err = to_error e
           in (Inl err, notify (c\<lparr>state := (state c)\<lparr>error := Some err\<rparr>\<rparr>))))"

definition Reactions_add ::
  "ReactionsController \<Rightarrow> string option \<Rightarrow> ReactionResult settled \<Rightarrow>
   (js_error + unit) \<times> ReactionsController" where
  "Reactions_add c rt outcome = Reactions_add_settle (Reactions_add_call c rt) rt outcome"

definition Reactions_remove_call :: "ReactionsController \<Rightarrow> string option \<Rightarrow> ReactionsController" where
  "Reactions_remove_call c rt =
     issue (Call_removeReaction (config c) (pageId c) (default_like rt)) c"

definition Reactions_remove_settle ::
  "ReactionsController \<Rightarrow> string option \<Rightarrow> ReactionResult settled \<Rightarrow>
   (js_error + unit) \<times> ReactionsController" where
  "Reactions_remove_settle c rt outcome =
     (case outcome of
        Fulfilled result \<Rightarrow>
          (let s1 = (state c)\<lparr>counts := assign_key (counts (state c)) (default_like rt) (count result)\<rparr>;
               s2 = s1\<lparr>userReactions := filter (\<lambda>r. r \<noteq> default_like rt) (userReactions s1)\<rparr>
           in (Inr (), notify (c\<lparr>state := s2\<rparr>)))
      | Rejected e \<Rightarrow>
          (let err = to_error e
           in (Inl err, notify (c\<lparr>state := (state c)\<lparr>error := Some err\<rparr>\<rparr>))))"

definition Reactions_remove ::
  "ReactionsController \<Rightarrow> string option \<Rightarrow> ReactionResult settled \<Rightarrow>
   (js_error + unit) \<times> ReactionsController" where
  "Reactions_remove c rt outcome =
     Reactions_remove_settle (Reactions_remove_call c rt) rt outcome"

subsection \<open>CommentsController\<close>

type_synonym CommentsController = "CommentsState page_cell"

text \<open>The optional third argument of \<open>post\<close>, \<open>{authorEmail?, parentId?}\<close>.\<close>

record PostOptions =
  opt_authorEmail :: "string option"
  opt_parentId :: "string option"

definition new_CommentsController :: "JamWidgetsConfig \<Rightarrow> string \<Rightarrow> CommentsController" where
  "new_CommentsController cfg pid =
     \<lparr>config = cfg, listeners = [],
      state = \<lparr>status = Idle, error = None, comments = []\<rparr>,
      delivered = [], requests = [], pageId = pid\<rparr>"

definition Comments_fetch_call :: "CommentsController \<Rightarrow> CommentsController" where
  "Comments_fetch_call c =
     issue (Call_fetchComments (config c) (pageId c))
       (notify (c\<lparr>state := (state c)\<lparr>status := Loading, error := None\<rparr>\<rparr>))"

definition Comments_fetch_settle ::
  "CommentsController \<Rightarrow> Comment list settled \<Rightarrow>
   (js_error + Comment list) \<times> CommentsController" where
  "Comments_fetch_settle c outcome =
     (case outcome of
        Fulfilled cs \<Rightarrow>
          (Inr cs, notify (c\<lparr>state := \<lparr>status = Success, error = None, comments = cs\<rparr>\<rparr>))
      | Rejected e \<Rightarrow>
          (let err = to_error e
           in (Inl err, notify (c\<lparr>state := (state c)\<lparr>status := Error, error := Some err\<rparr>\<rparr>))))"

definition Comments_fetch ::
  "CommentsController \<Rightarrow> Comment list settled \<Rightarrow>
   (js_error + Comment list) \<times> CommentsController" where
  "Comments_fetch c outcome = Comments_fetch_settle (Comments_fetch_call c) outcome"

definition Comments_post_call ::
  "CommentsController \<Rightarrow> string \<Rightarrow> string \<Rightarrow> PostOptions option \<Rightarrow> CommentsController" where
  "Comments_post_call c author body opts =
     issue (Call_postComment (config c) (pageId c) author body
              (Option.bind opts opt_authorEmail) (Option.bind opts opt_parentId)) c"

text \<open>The catch block of \<open>post\<close>.\<close>

definition Comments_post_catch ::
  "CommentsController \<Rightarrow> js_value \<Rightarrow> (js_error + Comment) \<times> CommentsController" where
  "Comments_post_catch c e =
     (let err = to_error e
      in (Inl err, notify (c\<lparr>state := (state c)\<lparr>error := Some err\<rparr>\<rparr>)))"

text \<open>
  \<open>post\<close> awaits twice: \<open>postComment\<close>, then \<open>this.fetch()\<close>. The second argument
  is how \<open>postComment\<close> settles, the third how the transport call made by the inner
  \<open>fetch()\<close> settles; the third is read only when the inner \<open>fetch()\<close> is reached.
\<close>

definition Comments_post ::
  "CommentsController \<Rightarrow> string \<Rightarrow> string \<Rightarrow> PostOptions option \<Rightarrow>
   Comment settled \<Rightarrow> Comment list settled \<Rightarrow>
   (js_error + Comment) \<times> CommentsController" where
  "Comments_post c author body opts post_outcome fetch_outcome =
     (let c0 = Comments_post_call c author body opts
      in case post_outcome of
           Rejected e \<Rightarrow> Comments_post_catch c0 e
         | Fulfilled comment \<Rightarrow>
             (case Comments_fetch c0 fetch_outcome of
                (Inl err, c2) \<Rightarrow> Comments_post_catch c2 (VError err)
              | (Inr cs, c2) \<Rightarrow> (Inr comment, c2)))"

subsection \<open>PollController\<close>

record 's slug_cell = "'s cell" +
  slug :: string

type_synonym PollController = "PollState slug_cell"

definition new_PollController :: "JamWidgetsConfig \<Rightarrow> string \<Rightarrow> PollController" where
  "new_PollController cfg sl =
     \<lparr>config = cfg, listeners = [],
      state = \<lparr>status = Idle, error = None, poll = None\<rparr>,
      delivered = [], requests = [], slug = sl\<rparr>"

definition Poll_fetch_call :: "PollController \<Rightarrow> PollController" where
  "Poll_fetch_call c =
     issue (Call_fetchPoll (config c) (slug c))
       (notify (c\<lparr>state := (state c)\<lparr>status := Loading, error := None\<rparr>\<rparr>))"

definition Poll_fetch_settle ::
  "PollController \<Rightarrow> PollWithResults settled \<Rightarrow>
   (js_error + PollWithResults) \<times> PollController" where
  "Poll_fetch_settle c outcome =
     (case outcome of
        Fulfilled p \<Rightarrow>
          (Inr p, notify (c\<lparr>state := \<lparr>status = Success, error = None, poll = Some p\<rparr>\<rparr>))
      | Rejected e \<Rightarrow>
          (let err = to_error e
           in (Inl err, notify (c\<lparr>state := (state c)\<lparr>status := Error, error := Some err\<rparr>\<rparr>))))"

definition Poll_fetch ::
  "PollController \<Rightarrow> PollWithResults settled \<Rightarrow>
   (js_error + PollWithResults) \<times> PollController" where
  "Poll_fetch c outcome = Poll_fetch_settle (Poll_fetch_call c) outcome"

definition Poll_vote_call :: "PollController \<Rightarrow> string list \<Rightarrow> PollController" where
  "Poll_vote_call c selectedOptions =
     issue (Call_votePoll (config c) (slug c) selectedOptions) c"

definition Poll_vote_settle ::
  "PollController \<Rightarrow> string list \<Rightarrow> VotePollResponse settled \<Rightarrow>
   (js_error + VotePollResponse) \<times> PollController" where
  "Poll_vote_settle c selectedOptions outcome =
     (case outcome of
        Fulfilled result \<Rightarrow>
          (let s1 = (case poll (state c) of
                       Some p \<Rightarrow>
                         (state c)\<lparr>poll := Some (p\<lparr>results := VotePollResponse.results result,
                                                     totalVotes := VotePollResponse.totalVotes result,
                                                     userVotes := Some selectedOptions\<rparr>)\<rparr>
                     | None \<Rightarrow> state c)
           in (Inr result, notify (c\<lparr>state := s1\<rparr>)))
      | Rejected e \<Rightarrow>
          (let err = to_error e
           in (Inl err, notify (c\<lparr>state := (state c)\<lparr>error := Some err\<rparr>\<rparr>))))"

definition Poll_vote ::
  "PollController \<Rightarrow> string list \<Rightarrow> VotePollResponse settled \<Rightarrow>
   (js_error + VotePollResponse) \<times> PollController" where
  "Poll_vote c selectedOptions outcome =
     Poll_vote_settle (Poll_vote_call c selectedOptions) selectedOptions outcome"

definition hasVoted :: "PollController \<Rightarrow> bool" where
  "hasVoted c =
     (case poll (state c) of
        None \<Rightarrow> False
      | Some p \<Rightarrow> (case userVotes p of None \<Rightarrow> False | Some vs \<Rightarrow> length vs > 0))"

subsection \<open>AnnouncementsController\<close>

type_synonym AnnouncementsController = "AnnouncementsState cell"

definition new_AnnouncementsController :: "JamWidgetsConfig \<Rightarrow> AnnouncementsController" where
  "new_AnnouncementsController cfg =
     new_cell cfg \<lparr>status = Idle, error = None, announcements = [], dismissed = {}\<rparr>"

definition getVisibleAnnouncements :: "AnnouncementsController \<Rightarrow> Announcement list" where
  "getVisibleAnnouncements c =
     filter (\<lambda>a. announcement_id a \<notin> dismissed (state c)) (announcements (state c))"

definition Announcements_fetch_call :: "AnnouncementsController \<Rightarrow> AnnouncementsController" where
  "Announcements_fetch_call c =
     issue (Call_fetchAnnouncements (config c))
       (notify (c\<lparr>state := (state c)\<lparr>status := Loading, error := None\<rparr>\<rparr>))"

definition Announcements_fetch_settle ::
  "AnnouncementsController \<Rightarrow> Announcement list settled \<Rightarrow>
   (js_error + Announcement list) \<times> AnnouncementsController" where
  "Announcements_fetch_settle c outcome =
     (case outcome of
        Fulfilled as \<Rightarrow>
          (Inr as, notify (c\<lparr>state := (state c)\<lparr>announcements := as, status := Success,
                                                error := None\<rparr>\<rparr>))
      | Rejected e \<Rightarrow>
          (let err = to_error e
           in (Inl err, notify (c\<lparr>state := (state c)\<lparr>status := Error, error := Some err\<rparr>\<rparr>))))"

definition Announcements_fetch ::
  "AnnouncementsController \<Rightarrow> Announcement list settled \<Rightarrow>
   (js_error + Announcement list) \<times> AnnouncementsController" where
  "Announcements_fetch c outcome =
     Announcements_fetch_settle (Announcements_fetch_call c) outcome"

definition Announcements_dismiss_call ::
  "AnnouncementsController \<Rightarrow> int \<Rightarrow> AnnouncementsController" where
  "Announcements_dismiss_call c announcementId =
     issue (Call_dismissAnnouncement (config c) announcementId) c"

definition Announcements_dismiss_settle ::
  "AnnouncementsController \<Rightarrow> int \<Rightarrow> unit settled \<Rightarrow>
   (js_error + unit) \<times> AnnouncementsController" where
  "Announcements_dismiss_settle c announcementId outcome =
     (case outcome of
        Fulfilled u \<Rightarrow>
          (Inr (), notify (c\<lparr>state := (state c)
                     \<lparr>dismissed := insert announcementId (dismissed (state c))\<rparr>\<rparr>))
      | Rejected e \<Rightarrow>
          (let err = to_error e
           in (Inl err, notify (c\<lparr>state := (state c)\<lparr>error := Some err\<rparr>\<rparr>))))"

definition Announcements_dismiss ::
  "AnnouncementsController \<Rightarrow> int \<Rightarrow> unit settled \<Rightarrow>
   (js_error + unit) \<times> AnnouncementsController" where
  "Announcements_dismiss c announcementId outcome =
     Announcements_dismiss_settle (Announcements_dismiss_call c announcementId)
       announcementId outcome"

subsection \<open>ViewCountsController\<close>

type_synonym ViewCountsController = "ViewCountsState page_cell"

definition new_ViewCountsController :: "JamWidgetsConfig \<Rightarrow> string \<Rightarrow> ViewCountsController" where
  "new_ViewCountsController cfg pid =
     \<lparr>config = cfg, listeners = [],
      state = \<lparr>status = Idle, error = None, ViewCountsState.pageId = pid,
               views = 0, uniqueVisitors = 0\<rparr>,
      delivered = [], requests = [], pageId = pid\<rparr>"

definition ViewCounts_fetch_call :: "ViewCountsController \<Rightarrow> ViewCountsController" where
  "ViewCounts_fetch_call c =
     issue (Call_getViewCounts (config c) (pageId c))
       (notify (c\<lparr>state := (state c)\<lparr>status := Loading, error := None\<rparr>\<rparr>))"

definition ViewCounts_fetch_settle ::
  "ViewCountsController \<Rightarrow> ViewCounts settled \<Rightarrow>
   (js_error + ViewCounts) \<times> ViewCountsController" where
  "ViewCounts_fetch_settle c outcome =
     (case outcome of
        Fulfilled vc \<Rightarrow>
          (Inr vc, notify (c\<lparr>state := (state c)
                     \<lparr>views := ViewCounts.views vc,
                      uniqueVisitors := ViewCounts.uniqueVisitors vc,
                      status := Success, error := None\<rparr>\<rparr>))
      | Rejected e \<Rightarrow>
          (let err = to_error e
           in (Inl err, notify (c\<lparr>state := (state c)\<lparr>status := Error, error := Some err\<rparr>\<rparr>))))"

definition ViewCounts_fetch ::
  "ViewCountsController \<Rightarrow> ViewCounts settled \<Rightarrow>
   (js_error + ViewCounts) \<times> ViewCountsController" where
  "ViewCounts_fetch c outcome = ViewCounts_fetch_settle (ViewCounts_fetch_call c) outcome"

definition ViewCounts_record_call :: "ViewCountsController \<Rightarrow> ViewCountsController" where
  "ViewCounts_record_call c = issue (Call_recordView (config c) (pageId c)) c"

definition ViewCounts_record_settle ::
  "ViewCountsController \<Rightarrow> RecordViewResponse settled \<Rightarrow>
   (js_error + RecordViewResponse) \<times> ViewCountsController" where
  "ViewCounts_record_settle c outcome =
     (case outcome of
        Fulfilled result \<Rightarrow>
          (Inr result, notify (c\<lparr>state := (state c)
                         \<lparr>views := ViewCounts.views result,
                          uniqueVisitors := ViewCounts.uniqueVisitors result\<rparr>\<rparr>))
      | Rejected e \<Rightarrow>
          (let err = to_error e
           in (Inl err, notify (c\<lparr>state := (state c)\<lparr>error := Some err\<rparr>\<rparr>))))"

definition ViewCounts_record ::
  "ViewCountsController \<Rightarrow> RecordViewResponse settled \<Rightarrow>
   (js_error + RecordViewResponse) \<times> ViewCountsController" where
  "ViewCounts_record c outcome = ViewCounts_record_settle (ViewCounts_record_call c) outcome"

subsection \<open>Histories of a controller\<close>

text \<open>
  What can happen to a controller instance, one event at a time: a listener is added or
  removed, a method is called (its synchronous part runs), or an awaited promise settles
  (the rest of the method runs). A history is a list of events applied to a freshly
  constructed controller; calls may overlap in any way. The results the methods return
  are dropped here. The lists also include those in which a settlement comes with no
  call before it, which no execution produces; what holds for every list holds for the
  executions.
\<close>

datatype Subscribe_event =
    Sub_subscribe listener
  | Sub_unsubscribe listener
  | Sub_submit_call string
  | Sub_submit_settle "SubscribeResponse settled"
  | Sub_reset

fun Subscribe_step :: "SubscribeController \<Rightarrow> Subscribe_event \<Rightarrow> SubscribeController" where
  "Subscribe_step c (Sub_subscribe l) = snd (subscribe c l)"
| "Subscribe_step c (Sub_unsubscribe l) = unsubscribe l c"
| "Subscribe_step c (Sub_submit_call e) = Subscribe_submit_call c e"
| "Subscribe_step c (Sub_submit_settle outcome) = snd (Subscribe_submit_settle c outcome)"
| "Subscribe_step c Sub_reset = Subscribe_reset c"

datatype Waitlist_event =
    Wait_subscribe listener
  | Wait_unsubscribe listener
  | Wait_join_call string "JoinOptions option"
  | Wait_join_settle "JoinWaitlistResponse settled"
  | Wait_reset

fun Waitlist_step :: "WaitlistController \<Rightarrow> Waitlist_event \<Rightarrow> WaitlistController" where
  "Waitlist_step c (Wait_subscribe l) = snd (subscribe c l)"
| "Waitlist_step c (Wait_unsubscribe l) = unsubscribe l c"
| "Waitlist_step c (Wait_join_call e opts) = Waitlist_join_call c e opts"
| "Waitlist_step c (Wait_join_settle outcome) = snd (Waitlist_join_settle c outcome)"
| "Waitlist_step c Wait_reset = Waitlist_reset c"

datatype Form_event =
    Form_subscribe listener
  | Form_unsubscribe listener
  | Form_submit_call_ev "(string \<times> js_value) list"
  | Form_submit_settle_ev "FormSubmitResponse settled"
  | Form_reset_ev int

fun Form_step :: "FormController \<Rightarrow> Form_event \<Rightarrow> FormController" where
  "Form_step c (Form_subscribe l) = snd (subscribe c l)"
| "Form_step c (Form_unsubscribe l) = unsubscribe l c"
| "Form_step c (Form_submit_call_ev d) = Form_submit_call c d"
| "Form_step c (Form_submit_settle_ev outcome) = snd (Form_submit_settle c outcome)"
| "Form_step c (Form_reset_ev now) = Form_reset c now"

datatype Feedback_event =
    Feed_subscribe listener
  | Feed_unsubscribe listener
  | Feed_submit_call FeedbackType string "FeedbackOptions option"
  | Feed_submit_settle "SubmitFeedbackResponse settled"
  | Feed_reset

fun Feedback_step :: "FeedbackController \<Rightarrow> Feedback_event \<Rightarrow> FeedbackController" where
  "Feedback_step c (Feed_subscribe l) = snd (subscribe c l)"
| "Feedback_step c (Feed_unsubscribe l) = unsubscribe l c"
| "Feedback_step c (Feed_submit_call t b opts) = Feedback_submit_call c t b opts"
| "Feedback_step c (Feed_submit_settle outcome) = snd (Feedback_submit_settle c outcome)"
| "Feedback_step c Feed_reset = Feedback_reset c"

datatype Reactions_event =
    Reac_subscribe listener
  | Reac_unsubscribe listener
  | Reac_fetch_call
  | Reac_fetch_settle "FetchReactionsResponse settled"
  | Reac_add_call "string option"
  | Reac_add_settle "string option" "ReactionResult settled"
  | Reac_remove_call "string option"
  | Reac_remove_settle "string option" "ReactionResult settled"

fun Reactions_step :: "ReactionsController \<Rightarrow> Reactions_event \<Rightarrow> ReactionsController" where
  "Reactions_step c (Reac_subscribe l) = snd (subscribe c l)"
| "Reactions_step c (Reac_unsubscribe l) = unsubscribe l c"
| "Reactions_step c Reac_fetch_call = Reactions_fetch_call c"
| "Reactions_step c (Reac_fetch_settle outcome) = snd (Reactions_fetch_settle c outcome)"
| "Reactions_step c (Reac_add_call rt) = Reactions_add_call c rt"
| "Reactions_step c (Reac_add_settle rt outcome) = snd (Reactions_add_settle c rt outcome)"
| "Reactions_step c (Reac_remove_call rt) = Reactions_remove_call c rt"
| "Reactions_step c (Reac_remove_settle rt outcome) = snd (Reactions_remove_settle c rt outcome)"

text \<open>
  In \<open>post\<close>, \<open>Comm_post_settle\<close> is the settlement of \<open>postComment\<close>: fulfilled, the
  method calls \<open>this.fetch()\<close> and waits again; rejected, it runs its catch block.
  \<open>Comm_post_resume\<close> is the return of the inner \<open>fetch()\<close> into \<open>post\<close>: with an
  error the catch block runs, without one \<open>post\<close> returns.
\<close>

datatype Comments_event =
    Comm_subscribe listener
  | Comm_unsubscribe listener
  | Comm_fetch_call
  | Comm_fetch_settle "Comment list settled"
  | Comm_post_call string string "PostOptions option"
  | Comm_post_settle "Comment settled"
  | Comm_post_resume "js_error option"

fun Comments_step :: "CommentsController \<Rightarrow> Comments_event \<Rightarrow> CommentsController" where
  "Comments_step c (Comm_subscribe l) = snd (subscribe c l)"
| "Comments_step c (Comm_unsubscribe l) = unsubscribe l c"
| "Comments_step c Comm_fetch_call = Comments_fetch_call c"
| "Comments_step c (Comm_fetch_settle outcome) = snd (Comments_fetch_settle c outcome)"
| "Comments_step c (Comm_post_call a b opts) = Comments_post_call c a b opts"
| "Comments_step c (Comm_post_settle (Fulfilled cm)) = Comments_fetch_call c"
| "Comments_step c (Comm_post_settle (Rejected e)) = snd (Comments_post_catch c e)"
| "Comments_step c (Comm_post_resume (Some err)) = snd (Comments_post_catch c (VError err))"
| "Comments_step c (Comm_post_resume None) = c"

datatype Poll_event =
    Poll_subscribe listener
  | Poll_unsubscribe listener
  | Poll_fetch_call_ev
  | Poll_fetch_settle_ev "PollWithResults settled"
  | Poll_vote_call_ev "string list"
  | Poll_vote_settle_ev "string list" "VotePollResponse settled"

fun Poll_step :: "PollController \<Rightarrow> Poll_event \<Rightarrow> PollController" where
  "Poll_step c (Poll_subscribe l) = snd (subscribe c l)"
| "Poll_step c (Poll_unsubscribe l) = unsubscribe l c"
| "Poll_step c Poll_fetch_call_ev = Poll_fetch_call c"
| "Poll_step c (Poll_fetch_settle_ev outcome) = snd (Poll_fetch_settle c outcome)"
| "Poll_step c (Poll_vote_call_ev sel) = Poll_vote_call c sel"
| "Poll_step c (Poll_vote_settle_ev sel outcome) = snd (Poll_vote_settle c sel outcome)"

datatype Announcements_event =
    Ann_subscribe listener
  | Ann_unsubscribe listener
  | Ann_fetch_call
  | Ann_fetch_settle "Announcement list settled"
  | Ann_dismiss_call int
  | Ann_dismiss_settle int "unit settled"

fun Announcements_step ::
  "AnnouncementsController \<Rightarrow> Announcements_event \<Rightarrow> AnnouncementsController" where
  "Announcements_step c (Ann_subscribe l) = snd (subscribe c l)"
| "Announcements_step c (Ann_unsubscribe l) = unsubscribe l c"
| "Announcements_step c Ann_fetch_call = Announcements_fetch_call c"
| "Announcements_step c (Ann_fetch_settle outcome) = snd (Announcements_fetch_settle c outcome)"
| "Announcements_step c (Ann_dismiss_call i) = Announcements_dismiss_call c i"
| "Announcements_step c (Ann_dismiss_settle i outcome) =
     snd (Announcements_dismiss_settle c i outcome)"

datatype ViewCounts_event =
    View_subscribe listener
  | View_unsubscribe listener
  | View_fetch_call
  | View_fetch_settle "ViewCounts settled"
  | View_record_call
  | View_record_settle "RecordViewResponse settled"

fun ViewCounts_step :: "ViewCountsController \<Rightarrow> ViewCounts_event \<Rightarrow> ViewCountsController" where
  "ViewCounts_step c (View_subscribe l) = snd (subscribe c l)"
| "ViewCounts_step c (View_unsubscribe l) = unsubscribe l c"
| "ViewCounts_step c View_fetch_call = ViewCounts_fetch_call c"
| "ViewCounts_step c (View_fetch_settle outcome) = snd (ViewCounts_fetch_settle c outcome)"
| "ViewCounts_step c View_record_call = ViewCounts_record_call c"
| "ViewCounts_step c (View_record_settle outcome) = snd (ViewCounts_record_settle c outcome)"

text \<open>The two readings of the status invariant.\<close>

definition error_iff_Error :: "'a base_state_scheme \<Rightarrow> bool" where
  "error_iff_Error s = ((error s \<noteq> None) = (status s = Error))"

definition Error_has_error :: "'a base_state_scheme \<Rightarrow> bool" where
  "Error_has_error s = (status s = Error \<longrightarrow> error s \<noteq> None)"

subsection \<open>Reference-level model of \<open>getState()\<close>\<close>

text \<open>
  Objects live in a heap and are known by their address; a field holds a primitive value
  or a reference. A plain object (a record, or a \<open>Record<string, number>\<close>) is its
  list of properties in insertion order, an array and a \<open>Set\<close> are their elements in
  order. The heap is the list of objects allocated so far, the address of an object its
  position.
\<close>

type_synonym addr = nat

datatype hval = HNull | HBool bool | HNum int | HStr string | HRef addr

datatype obj =
    Object "(string \<times> hval) list"
  | Array "hval list"
  | SetObj "hval list"

type_synonym heap = "obj list"

text \<open>Allocation of a new object.\<close>

definition alloc :: "heap \<Rightarrow> obj \<Rightarrow> hval \<times> heap" where
  "alloc h ob = (HRef (length h), h @ [ob])"

text \<open>
  The own properties of \<open>v\<close>, as the spread \<open>{ ...v }\<close> reads them (none for a value
  that is not a plain object), and the elements of \<open>v\<close>, as \<open>[...v]\<close> and
  \<open>new Set(v)\<close> iterate them. Iterating a value that is not an array or a set
  yields nothing here, where JavaScript throws a \<open>TypeError\<close>; on a state of its
  TypeScript type the controllers spread objects and iterate arrays and sets only.
\<close>

definition props_of :: "heap \<Rightarrow> hval \<Rightarrow> (string \<times> hval) list" where
  "props_of h v =
     (case v of
        HRef a \<Rightarrow> (if a < length h then (case h ! a of Object ps \<Rightarrow> ps | _ \<Rightarrow> []) else [])
      | _ \<Rightarrow> [])"

definition elems_of :: "heap \<Rightarrow> hval \<Rightarrow> hval list" where
  "elems_of h v =
     (case v of
        HRef a \<Rightarrow>
          (if a < length h
           then (case h ! a of Array vs \<Rightarrow> vs | SetObj vs \<Rightarrow> vs | Object ps \<Rightarrow> [])
           else [])
      | _ \<Rightarrow> [])"

text \<open>The property read \<open>v.k\<close>, and the property write of an object literal.\<close>

definition js_get :: "heap \<Rightarrow> hval \<Rightarrow> string \<Rightarrow> hval" where
  "js_get h v k = (case map_of (props_of h v) k of Some x \<Rightarrow> x | None \<Rightarrow> HNull)"

fun set_prop :: "string \<Rightarrow> 'v \<Rightarrow> (string \<times> 'v) list \<Rightarrow> (string \<times> 'v) list" where
  "set_prop k v [] = [(k, v)]"
| "set_prop k v ((k', v') # ps) =
     (if k' = k then (k, v) # ps else (k', v') # set_prop k v ps)"

text \<open>\<open>{ ...v }\<close>, \<open>[...v]\<close> and \<open>new Set(v)\<close>: each allocates one new object.\<close>

definition spread_object :: "heap \<Rightarrow> hval \<Rightarrow> hval \<times> heap" where
  "spread_object h v = alloc h (Object (props_of h v))"

definition spread_array :: "heap \<Rightarrow> hval \<Rightarrow> hval \<times> heap" where
  "spread_array h v = alloc h (Array (elems_of h v))"

definition new_Set :: "heap \<Rightarrow> hval \<Rightarrow> hval \<times> heap" where
  "new_Set h v = alloc h (SetObj (rev (remdups (rev (elems_of h v)))))"

text \<open>
  The nine \<open>getState()\<close> methods, on the heap \<open>h\<close> with \<open>this._state\<close> at address
  \<open>st\<close>; the result is the snapshot and the heap after the allocations. Six of them
  are \<open>{ ...this._state }\<close>. The other three also copy the containers named in the
  object literal; the literal is allocated after its property values.
\<close>

definition Subscribe_getState_ref :: "heap \<Rightarrow> addr \<Rightarrow> hval \<times> heap" where
  "Subscribe_getState_ref h st = spread_object h (HRef st)"

definition Waitlist_getState_ref :: "heap \<Rightarrow> addr \<Rightarrow> hval \<times> heap" where
  "Waitlist_getState_ref h st = spread_object h (HRef st)"

definition Form_getState_ref :: "heap \<Rightarrow> addr \<Rightarrow> hval \<times> heap" where
  "Form_getState_ref h st = spread_object h (HRef st)"

definition Feedback_getState_ref :: "heap \<Rightarrow> addr \<Rightarrow> hval \<times> heap" where
  "Feedback_getState_ref h st = spread_object h (HRef st)"

definition Poll_getState_ref :: "heap \<Rightarrow> addr \<Rightarrow> hval \<times> heap" where
  "Poll_getState_ref h st = spread_object h (HRef st)"

definition ViewCounts_getState_ref :: "heap \<Rightarrow> addr \<Rightarrow> hval \<times> heap" where
  "ViewCounts_getState_ref h st = spread_object h (HRef st)"

definition Reactions_getState_ref :: "heap \<Rightarrow> addr \<Rightarrow> hval \<times> heap" where
  "Reactions_getState_ref h st =
     (let (c, h1) = spread_object h (js_get h (HRef st) ''counts'');
          (u, h2) = spread_array h1 (js_get h1 (HRef st) ''userReactions'')
      in alloc h2 (Object (set_prop ''userReactions'' u
                     (set_prop ''counts'' c (props_of h2 (HRef st))))))"

definition Comments_getState_ref :: "heap \<Rightarrow> addr \<Rightarrow> hval \<times> heap" where
  "Comments_getState_ref h st =
     (let (cs, h1) = spread_array h (js_get h (HRef st) ''comments'')
      in alloc h1 (Object (set_prop ''comments'' cs (props_of h1 (HRef st)))))"

definition Announcements_getState_ref :: "heap \<Rightarrow> addr \<Rightarrow> hval \<times> heap" where
  "Announcements_getState_ref h st =
     (let (as, h1) = spread_array h (js_get h (HRef st) ''announcements'');
          (d, h2) = new_Set h1 (js_get h1 (HRef st) ''dismissed'')
      in alloc h2 (Object (set_prop ''dismissed'' d
                     (set_prop ''announcements'' as (props_of h2 (HRef st))))))"

text \<open>
  What a holder of a value can read through it, down to depth \<open>n\<close>: the value as a
  tree, with addresses forgotten.
\<close>

datatype tree =
    TNull | TBool bool | TNum int | TStr string | TCut | TDangling
  | TObject "(string \<times> tree) list"
  | TArray "tree list"
  | TSet "tree list"

definition prim_tree :: "hval \<Rightarrow> tree" where
  "prim_tree v =
     (case v of
        HNull \<Rightarrow> TNull
      | HBool b \<Rightarrow> TBool b
      | HNum i \<Rightarrow> TNum i
      | HStr s \<Rightarrow> TStr s
      | HRef a \<Rightarrow> TCut)"

definition tree_of_obj :: "(hval \<Rightarrow> tree) \<Rightarrow> obj \<Rightarrow> tree" where
  "tree_of_obj f ob =
     (case ob of
        Object ps \<Rightarrow> TObject (map (\<lambda>(k, v). (k, f v)) ps)
      | Array vs \<Rightarrow> TArray (map f vs)
      | SetObj vs \<Rightarrow> TSet (map f vs))"

primrec reify :: "nat \<Rightarrow> heap \<Rightarrow> hval \<Rightarrow> tree" where
  "reify 0 h v = prim_tree v"
| "reify (Suc n) h v =
     (case v of
        HRef a \<Rightarrow> (if a < length h then tree_of_obj (reify n h) (h ! a) else TDangling)
      | _ \<Rightarrow> prim_tree v)"

definition observe :: "nat \<Rightarrow> hval \<times> heap \<Rightarrow> tree" where
  "observe n p = reify n (snd p) (fst p)"

text \<open>A heap is closed when every reference in it points to an allocated object.\<close>

definition val_ok :: "nat \<Rightarrow> hval \<Rightarrow> bool" where
  "val_ok n v = (case v of HRef a \<Rightarrow> a < n | _ \<Rightarrow> True)"

fun obj_vals :: "obj \<Rightarrow> hval list" where
  "obj_vals (Object ps) = map snd ps"
| "obj_vals (Array vs) = vs"
| "obj_vals (SetObj vs) = vs"

definition closed :: "heap \<Rightarrow> bool" where
  "closed h = list_all (\<lambda>ob. list_all (val_ok (length h)) (obj_vals ob)) h"

text \<open>
  \<open>target[k] = v\<close> on a plain object, for a primitive \<open>v\<close>; as in \<open>assign_key\<close>, the
  key \<open>__proto__\<close> that is not an own property is left to the inherited setter.
\<close>

definition js_assign :: "heap \<Rightarrow> hval \<Rightarrow> string \<Rightarrow> hval \<Rightarrow> heap" where
  "js_assign h target k v =
     (case target of
        HRef a \<Rightarrow>
          (if a < length h
           then (case h ! a of
                   Object ps \<Rightarrow>
                     (if k = ''__proto__'' \<and> map_of ps k = None then h
                      else h[a := Object (set_prop k v ps)])
                 | _ \<Rightarrow> h)
           else h)
      | _ \<Rightarrow> h)"

text \<open>\<open>H\<close> extends \<open>h\<close>: the objects of \<open>h\<close> are in \<open>H\<close>, unchanged.\<close>

definition extends :: "heap \<Rightarrow> heap \<Rightarrow> bool" where
  "extends H h = (length h \<le> length H \<and> (\<forall>a < length h. H ! a = h ! a))"

text \<open>What is seen of a freshly allocated object whose fields point into the old heap.\<close>

definition fresh_tree :: "nat \<Rightarrow> heap \<Rightarrow> obj \<Rightarrow> tree" where
  "fresh_tree n h ob = (case n of 0 \<Rightarrow> TCut | Suc m \<Rightarrow> tree_of_obj (reify m h) ob)"

text \<open>
  A loaded poll: the state record at address 0, the poll object at 1, its \<open>options\<close>,
  \<open>settings\<close>, \<open>results\<close> and \<open>userVotes\<close> at 2 to 5. \<open>poll_snapshot\<close> is what
  \<open>getState()\<close> returns; \<open>poll_heap_mutated\<close> is the heap after the holder of the
  snapshot runs \<open>snapshot.poll.results["opt-a"] = 99\<close>. \<open>reactions_heap\<close> is a
  reactions state after a fetch.
\<close>

definition poll_heap :: heap where
  "poll_heap =
     [Object [(''poll'', HRef 1), (''status'', HStr ''success''), (''error'', HNull)],
      Object [(''id'', HNum 7), (''question'', HStr ''Lunch?''), (''options'', HRef 2),
              (''settings'', HRef 3), (''isActive'', HBool True), (''results'', HRef 4),
              (''totalVotes'', HNum 1), (''userVotes'', HRef 5)],
      Array [HRef 6],
      Object [(''multiSelect'', HBool False), (''showResults'', HStr ''always'')],
      Object [(''opt-a'', HNum 1)],
      Array [HStr ''opt-a''],
      Object [(''id'', HStr ''opt-a''), (''text'', HStr ''Pizza'')]]"

definition poll_snapshot :: "hval \<times> heap" where
  "poll_snapshot = Poll_getState_ref poll_heap 0"

definition poll_heap_mutated :: heap where
  "poll_heap_mutated =
     js_assign (snd poll_snapshot)
       (js_get (snd poll_snapshot) (js_get (snd poll_snapshot) (fst poll_snapshot) ''poll'')
          ''results'')
       ''opt-a'' (HNum 99)"

definition reactions_heap :: heap where
  "reactions_heap =
     [Object [(''counts'', HRef 1), (''userReactions'', HRef 2), (''status'', HStr ''success''),
              (''error'', HNull)],
      Object [(''like'', HNum 3)],
      Array [HStr ''like'']]"

text \<open>
  A state of its declared type: the state record is a plain object, and the fields its
  \<open>getState()\<close> copies hold what the interface says, a plain object, an array, a
  \<open>Set\<close> (its elements distinct).
\<close>

definition holds_object :: "heap \<Rightarrow> hval \<Rightarrow> bool" where
  "holds_object h v =
     (case v of
        HRef a \<Rightarrow> a < length h \<and> (case h ! a of Object ps \<Rightarrow> True | _ \<Rightarrow> False)
      | _ \<Rightarrow> False)"

definition holds_array :: "heap \<Rightarrow> hval \<Rightarrow> bool" where
  "holds_array h v =
     (case v of
        HRef a \<Rightarrow> a < length h \<and> (case h ! a of Array vs \<Rightarrow> True | _ \<Rightarrow> False)
      | _ \<Rightarrow> False)"

definition holds_set :: "heap \<Rightarrow> hval \<Rightarrow> bool" where
  "holds_set h v =
     (case v of
        HRef a \<Rightarrow> a < length h \<and> (case h ! a of SetObj vs \<Rightarrow> distinct vs | _ \<Rightarrow> False)
      | _ \<Rightarrow> False)"

definition Reactions_typed :: "heap \<Rightarrow> addr \<Rightarrow> bool" where
  "Reactions_typed h s =
     (holds_object h (HRef s) \<and>
      holds_object h (js_get h (HRef s) ''counts'') \<and>
      holds_array h (js_get h (HRef s) ''userReactions''))"

definition Comments_typed :: "heap \<Rightarrow> addr \<Rightarrow> bool" where
  "Comments_typed h s =
     (holds_object h (HRef s) \<and> holds_array h (js_get h (HRef s) ''comments''))"

definition Announcements_typed :: "heap \<Rightarrow> addr \<Rightarrow> bool" where
  "Announcements_typed h s =
     (holds_object h (HRef s) \<and>
      holds_array h (js_get h (HRef s) ''announcements'') \<and>
      holds_set h (js_get h (HRef s) ''dismissed''))"

text \<open>A comments state and an announcements state after a fetch.\<close>

definition comments_heap :: heap where
  "comments_heap =
     [Object [(''comments'', HRef 1), (''status'', HStr ''success''), (''error'', HNull)],
      Array [HRef 2],
      Object [(''id'', HStr ''c1''), (''pageId'', HStr ''page''), (''authorName'', HStr ''Jane''),
              (''content'', HStr ''Hi''), (''createdAt'', HStr ''2024-01-01''),
              (''replies'', HRef 3)],
      Array []]"

definition announcements_heap :: heap where
  "announcements_heap =
     [Object [(''announcements'', HRef 1), (''dismissed'', HRef 2), (''status'', HStr ''success''),
              (''error'', HNull)],
      Array [HRef 3],
      SetObj [HNum 42],
      Object [(''id'', HNum 42), (''content'', HStr ''Maintenance tonight''),
              (''announcementType'', HStr ''info''), (''isDismissible'', HBool True)]]"

subsection \<open>Notions used in the statements\<close>

text \<open>What one \<open>notify()\<close> hands out: the current snapshot to every registered listener.\<close>

definition broadcast :: "('s, 'z) cell_scheme \<Rightarrow> (listener \<times> 's) list" where
  "broadcast c = map (\<lambda>l. (l, getState c)) (listeners c)"

text \<open>The snapshots a listener has been called with, in order.\<close>

definition deliveries_to :: "listener \<Rightarrow> ('s, 'z) cell_scheme \<Rightarrow> 's list" where
  "deliveries_to l c = map snd (filter (\<lambda>d. fst d = l) (delivered c))"

text \<open>Concrete inputs for the examples.\<close>

definition cfg0 :: JamWidgetsConfig where
  "cfg0 = \<lparr>siteKey = ''sk'', endpoint = None\<rparr>"

definition boom :: js_value where
  "boom = VError (JsError ''Failed to fetch'')"

definition ann42 :: Announcement where
  "ann42 = \<lparr>announcement_id = 42, announcement_content = ''Maintenance tonight'',
            announcementType = AInfo, linkUrl = None, linkText = None, isDismissible = True\<rparr>"

subsection \<open>Rejections of any shape, listeners that throw or call back\<close>

text \<open>
  Any value a promise can be rejected with or a listener can throw: one of the shapes
  above, an integral number, or any other value that is not an \<open>Error\<close>, given by what
  \<open>String()\<close> does on it: it returns a string (\<open>[object Object]\<close> for a plain
  object), or it throws (a \<open>TypeError\<close> for \<open>Object.create(null)\<close>, anything for an
  object whose \<open>toString\<close> throws).
\<close>

datatype js_any =
    Of js_value
  | VNumber int
  | VObject "js_any + string"

text \<open>\<open>String(i)\<close> on an integral number: its decimal digits.\<close>

fun digits :: "nat \<Rightarrow> string" where
  "digits n =
     (if n < 10 then [''0123456789'' ! n]
      else digits (n div 10) @ [''0123456789'' ! (n mod 10)])"

declare digits.simps [simp del]

definition String_number :: "int \<Rightarrow> string" where
  "String_number i = (if i < 0 then ''-'' @ digits (nat (- i)) else digits (nat i))"

text \<open>\<open>String(e)\<close>: the string, or what the conversion throws.\<close>

fun String_any :: "js_any \<Rightarrow> js_any + string" where
  "String_any (Of v) = Inr (js_String v)"
| "String_any (VNumber i) = Inr (String_number i)"
| "String_any (VObject r) = r"

text \<open>
  \<open>e instanceof Error ? e : new Error(String(e))\<close> on any value: the error, or what
  \<open>String(e)\<close> throws, which then leaves the catch block at its first line.
\<close>

fun to_error_any :: "js_any \<Rightarrow> js_any + js_error" where
  "to_error_any (Of (VError err)) = Inr err"
| "to_error_any e = (case String_any e of Inl t \<Rightarrow> Inl t | Inr s \<Rightarrow> Inr (JsError s))"

text \<open>
  A call of a listener returns or throws, and while it runs the listener may call the
  controller's public methods. The behaviour of the listeners is a function \<open>env\<close>:
  \<open>env l st k\<close> is how the call of listener \<open>l\<close> with snapshot \<open>st\<close> ends, and the
  controller it leaves, when the controller is \<open>k\<close> as the call starts. \<open>inert\<close> is
  the behaviour of listeners that return and leave the controller alone; a list of
  listeners is well behaved when each of them behaves so.
\<close>

datatype reaction = Returns | Throws js_any

type_synonym ('s, 'c) listener_env = "listener \<Rightarrow> 's \<Rightarrow> 'c \<Rightarrow> reaction \<times> 'c"

definition inert :: "('s, 'c) listener_env" where
  "inert l st k = (Returns, k)"

definition well_behaved :: "('s, 'c) listener_env \<Rightarrow> listener list \<Rightarrow> bool" where
  "well_behaved env ls = (\<forall>l \<in> set ls. \<forall>st k. env l st k = (Returns, k))"

text \<open>
  \<open>notify()\<close> with such listeners: \<open>const state = this.getState(); for (const listener
  of this.listeners) listener(state)\<close>, with no \<open>try\<close>: the first listener that throws
  ends the loop, and its exception is the outcome. The loop runs over the listeners
  registered when it starts.
\<close>

fun run_listeners ::
  "('s, ('s, 'z) cell_scheme) listener_env \<Rightarrow> 's \<Rightarrow> listener list \<Rightarrow> ('s, 'z) cell_scheme \<Rightarrow>
   js_any option \<times> ('s, 'z) cell_scheme" where
  "run_listeners env st [] c = (None, c)"
| "run_listeners env st (l # ls) c =
     (case env l st (c\<lparr>delivered := delivered c @ [(l, st)]\<rparr>) of
        (Returns, c') \<Rightarrow> run_listeners env st ls c'
      | (Throws t, c') \<Rightarrow> (Some t, c'))"

definition notify_with ::
  "('s, ('s, 'z) cell_scheme) listener_env \<Rightarrow> ('s, 'z) cell_scheme \<Rightarrow>
   js_any option \<times> ('s, 'z) cell_scheme" where
  "notify_with env c = run_listeners env (getState c) (listeners c) c"

text \<open>
  \<open>subscribe(listener)\<close> with such a listener: the listener is added, then called; the
  closure is returned only if the call returns.
\<close>

definition subscribe_with ::
  "('s, ('s, 'z) cell_scheme) listener_env \<Rightarrow> ('s, 'z) cell_scheme \<Rightarrow> listener \<Rightarrow>
   (js_any + (('s, 'z) cell_scheme \<Rightarrow> ('s, 'z) cell_scheme)) \<times> ('s, 'z) cell_scheme" where
  "subscribe_with env c l =
     (let c1 = c\<lparr>listeners := set_add l (listeners c)\<rparr>;
          st = getState c1
      in case env l st (c1\<lparr>delivered := delivered c1 @ [(l, st)]\<rparr>) of
           (Returns, c2) \<Rightarrow> (Inr (unsubscribe l), c2)
         | (Throws t, c2) \<Rightarrow> (Inl t, c2))"

text \<open>
  The catch blocks. All fifteen are \<open>const error = e instanceof Error ? e : new
  Error(String(e)); this._state = ...; this.notify(); throw error\<close> and differ in the
  state they store, the argument \<open>store\<close>. The result is the value the method throws
  and the controller it leaves.
\<close>

definition catch_with ::
  "('s, ('s, 'z) cell_scheme) listener_env \<Rightarrow> ('s \<Rightarrow> js_error \<Rightarrow> 's) \<Rightarrow>
   ('s, 'z) cell_scheme \<Rightarrow> js_any \<Rightarrow> js_any \<times> ('s, 'z) cell_scheme" where
  "catch_with env store c e =
     (case to_error_any e of
        Inl t \<Rightarrow> (t, c)
      | Inr err \<Rightarrow>
          (case notify_with env (c\<lparr>state := store (state c) err\<rparr>) of
             (Some t, c') \<Rightarrow> (t, c')
           | (None, c') \<Rightarrow> (Of (VError err), c')))"

text \<open>The catch block of each method, by the state it stores.\<close>

definition Subscribe_submit_catch_with ::
  "(SubscribeState, SubscribeController) listener_env \<Rightarrow> SubscribeController \<Rightarrow> js_any \<Rightarrow>
   js_any \<times> SubscribeController" where
  "Subscribe_submit_catch_with env c e =
     catch_with env
       (\<lambda>s err. \<lparr>status = Error, error = Some err, message = Some (error_message err)\<rparr>)
       c e"

definition Waitlist_join_catch_with ::
  "(WaitlistState, WaitlistController) listener_env \<Rightarrow> WaitlistController \<Rightarrow> js_any \<Rightarrow>
   js_any \<times> WaitlistController" where
  "Waitlist_join_catch_with env c e =
     catch_with env
       (\<lambda>s err. \<lparr>status = Error, error = Some err, message = Some (error_message err),
                  position = None\<rparr>)
       c e"

definition Form_submit_catch_with ::
  "(FormState, FormController) listener_env \<Rightarrow> FormController \<Rightarrow> js_any \<Rightarrow>
   js_any \<times> FormController" where
  "Form_submit_catch_with env c e =
     catch_with env
       (\<lambda>s err. \<lparr>status = Error, error = Some err, message = Some (error_message err)\<rparr>)
       c e"

definition Feedback_submit_catch_with ::
  "(FeedbackState, FeedbackController) listener_env \<Rightarrow> FeedbackController \<Rightarrow> js_any \<Rightarrow>
   js_any \<times> FeedbackController" where
  "Feedback_submit_catch_with env c e =
     catch_with env
       (\<lambda>s err. \<lparr>status = Error, error = Some err, message = Some (error_message err)\<rparr>)
       c e"

definition Reactions_fetch_catch_with ::
  "(ReactionsState, ReactionsController) listener_env \<Rightarrow> ReactionsController \<Rightarrow> js_any \<Rightarrow>
   js_any \<times> ReactionsController" where
  "Reactions_fetch_catch_with env c e =
     catch_with env (\<lambda>s err. s\<lparr>status := Error, error := Some err\<rparr>) c e"

definition Reactions_add_catch_with ::
  "(ReactionsState, ReactionsController) listener_env \<Rightarrow> ReactionsController \<Rightarrow> js_any \<Rightarrow>
   js_any \<times> ReactionsController" where
  "Reactions_add_catch_with env c e =
     catch_with env (\<lambda>s err. s\<lparr>error := Some err\<rparr>) c e"

definition Reactions_remove_catch_with ::
  "(ReactionsState, ReactionsController) listener_env \<Rightarrow> ReactionsController \<Rightarrow> js_any \<Rightarrow>
   js_any \<times> ReactionsController" where
  "Reactions_remove_catch_with env c e =
     catch_with env (\<lambda>s err. s\<lparr>error := Some err\<rparr>) c e"

definition Comments_fetch_catch_with ::
  "(CommentsState, CommentsController) listener_env \<Rightarrow> CommentsController \<Rightarrow> js_any \<Rightarrow>
   js_any \<times> CommentsController" where
  "Comments_fetch_catch_with env c e =
     catch_with env (\<lambda>s err. s\<lparr>status := Error, error := Some err\<rparr>) c e"

definition Comments_post_catch_with ::
  "(CommentsState, CommentsController) listener_env \<Rightarrow> CommentsController \<Rightarrow> js_any \<Rightarrow>
   js_any \<times> CommentsController" where
  "Comments_post_catch_with env c e =
     catch_with env (\<lambda>s err. s\<lparr>error := Some err\<rparr>) c e"

definition Poll_fetch_catch_with ::
  "(PollState, PollController) listener_env \<Rightarrow> PollController \<Rightarrow> js_any \<Rightarrow>
   js_any \<times> PollController" where
  "Poll_fetch_catch_with env c e =
     catch_with env (\<lambda>s err. s\<lparr>status := Error, error := Some err\<rparr>) c e"

definition Poll_vote_catch_with ::
  "(PollState, PollController) listener_env \<Rightarrow> PollController \<Rightarrow> js_any \<Rightarrow>
   js_any \<times> PollController" where
  "Poll_vote_catch_with env c e =
     catch_with env (\<lambda>s err. s\<lparr>error := Some err\<rparr>) c e"

definition Announcements_fetch_catch_with ::
  "(AnnouncementsState, AnnouncementsController) listener_env \<Rightarrow> AnnouncementsController \<Rightarrow> js_any \<Rightarrow>
   js_any \<times> AnnouncementsController" where
  "Announcements_fetch_catch_with env c e =
     catch_with env (\<lambda>s err. s\<lparr>status := Error, error := Some err\<rparr>) c e"

definition Announcements_dismiss_catch_with ::
  "(AnnouncementsState, AnnouncementsController) listener_env \<Rightarrow> AnnouncementsController \<Rightarrow> js_any \<Rightarrow>
   js_any \<times> AnnouncementsController" where
  "Announcements_dismiss_catch_with env c e =
     catch_with env (\<lambda>s err. s\<lparr>error := Some err\<rparr>) c e"

definition ViewCounts_fetch_catch_with ::
  "(ViewCountsState, ViewCountsController) listener_env \<Rightarrow> ViewCountsController \<Rightarrow> js_any \<Rightarrow>
   js_any \<times> ViewCountsController" where
  "ViewCounts_fetch_catch_with env c e =
     catch_with env (\<lambda>s err. s\<lparr>status := Error, error := Some err\<rparr>) c e"

definition ViewCounts_record_catch_with ::
  "(ViewCountsState, ViewCountsController) listener_env \<Rightarrow> ViewCountsController \<Rightarrow> js_any \<Rightarrow>
   js_any \<times> ViewCountsController" where
  "ViewCounts_record_catch_with env c e =
     catch_with env (\<lambda>s err. s\<lparr>error := Some err\<rparr>) c e"

text \<open>
  \<open>post\<close> when the transport call of the \<open>fetch()\<close> it awaits is rejected with \<open>e\<close>:
  the catch block of \<open>fetch\<close> runs, and what it throws is caught by \<open>post\<close>.
\<close>

definition Comments_post_fetch_rejected_with ::
  "(CommentsState, CommentsController) listener_env \<Rightarrow> CommentsController \<Rightarrow> js_any \<Rightarrow>
   js_any \<times> CommentsController" where
  "Comments_post_fetch_rejected_with env c e =
     (case Comments_fetch_catch_with env c e of
        (t, c1) \<Rightarrow> Comments_post_catch_with env c1 t)"

text \<open>
  What a catch block does with the error \<open>err\<close>, from the controller \<open>c\<close> it starts in
  to its outcome: it throws \<open>err\<close>, has stored it in the state, and has handed the new
  snapshot to every listener.
\<close>

definition surfaces ::
  "js_error \<Rightarrow> ('a base_state_scheme, 'z) cell_scheme \<Rightarrow>
   js_any \<times> ('a base_state_scheme, 'z) cell_scheme \<Rightarrow> bool" where
  "surfaces err c out =
     (fst out = Of (VError err) \<and>
      error (state (snd out)) = Some err \<and>
      listeners (snd out) = listeners c \<and>
      delivered (snd out) = delivered c @ broadcast (snd out))"

text \<open>
  Examples: listeners of which the first throws; a listener that throws; a listener that
  on its call calls \<open>reset()\<close>; a controller with two listeners waiting for the
  transport; the value \<open>Object.create(null)\<close>.
\<close>

definition first_throws :: "(SubscribeState, SubscribeController) listener_env" where
  "first_throws l st k =
     (if l = 1 then (Throws (Of (VString ''listener failed'')), k) else (Returns, k))"

definition thrower :: "(SubscribeState, SubscribeController) listener_env" where
  "thrower l st k = (Throws (Of (VString ''listener failed'')), k)"

definition resetter :: "(SubscribeState, SubscribeController) listener_env" where
  "resetter l st k = (Returns, Subscribe_reset k)"

definition waiting :: SubscribeController where
  "waiting =
     Subscribe_submit_call
       (snd (subscribe (snd (subscribe (new_SubscribeController cfg0) 1)) 2)) ''a@b.c''"

definition no_toString :: js_any where
  "no_toString =
     VObject (Inl (Of (VError (JsError ''Cannot convert object to primitive value''))))"

section \<open>Properties\<close>

subsection \<open>Frame facts of the cell operations\<close>

lemma state_notify: "state (notify c) = state c"
  by (simp add: notify_def)

lemma state_issue: "state (issue r c) = state c"
  by (simp add: issue_def)

lemma state_subscribe: "state (snd (subscribe c l)) = state c"
  by (simp add: subscribe_def Let_def)

lemma state_unsubscribe: "state (unsubscribe l c) = state c"
  by (simp add: unsubscribe_def)

lemmas cell_state_simps = state_notify state_issue state_subscribe state_unsubscribe

subsection \<open>The status invariant, step by step\<close>

lemma Subscribe_step_inv:
  "error_iff_Error (state c) \<Longrightarrow> error_iff_Error (state (Subscribe_step c e))"
  by (cases e)
     (auto simp: error_iff_Error_def cell_state_simps Subscribe_submit_call_def
        Subscribe_submit_settle_def Subscribe_reset_def Let_def split: settled.splits)

lemma Subscribe_run_inv:
  "error_iff_Error (state c) \<Longrightarrow> error_iff_Error (state (foldl Subscribe_step c es))"
  by (induction es arbitrary: c) (simp_all add: Subscribe_step_inv)

lemma Waitlist_step_inv:
  "error_iff_Error (state c) \<Longrightarrow> error_iff_Error (state (Waitlist_step c e))"
  by (cases e)
     (auto simp: error_iff_Error_def cell_state_simps Waitlist_join_call_def
        Waitlist_join_settle_def Waitlist_reset_def Let_def split: settled.splits)

lemma Waitlist_run_inv:
  "error_iff_Error (state c) \<Longrightarrow> error_iff_Error (state (foldl Waitlist_step c es))"
  by (induction es arbitrary: c) (simp_all add: Waitlist_step_inv)

lemma Form_step_inv:
  "error_iff_Error (state c) \<Longrightarrow> error_iff_Error (state (Form_step c e))"
  by (cases e)
     (auto simp: error_iff_Error_def cell_state_simps Form_submit_call_def
        Form_submit_settle_def Form_reset_def Let_def split: settled.splits)

lemma Form_run_inv:
  "error_iff_Error (state c) \<Longrightarrow> error_iff_Error (state (foldl Form_step c es))"
  by (induction es arbitrary: c) (simp_all add: Form_step_inv)

lemma Feedback_step_inv:
  "error_iff_Error (state c) \<Longrightarrow> error_iff_Error (state (Feedback_step c e))"
  by (cases e)
     (auto simp: error_iff_Error_def cell_state_simps Feedback_submit_call_def
        Feedback_submit_settle_def Feedback_reset_def Let_def split: settled.splits)

lemma Feedback_run_inv:
  "error_iff_Error (state c) \<Longrightarrow> error_iff_Error (state (foldl Feedback_step c es))"
  by (induction es arbitrary: c) (simp_all add: Feedback_step_inv)

lemma Reactions_step_inv:
  "Error_has_error (state c) \<Longrightarrow> Error_has_error (state (Reactions_step c e))"
  by (cases e)
     (auto simp: Error_has_error_def cell_state_simps Reactions_fetch_call_def
        Reactions_fetch_settle_def Reactions_add_call_def Reactions_add_settle_def
        Reactions_remove_call_def Reactions_remove_settle_def Let_def split: settled.splits)

lemma Reactions_run_inv:
  "Error_has_error (state c) \<Longrightarrow> Error_has_error (state (foldl Reactions_step c es))"
  by (induction es arbitrary: c) (simp_all add: Reactions_step_inv)

lemma Comments_step_inv:
  "Error_has_error (state c) \<Longrightarrow> Error_has_error (state (Comments_step c e))"
proof (cases e)
  case (Comm_post_settle x)
  assume "Error_has_error (state c)"
  with Comm_post_settle show ?thesis
    by (cases x) (auto simp: Error_has_error_def cell_state_simps Comments_fetch_call_def
        Comments_post_catch_def Let_def)
next
  case (Comm_post_resume x)
  assume "Error_has_error (state c)"
  with Comm_post_resume show ?thesis
    by (cases x) (auto simp: Error_has_error_def cell_state_simps
        Comments_post_catch_def Let_def)
qed (auto simp: Error_has_error_def cell_state_simps Comments_fetch_call_def
        Comments_fetch_settle_def Comments_post_call_def Let_def split: settled.splits)

lemma Comments_run_inv:
  "Error_has_error (state c) \<Longrightarrow> Error_has_error (state (foldl Comments_step c es))"
  by (induction es arbitrary: c) (simp_all add: Comments_step_inv)

lemma Poll_step_inv:
  "Error_has_error (state c) \<Longrightarrow> Error_has_error (state (Poll_step c e))"
  by (cases e)
     (auto simp: Error_has_error_def cell_state_simps Poll_fetch_call_def
        Poll_fetch_settle_def Poll_vote_call_def Poll_vote_settle_def Let_def
        split: settled.splits option.splits)

lemma Poll_run_inv:
  "Error_has_error (state c) \<Longrightarrow> Error_has_error (state (foldl Poll_step c es))"
  by (induction es arbitrary: c) (simp_all add: Poll_step_inv)

lemma Announcements_step_inv:
  "Error_has_error (state c) \<Longrightarrow> Error_has_error (state (Announcements_step c e))"
  by (cases e)
     (auto simp: Error_has_error_def cell_state_simps Announcements_fetch_call_def
        Announcements_fetch_settle_def Announcements_dismiss_call_def
        Announcements_dismiss_settle_def Let_def split: settled.splits)

lemma Announcements_run_inv:
  "Error_has_error (state c) \<Longrightarrow> Error_has_error (state (foldl Announcements_step c es))"
  by (induction es arbitrary: c) (simp_all add: Announcements_step_inv)

lemma ViewCounts_step_inv:
  "Error_has_error (state c) \<Longrightarrow> Error_has_error (state (ViewCounts_step c e))"
  by (cases e)
     (auto simp: Error_has_error_def cell_state_simps ViewCounts_fetch_call_def
        ViewCounts_fetch_settle_def ViewCounts_record_call_def
        ViewCounts_record_settle_def Let_def split: settled.splits)

lemma ViewCounts_run_inv:
  "Error_has_error (state c) \<Longrightarrow> Error_has_error (state (foldl ViewCounts_step c es))"
  by (induction es arbitrary: c) (simp_all add: ViewCounts_step_inv)

subsection \<open>C1: status and error\<close>

text \<open>
  C1, as stated, says that in every reachable state \<open>error\<close> is non-null exactly
  when \<open>status\<close> is \<open>Error\<close>. A rejected \<open>add()\<close> on a fresh \<open>ReactionsController\<close>
  runs the catch block \<open>this._state = { ...this._state, error }\<close>, which stores the
  error and keeps \<open>status = Idle\<close>.
\<close>

theorem status_invariant_counterexample:
  "\<not> error_iff_Error (state (foldl Reactions_step
       (new_ReactionsController \<lparr>siteKey = ''sk'', endpoint = None\<rparr> ''page'')
       [Reac_add_call None,
        Reac_add_settle None (Rejected (VError (JsError ''Failed to add reaction: Not Found'')))]))"
  by (simp add: error_iff_Error_def new_ReactionsController_def Reactions_add_call_def
        Reactions_add_settle_def cell_state_simps Let_def)

text \<open>
  C1, amended: in every reachable state of every controller, \<open>status = Error\<close> implies
  that \<open>error\<close> is non-null; in the Subscribe, Waitlist, Form and Feedback controllers,
  whose every write sets both fields, \<open>error\<close> is non-null exactly when
  \<open>status = Error\<close>. Reachable means: after any history of events from the
  constructor, overlapping calls included.
\<close>

theorem status_invariant_amended:
  "error_iff_Error (state (foldl Subscribe_step (new_SubscribeController cfg) es1)) \<and>
   error_iff_Error (state (foldl Waitlist_step (new_WaitlistController cfg) es2)) \<and>
   error_iff_Error (state (foldl Form_step (new_FormController cfg fs now) es3)) \<and>
   error_iff_Error (state (foldl Feedback_step (new_FeedbackController cfg) es4)) \<and>
   Error_has_error (state (foldl Reactions_step (new_ReactionsController cfg pid) es5)) \<and>
   Error_has_error (state (foldl Comments_step (new_CommentsController cfg pid) es6)) \<and>
   Error_has_error (state (foldl Poll_step (new_PollController cfg sl) es7)) \<and>
   Error_has_error (state (foldl Announcements_step (new_AnnouncementsController cfg) es8)) \<and>
   Error_has_error (state (foldl ViewCounts_step (new_ViewCountsController cfg pid) es9))"
proof -
  have "error_iff_Error (state (new_SubscribeController cfg))"
    by (simp add: error_iff_Error_def new_SubscribeController_def new_cell_def)
  then have s1: "error_iff_Error (state (foldl Subscribe_step (new_SubscribeController cfg) es1))"
    by (rule Subscribe_run_inv)
  have "error_iff_Error (state (new_WaitlistController cfg))"
    by (simp add: error_iff_Error_def new_WaitlistController_def new_cell_def)
  then have s2: "error_iff_Error (state (foldl Waitlist_step (new_WaitlistController cfg) es2))"
    by (rule Waitlist_run_inv)
  have "error_iff_Error (state (new_FormController cfg fs now))"
    by (simp add: error_iff_Error_def new_FormController_def)
  then have s3: "error_iff_Error (state (foldl Form_step (new_FormController cfg fs now) es3))"
    by (rule Form_run_inv)
  have "error_iff_Error (state (new_FeedbackController cfg))"
    by (simp add: error_iff_Error_def new_FeedbackController_def new_cell_def)
  then have s4: "error_iff_Error (state (foldl Feedback_step (new_FeedbackController cfg) es4))"
    by (rule Feedback_run_inv)
  have "Error_has_error (state (new_ReactionsController cfg pid))"
    by (simp add: Error_has_error_def new_ReactionsController_def)
  then have s5: "Error_has_error (state (foldl Reactions_step (new_ReactionsController cfg pid) es5))"
    by (rule Reactions_run_inv)
  have "Error_has_error (state (new_CommentsController cfg pid))"
    by (simp add: Error_has_error_def new_CommentsController_def)
  then have s6: "Error_has_error (state (foldl Comments_step (new_CommentsController cfg pid) es6))"
    by (rule Comments_run_inv)
  have "Error_has_error (state (new_PollController cfg sl))"
    by (simp add: Error_has_error_def new_PollController_def)
  then have s7: "Error_has_error (state (foldl Poll_step (new_PollController cfg sl) es7))"
    by (rule Poll_run_inv)
  have "Error_has_error (state (new_AnnouncementsController cfg))"
    by (simp add: Error_has_error_def new_AnnouncementsController_def new_cell_def)
  then have s8: "Error_has_error (state (foldl Announcements_step (new_AnnouncementsController cfg) es8))"
    by (rule Announcements_run_inv)
  have "Error_has_error (state (new_ViewCountsController cfg pid))"
    by (simp add: Error_has_error_def new_ViewCountsController_def)
  then have s9: "Error_has_error (state (foldl ViewCounts_step (new_ViewCountsController cfg pid) es9))"
    by (rule ViewCounts_run_inv)
  from s1 s2 s3 s4 s5 s6 s7 s8 s9 show ?thesis by blast
qed

theorem status_invariant_amended_witness:
  "status (state (foldl Reactions_step
       (new_ReactionsController \<lparr>siteKey = ''sk'', endpoint = None\<rparr> ''page'')
       [Reac_fetch_call, Reac_fetch_settle (Rejected (VString ''offline''))])) = Error \<and>
   error (state (foldl Reactions_step
       (new_ReactionsController \<lparr>siteKey = ''sk'', endpoint = None\<rparr> ''page'')
       [Reac_fetch_call, Reac_fetch_settle (Rejected (VString ''offline''))])) \<noteq> None"
proof -
  let ?c = "foldl Reactions_step
       (new_ReactionsController \<lparr>siteKey = ''sk'', endpoint = None\<rparr> ''page'')
       [Reac_fetch_call, Reac_fetch_settle (Rejected (VString ''offline''))]"
  have st: "status (state ?c) = Error"
    by (simp add: Reactions_fetch_call_def Reactions_fetch_settle_def cell_state_simps Let_def)
  have "Error_has_error (state ?c)"
    using status_invariant_amended
      [of "\<lparr>siteKey = ''sk'', endpoint = None\<rparr>" "[]" "[]" "[]" 0 "[]" "[]" "''page''"
          "[Reac_fetch_call, Reac_fetch_settle (Rejected (VString ''offline''))]" "[]" "''s''"
          "[]" "[]" "[]"]
    by blast
  with st show ?thesis by (simp add: Error_has_error_def)
qed

subsection \<open>Listeners that return are the listeners of the cell\<close>

lemma run_listeners_well_behaved:
  "well_behaved env ls \<Longrightarrow>
   run_listeners env st ls c = (None, c\<lparr>delivered := delivered c @ map (\<lambda>l. (l, st)) ls\<rparr>)"
proof (induction ls arbitrary: c)
  case Nil
  then show ?case by simp
next
  case (Cons l ls)
  from Cons.prems have h: "env l st k = (Returns, k)" for k
    by (simp add: well_behaved_def)
  from Cons.prems have "well_behaved env ls" by (simp add: well_behaved_def)
  from Cons.IH [OF this] show ?case by (simp add: h)
qed

lemma notify_with_well_behaved:
  "well_behaved env (listeners c) \<Longrightarrow> notify_with env c = (None, notify c)"
  by (simp add: notify_with_def notify_def run_listeners_well_behaved Let_def)

lemma well_behaved_inert: "well_behaved inert ls"
  by (simp add: well_behaved_def inert_def)

lemma to_error_any_Of: "to_error_any (Of v) = Inr (to_error v)"
  by (cases v) simp_all

lemma catch_with_well_behaved:
  "to_error_any e = Inr err \<Longrightarrow> well_behaved env (listeners c) \<Longrightarrow>
   catch_with env store c e = (Of (VError err), notify (c\<lparr>state := store (state c) err\<rparr>))"
  by (simp add: catch_with_def notify_with_well_behaved)

lemma subscribe_with_inert:
  "subscribe_with inert c l = (Inr (fst (subscribe c l)), snd (subscribe c l))"
  by (simp add: subscribe_with_def subscribe_def inert_def Let_def)

lemma Subscribe_submit_settle_is_catch:
  "Subscribe_submit_settle c (Rejected v) = (Inl (to_error v), snd (Subscribe_submit_catch_with inert c (Of v))) \<and>
   fst (Subscribe_submit_catch_with inert c (Of v)) = Of (VError (to_error v))"
  by (simp add: Subscribe_submit_settle_def Subscribe_submit_catch_with_def Let_def
        catch_with_well_behaved [OF to_error_any_Of well_behaved_inert])

lemma Waitlist_join_settle_is_catch:
  "Waitlist_join_settle c (Rejected v) = (Inl (to_error v), snd (Waitlist_join_catch_with inert c (Of v))) \<and>
   fst (Waitlist_join_catch_with inert c (Of v)) = Of (VError (to_error v))"
  by (simp add: Waitlist_join_settle_def Waitlist_join_catch_with_def Let_def
        catch_with_well_behaved [OF to_error_any_Of well_behaved_inert])

lemma Form_submit_settle_is_catch:
  "Form_submit_settle c (Rejected v) = (Inl (to_error v), snd (Form_submit_catch_with inert c (Of v))) \<and>
   fst (Form_submit_catch_with inert c (Of v)) = Of (VError (to_error v))"
  by (simp add: Form_submit_settle_def Form_submit_catch_with_def Let_def
        catch_with_well_behaved [OF to_error_any_Of well_behaved_inert])

lemma Feedback_submit_settle_is_catch:
  "Feedback_submit_settle c (Rejected v) = (Inl (to_error v), snd (Feedback_submit_catch_with inert c (Of v))) \<and>
   fst (Feedback_submit_catch_with inert c (Of v)) = Of (VError (to_error v))"
  by (simp add: Feedback_submit_settle_def Feedback_submit_catch_with_def Let_def
        catch_with_well_behaved [OF to_error_any_Of well_behaved_inert])

lemma Reactions_fetch_settle_is_catch:
  "Reactions_fetch_settle c (Rejected v) = (Inl (to_error v), snd (Reactions_fetch_catch_with inert c (Of v))) \<and>
   fst (Reactions_fetch_catch_with inert c (Of v)) = Of (VError (to_error v))"
  by (simp add: Reactions_fetch_settle_def Reactions_fetch_catch_with_def Let_def
        catch_with_well_behaved [OF to_error_any_Of well_behaved_inert])

lemma Reactions_add_settle_is_catch:
  "Reactions_add_settle c rt (Rejected v) = (Inl (to_error v), snd (Reactions_add_catch_with inert c (Of v))) \<and>
   fst (Reactions_add_catch_with inert c (Of v)) = Of (VError (to_error v))"
  by (simp add: Reactions_add_settle_def Reactions_add_catch_with_def Let_def
        catch_with_well_behaved [OF to_error_any_Of well_behaved_inert])

lemma Reactions_remove_settle_is_catch:
  "Reactions_remove_settle c rt (Rejected v) = (Inl (to_error v), snd (Reactions_remove_catch_with inert c (Of v))) \<and>
   fst (Reactions_remove_catch_with inert c (Of v)) = Of (VError (to_error v))"
  by (simp add: Reactions_remove_settle_def Reactions_remove_catch_with_def Let_def
        catch_with_well_behaved [OF to_error_any_Of well_behaved_inert])

lemma Comments_fetch_settle_is_catch:
  "Comments_fetch_settle c (Rejected v) = (Inl (to_error v), snd (Comments_fetch_catch_with inert c (Of v))) \<and>
   fst (Comments_fetch_catch_with inert c (Of v)) = Of (VError (to_error v))"
  by (simp add: Comments_fetch_settle_def Comments_fetch_catch_with_def Let_def
        catch_with_well_behaved [OF to_error_any_Of well_behaved_inert])

lemma Comments_post_settle_is_catch:
  "Comments_post_catch c v = (Inl (to_error v), snd (Comments_post_catch_with inert c (Of v))) \<and>
   fst (Comments_post_catch_with inert c (Of v)) = Of (VError (to_error v))"
  by (simp add: Comments_post_catch_def Comments_post_catch_with_def Let_def
        catch_with_well_behaved [OF to_error_any_Of well_behaved_inert])

lemma Poll_fetch_settle_is_catch:
  "Poll_fetch_settle c (Rejected v) = (Inl (to_error v), snd (Poll_fetch_catch_with inert c (Of v))) \<and>
   fst (Poll_fetch_catch_with inert c (Of v)) = Of (VError (to_error v))"
  by (simp add: Poll_fetch_settle_def Poll_fetch_catch_with_def Let_def
        catch_with_well_behaved [OF to_error_any_Of well_behaved_inert])

lemma Poll_vote_settle_is_catch:
  "Poll_vote_settle c sel (Rejected v) = (Inl (to_error v), snd (Poll_vote_catch_with inert c (Of v))) \<and>
   fst (Poll_vote_catch_with inert c (Of v)) = Of (VError (to_error v))"
  by (simp add: Poll_vote_settle_def Poll_vote_catch_with_def Let_def
        catch_with_well_behaved [OF to_error_any_Of well_behaved_inert])

lemma Announcements_fetch_settle_is_catch:
  "Announcements_fetch_settle c (Rejected v) = (Inl (to_error v), snd (Announcements_fetch_catch_with inert c (Of v))) \<and>
   fst (Announcements_fetch_catch_with inert c (Of v)) = Of (VError (to_error v))"
  by (simp add: Announcements_fetch_settle_def Announcements_fetch_catch_with_def Let_def
        catch_with_well_behaved [OF to_error_any_Of well_behaved_inert])

lemma Announcements_dismiss_settle_is_catch:
  "Announcements_dismiss_settle c i (Rejected v) = (Inl (to_error v), snd (Announcements_dismiss_catch_with inert c (Of v))) \<and>
   fst (Announcements_dismiss_catch_with inert c (Of v)) = Of (VError (to_error v))"
  by (simp add: Announcements_dismiss_settle_def Announcements_dismiss_catch_with_def Let_def
        catch_with_well_behaved [OF to_error_any_Of well_behaved_inert])

lemma ViewCounts_fetch_settle_is_catch:
  "ViewCounts_fetch_settle c (Rejected v) = (Inl (to_error v), snd (ViewCounts_fetch_catch_with inert c (Of v))) \<and>
   fst (ViewCounts_fetch_catch_with inert c (Of v)) = Of (VError (to_error v))"
  by (simp add: ViewCounts_fetch_settle_def ViewCounts_fetch_catch_with_def Let_def
        catch_with_well_behaved [OF to_error_any_Of well_behaved_inert])

lemma ViewCounts_record_settle_is_catch:
  "ViewCounts_record_settle c (Rejected v) = (Inl (to_error v), snd (ViewCounts_record_catch_with inert c (Of v))) \<and>
   fst (ViewCounts_record_catch_with inert c (Of v)) = Of (VError (to_error v))"
  by (simp add: ViewCounts_record_settle_def ViewCounts_record_catch_with_def Let_def
        catch_with_well_behaved [OF to_error_any_Of well_behaved_inert])

lemma Subscribe_submit_surfaces:
  "to_error_any e = Inr err \<Longrightarrow> well_behaved env (listeners c) \<Longrightarrow>
   surfaces err c (Subscribe_submit_catch_with env c e)"
  by (simp add: Subscribe_submit_catch_with_def catch_with_well_behaved surfaces_def notify_def broadcast_def
        getState_def Let_def)

lemma Waitlist_join_surfaces:
  "to_error_any e = Inr err \<Longrightarrow> well_behaved env (listeners c) \<Longrightarrow>
   surfaces err c (Waitlist_join_catch_with env c e)"
  by (simp add: Waitlist_join_catch_with_def catch_with_well_behaved surfaces_def notify_def broadcast_def
        getState_def Let_def)

lemma Form_submit_surfaces:
  "to_error_any e = Inr err \<Longrightarrow> well_behaved env (listeners c) \<Longrightarrow>
   surfaces err c (Form_submit_catch_with env c e)"
  by (simp add: Form_submit_catch_with_def catch_with_well_behaved surfaces_def notify_def broadcast_def
        getState_def Let_def)

lemma Feedback_submit_surfaces:
  "to_error_any e = Inr err \<Longrightarrow> well_behaved env (listeners c) \<Longrightarrow>
   surfaces err c (Feedback_submit_catch_with env c e)"
  by (simp add: Feedback_submit_catch_with_def catch_with_well_behaved surfaces_def notify_def broadcast_def
        getState_def Let_def)

lemma Reactions_fetch_surfaces:
  "to_error_any e = Inr err \<Longrightarrow> well_behaved env (listeners c) \<Longrightarrow>
   surfaces err c (Reactions_fetch_catch_with env c e)"
  by (simp add: Reactions_fetch_catch_with_def catch_with_well_behaved surfaces_def notify_def broadcast_def
        getState_def Let_def)

lemma Reactions_add_surfaces:
  "to_error_any e = Inr err \<Longrightarrow> well_behaved env (listeners c) \<Longrightarrow>
   surfaces err c (Reactions_add_catch_with env c e)"
  by (simp add: Reactions_add_catch_with_def catch_with_well_behaved surfaces_def notify_def broadcast_def
        getState_def Let_def)

lemma Reactions_remove_surfaces:
  "to_error_any e = Inr err \<Longrightarrow> well_behaved env (listeners c) \<Longrightarrow>
   surfaces err c (Reactions_remove_catch_with env c e)"
  by (simp add: Reactions_remove_catch_with_def catch_with_well_behaved surfaces_def notify_def broadcast_def
        getState_def Let_def)

lemma Comments_fetch_surfaces:
  "to_error_any e = Inr err \<Longrightarrow> well_behaved env (listeners c) \<Longrightarrow>
   surfaces err c (Comments_fetch_catch_with env c e)"
  by (simp add: Comments_fetch_catch_with_def catch_with_well_behaved surfaces_def notify_def broadcast_def
        getState_def Let_def)

lemma Comments_post_surfaces:
  "to_error_any e = Inr err \<Longrightarrow> well_behaved env (listeners c) \<Longrightarrow>
   surfaces err c (Comments_post_catch_with env c e)"
  by (simp add: Comments_post_catch_with_def catch_with_well_behaved surfaces_def notify_def broadcast_def
        getState_def Let_def)

lemma Poll_fetch_surfaces:
  "to_error_any e = Inr err \<Longrightarrow> well_behaved env (listeners c) \<Longrightarrow>
   surfaces err c (Poll_fetch_catch_with env c e)"
  by (simp add: Poll_fetch_catch_with_def catch_with_well_behaved surfaces_def notify_def broadcast_def
        getState_def Let_def)

lemma Poll_vote_surfaces:
  "to_error_any e = Inr err \<Longrightarrow> well_behaved env (listeners c) \<Longrightarrow>
   surfaces err c (Poll_vote_catch_with env c e)"
  by (simp add: Poll_vote_catch_with_def catch_with_well_behaved surfaces_def notify_def broadcast_def
        getState_def Let_def)

lemma Announcements_fetch_surfaces:
  "to_error_any e = Inr err \<Longrightarrow> well_behaved env (listeners c) \<Longrightarrow>
   surfaces err c (Announcements_fetch_catch_with env c e)"
  by (simp add: Announcements_fetch_catch_with_def catch_with_well_behaved surfaces_def notify_def broadcast_def
        getState_def Let_def)

lemma Announcements_dismiss_surfaces:
  "to_error_any e = Inr err \<Longrightarrow> well_behaved env (listeners c) \<Longrightarrow>
   surfaces err c (Announcements_dismiss_catch_with env c e)"
  by (simp add: Announcements_dismiss_catch_with_def catch_with_well_behaved surfaces_def notify_def broadcast_def
        getState_def Let_def)

lemma ViewCounts_fetch_surfaces:
  "to_error_any e = Inr err \<Longrightarrow> well_behaved env (listeners c) \<Longrightarrow>
   surfaces err c (ViewCounts_fetch_catch_with env c e)"
  by (simp add: ViewCounts_fetch_catch_with_def catch_with_well_behaved surfaces_def notify_def broadcast_def
        getState_def Let_def)

lemma ViewCounts_record_surfaces:
  "to_error_any e = Inr err \<Longrightarrow> well_behaved env (listeners c) \<Longrightarrow>
   surfaces err c (ViewCounts_record_catch_with env c e)"
  by (simp add: ViewCounts_record_catch_with_def catch_with_well_behaved surfaces_def notify_def broadcast_def
        getState_def Let_def)

lemma Comments_post_fetch_rejected_surfaces:
  assumes "to_error_any e = Inr err" and "well_behaved env (listeners c)"
  shows "surfaces err (snd (Comments_fetch_catch_with env c e))
           (Comments_post_fetch_rejected_with env c e)"
proof -
  let ?c1 = "notify (c\<lparr>state := (state c)\<lparr>status := Error, error := Some err\<rparr>\<rparr>)"
  have f: "Comments_fetch_catch_with env c e = (Of (VError err), ?c1)"
    using assms by (simp add: Comments_fetch_catch_with_def catch_with_well_behaved)
  have w: "well_behaved env (listeners ?c1)"
    using assms(2) by (simp add: notify_def Let_def)
  have "surfaces err ?c1 (Comments_post_catch_with env ?c1 (Of (VError err)))"
    by (rule Comments_post_surfaces [OF _ w]) simp
  then show ?thesis
    by (simp add: Comments_post_fetch_rejected_with_def f)
qed

lemma Comments_post_through_fetch:
  "Comments_post c a b opts (Fulfilled cm) (Rejected v) =
     (Inl (to_error v),
      snd (Comments_post_fetch_rejected_with inert
             (Comments_fetch_call (Comments_post_call c a b opts)) (Of v)))"
  by (simp add: Comments_post_def Comments_fetch_def Comments_fetch_settle_def
        Comments_post_catch_def Comments_post_fetch_rejected_with_def
        Comments_fetch_catch_with_def Comments_post_catch_with_def Let_def
        catch_with_well_behaved [OF to_error_any_Of well_behaved_inert]
        catch_with_well_behaved [OF _ well_behaved_inert])

lemma to_error_any_values:
  "to_error_any (Of (VError x)) = Inr x \<and>
   to_error_any (Of (VString s)) = Inr (JsError s) \<and>
   to_error_any (Of VNull) = Inr (JsError ''null'') \<and>
   to_error_any (Of VUndefined) = Inr (JsError ''undefined'') \<and>
   to_error_any (Of (VBool True)) = Inr (JsError ''true'') \<and>
   to_error_any (Of (VBool False)) = Inr (JsError ''false'') \<and>
   to_error_any (VNumber 404) = Inr (JsError ''404'') \<and>
   to_error_any (VNumber (- 17)) = Inr (JsError ''-17'') \<and>
   to_error_any (VObject (Inr s)) = Inr (JsError s) \<and>
   to_error_any (VObject (Inl t)) = Inl t"
  by (simp add: String_number_def digits.simps)

subsection \<open>C3: rejections are normalised, stored, broadcast and thrown\<close>

text \<open>
  C3, as stated, is for every rejection and says that the normalised error is stored,
  broadcast to all registered listeners and thrown. On a controller with listeners 1 and
  2 waiting in \<open>submit\<close>: rejected with \<open>Object.create(null)\<close>, \<open>String(e)\<close> throws a
  \<open>TypeError\<close> in the first line of the catch block, which is what the caller gets,
  and the controller is left as it was, nothing stored, nobody notified; rejected with
  the string \<open>offline\<close> while listener 1 throws, the caller gets what listener 1 threw
  and listener 2 is not called.
\<close>

theorem rejections_counterexample:
  "Subscribe_submit_catch_with inert waiting no_toString =
     (Of (VError (JsError ''Cannot convert object to primitive value'')), waiting) \<and>
   listeners waiting = [1, 2] \<and>
   error (state waiting) = None \<and>
   fst (Subscribe_submit_catch_with first_throws waiting (Of (VString ''offline''))) =
     Of (VString ''listener failed'') \<and>
   deliveries_to 2 (snd (Subscribe_submit_catch_with first_throws waiting (Of (VString ''offline'')))) =
     deliveries_to 2 waiting"
  by (simp add: Subscribe_submit_catch_with_def catch_with_def no_toString_def notify_with_def
        first_throws_def waiting_def Subscribe_submit_call_def subscribe_def set_add_def
        new_SubscribeController_def new_cell_def notify_def issue_def getState_def
        deliveries_to_def Let_def)

text \<open>
  C3, amended: when the rejection \<open>e\<close> is an \<open>Error\<close> or \<open>String(e)\<close> returns, and every
  registered listener returns normally and leaves the controller alone, the catch block
  of every mutating method of every controller throws the error \<open>err\<close> (\<open>e\<close> itself
  when it is an \<open>Error\<close>, otherwise a new \<open>Error\<close> whose message is \<open>String(e)\<close>), has
  stored \<open>err\<close> in the state and has called every registered listener with the new
  snapshot; for \<open>post\<close> also when the rejection comes from the \<open>fetch()\<close> it awaits.
  The last ten conjuncts are the normalisation on each shape of value.
\<close>

theorem rejections_surface:
  assumes "to_error_any e = Inr err"
    and w1: "well_behaved env1 (listeners c1)" and w2: "well_behaved env2 (listeners c2)"
    and w3: "well_behaved env3 (listeners c3)" and w4: "well_behaved env4 (listeners c4)"
    and w5: "well_behaved env5 (listeners c5)" and w6: "well_behaved env6 (listeners c6)"
    and w7: "well_behaved env7 (listeners c7)" and w8: "well_behaved env8 (listeners c8)"
    and w9: "well_behaved env9 (listeners c9)"
  shows
  "surfaces err c1 (Subscribe_submit_catch_with env1 c1 e) \<and>
   surfaces err c2 (Waitlist_join_catch_with env2 c2 e) \<and>
   surfaces err c3 (Form_submit_catch_with env3 c3 e) \<and>
   surfaces err c4 (Feedback_submit_catch_with env4 c4 e) \<and>
   surfaces err c5 (Reactions_fetch_catch_with env5 c5 e) \<and>
   surfaces err c5 (Reactions_add_catch_with env5 c5 e) \<and>
   surfaces err c5 (Reactions_remove_catch_with env5 c5 e) \<and>
   surfaces err c6 (Comments_fetch_catch_with env6 c6 e) \<and>
   surfaces err c6 (Comments_post_catch_with env6 c6 e) \<and>
   surfaces err c7 (Poll_fetch_catch_with env7 c7 e) \<and>
   surfaces err c7 (Poll_vote_catch_with env7 c7 e) \<and>
   surfaces err c8 (Announcements_fetch_catch_with env8 c8 e) \<and>
   surfaces err c8 (Announcements_dismiss_catch_with env8 c8 e) \<and>
   surfaces err c9 (ViewCounts_fetch_catch_with env9 c9 e) \<and>
   surfaces err c9 (ViewCounts_record_catch_with env9 c9 e) \<and>
   surfaces err (snd (Comments_fetch_catch_with env6 c6 e))
     (Comments_post_fetch_rejected_with env6 c6 e) \<and>
   to_error_any (Of (VError x)) = Inr x \<and>
   to_error_any (Of (VString s)) = Inr (JsError s) \<and>
   to_error_any (Of VNull) = Inr (JsError ''null'') \<and>
   to_error_any (Of VUndefined) = Inr (JsError ''undefined'') \<and>
   to_error_any (Of (VBool True)) = Inr (JsError ''true'') \<and>
   to_error_any (Of (VBool False)) = Inr (JsError ''false'') \<and>
   to_error_any (VNumber 404) = Inr (JsError ''404'') \<and>
   to_error_any (VNumber (- 17)) = Inr (JsError ''-17'') \<and>
   to_error_any (VObject (Inr s)) = Inr (JsError s) \<and>
   to_error_any (VObject (Inl t)) = Inl t"
  using Subscribe_submit_surfaces [OF assms(1) w1]
    Waitlist_join_surfaces [OF assms(1) w2]
    Form_submit_surfaces [OF assms(1) w3]
    Feedback_submit_surfaces [OF assms(1) w4]
    Reactions_fetch_surfaces [OF assms(1) w5]
    Reactions_add_surfaces [OF assms(1) w5]
    Reactions_remove_surfaces [OF assms(1) w5]
    Comments_fetch_surfaces [OF assms(1) w6]
    Comments_post_surfaces [OF assms(1) w6]
    Poll_fetch_surfaces [OF assms(1) w7]
    Poll_vote_surfaces [OF assms(1) w7]
    Announcements_fetch_surfaces [OF assms(1) w8]
    Announcements_dismiss_surfaces [OF assms(1) w8]
    ViewCounts_fetch_surfaces [OF assms(1) w9]
    ViewCounts_record_surfaces [OF assms(1) w9]
    Comments_post_fetch_rejected_surfaces [OF assms(1) w6]
    to_error_any_values [of x s t]
  by blast

theorem rejections_surface_witness:
  "(to_error_any (VNumber 503) = Inr (JsError ''503'') \<and>
    well_behaved inert (listeners (snd (subscribe (new_SubscribeController cfg0) 1))) \<and>
    well_behaved inert (listeners (snd (subscribe (new_WaitlistController cfg0) 1))) \<and>
    well_behaved inert (listeners (snd (subscribe (new_FormController cfg0 ''contact'' 1700000000000) 1))) \<and>
    well_behaved inert (listeners (snd (subscribe (new_FeedbackController cfg0) 1))) \<and>
    well_behaved inert (listeners (snd (subscribe (new_ReactionsController cfg0 ''page'') 1))) \<and>
    well_behaved inert (listeners (snd (subscribe (new_CommentsController cfg0 ''page'') 1))) \<and>
    well_behaved inert (listeners (snd (subscribe (new_PollController cfg0 ''lunch'') 1))) \<and>
    well_behaved inert (listeners (snd (subscribe (new_AnnouncementsController cfg0) 1))) \<and>
    well_behaved inert (listeners (snd (subscribe (new_ViewCountsController cfg0 ''page'') 1)))) \<and>
   surfaces (JsError ''503'') (snd (subscribe (new_SubscribeController cfg0) 1))
     (Subscribe_submit_catch_with inert (snd (subscribe (new_SubscribeController cfg0) 1)) (VNumber 503)) \<and>
   surfaces (JsError ''503'') (snd (subscribe (new_ReactionsController cfg0 ''page'') 1))
     (Reactions_add_catch_with inert (snd (subscribe (new_ReactionsController cfg0 ''page'') 1)) (VNumber 503)) \<and>
   listeners (snd (subscribe (new_SubscribeController cfg0) 1)) = [1]"
proof -
  have e: "to_error_any (VNumber 503) = Inr (JsError ''503'')"
    by (simp add: String_number_def digits.simps)
  have l: "listeners (snd (subscribe (new_SubscribeController cfg0) 1)) = [1]"
    by (simp add: subscribe_def set_add_def new_SubscribeController_def new_cell_def Let_def)
  note w = well_behaved_inert
  note r = rejections_surface
    [OF e w w w w w w w w w,
     where ?c1.0 = "snd (subscribe (new_SubscribeController cfg0) 1)"
       and ?c2.0 = "snd (subscribe (new_WaitlistController cfg0) 1)"
       and ?c3.0 = "snd (subscribe (new_FormController cfg0 ''contact'' 1700000000000) 1)"
       and ?c4.0 = "snd (subscribe (new_FeedbackController cfg0) 1)"
       and ?c5.0 = "snd (subscribe (new_ReactionsController cfg0 ''page'') 1)"
       and ?c6.0 = "snd (subscribe (new_CommentsController cfg0 ''page'') 1)"
       and ?c7.0 = "snd (subscribe (new_PollController cfg0 ''lunch'') 1)"
       and ?c8.0 = "snd (subscribe (new_AnnouncementsController cfg0) 1)"
       and ?c9.0 = "snd (subscribe (new_ViewCountsController cfg0 ''page'') 1)"]
  have s1: "surfaces (JsError ''503'') (snd (subscribe (new_SubscribeController cfg0) 1))
     (Subscribe_submit_catch_with inert (snd (subscribe (new_SubscribeController cfg0) 1)) (VNumber 503))"
    using r by (rule conjunct1)
  have s2: "surfaces (JsError ''503'') (snd (subscribe (new_ReactionsController cfg0 ''page'') 1))
     (Reactions_add_catch_with inert (snd (subscribe (new_ReactionsController cfg0 ''page'') 1)) (VNumber 503))"
    using r by blast
  from s1 s2 e l show ?thesis by (simp add: well_behaved_inert)
qed

subsection \<open>C4: replay on subscribe\<close>

text \<open>
  C4, as stated, is for any listener and says that \<open>subscribe\<close> calls it exactly once
  and returns the unsubscribe function. With a listener that throws, \<open>subscribe\<close> on a
  fresh controller throws what the listener threw and returns nothing, the listener
  staying registered; with a listener that calls \<open>reset()\<close> when called, the listener
  has been called twice when \<open>subscribe\<close> returns.
\<close>

theorem subscribe_counterexample:
  "fst (subscribe_with thrower (new_SubscribeController cfg0) 7) =
     Inl (Of (VString ''listener failed'')) \<and>
   listeners (snd (subscribe_with thrower (new_SubscribeController cfg0) 7)) = [7] \<and>
   deliveries_to 7 (snd (subscribe_with resetter (new_SubscribeController cfg0) 7)) =
     [\<lparr>status = Idle, error = None, message = None\<rparr>,
      \<lparr>status = Idle, error = None, message = None\<rparr>]"
  by (simp add: subscribe_with_def thrower_def resetter_def Subscribe_reset_def notify_def
        new_SubscribeController_def new_cell_def set_add_def getState_def deliveries_to_def
        Let_def)

text \<open>
  C4, amended: on any controller \<open>c\<close>, whatever its history, for a listener \<open>l\<close> that
  returns normally and leaves the controller alone, \<open>subscribe(l)\<close> calls \<open>l\<close> exactly
  once, with the current snapshot, before it returns (the record of listener calls grows
  by the one entry \<open>(l, getState c)\<close>), leaves the state unchanged, registers \<open>l\<close> and
  returns the closure that deletes \<open>l\<close>, which takes no argument besides the controller
  it runs on. For a listener that throws, \<open>subscribe(l)\<close> registers \<open>l\<close>, calls it once
  with the current snapshot and throws what \<open>l\<close> threw.
\<close>

theorem subscribe_replays_once:
  "(well_behaved env [l] \<longrightarrow>
      fst (subscribe_with env c l) = Inr (unsubscribe l) \<and>
      delivered (snd (subscribe_with env c l)) = delivered c @ [(l, getState c)] \<and>
      deliveries_to l (snd (subscribe_with env c l)) = deliveries_to l c @ [getState c] \<and>
      state (snd (subscribe_with env c l)) = state c \<and>
      set (listeners (snd (subscribe_with env c l))) = insert l (set (listeners c)) \<and>
      subscribe_with env c l = (Inr (fst (subscribe c l)), snd (subscribe c l))) \<and>
   ((\<forall>st k. env' l st k = (Throws t, k)) \<longrightarrow>
      fst (subscribe_with env' c l) = Inl t \<and>
      delivered (snd (subscribe_with env' c l)) = delivered c @ [(l, getState c)] \<and>
      state (snd (subscribe_with env' c l)) = state c \<and>
      set (listeners (snd (subscribe_with env' c l))) = insert l (set (listeners c)))"
  by (auto simp: well_behaved_def subscribe_with_def subscribe_def Let_def getState_def
        set_add_def deliveries_to_def)

theorem subscribe_replays_once_witness:
  "(well_behaved (inert :: (SubscribeState, SubscribeController) listener_env) [7] \<and>
    (\<forall>st k. thrower 7 st k = (Throws (Of (VString ''listener failed'')), k))) \<and>
   fst (subscribe_with inert (new_SubscribeController cfg0) 7) = Inr (unsubscribe 7) \<and>
   deliveries_to 7 (snd (subscribe_with inert (new_SubscribeController cfg0) 7)) =
     [getState (new_SubscribeController cfg0)] \<and>
   fst (subscribe_with thrower (new_SubscribeController cfg0) 7) =
     Inl (Of (VString ''listener failed''))"
proof -
  have w: "well_behaved (inert :: (SubscribeState, SubscribeController) listener_env) [7]"
    by (rule well_behaved_inert)
  have t: "\<forall>st k. thrower 7 st k = (Throws (Of (VString ''listener failed'')), k)"
    by (simp add: thrower_def)
  have d: "deliveries_to 7 (new_SubscribeController cfg0) = []"
    by (simp add: deliveries_to_def new_SubscribeController_def new_cell_def)
  note inst = subscribe_replays_once
    [where env = inert and l = 7 and c = "new_SubscribeController cfg0" and env' = thrower
       and t = "Of (VString ''listener failed'')"]
  have a: "fst (subscribe_with inert (new_SubscribeController cfg0) 7) = Inr (unsubscribe 7) \<and>
    deliveries_to 7 (snd (subscribe_with inert (new_SubscribeController cfg0) 7)) =
      deliveries_to 7 (new_SubscribeController cfg0) @ [getState (new_SubscribeController cfg0)]"
    using inst w by blast
  have b: "fst (subscribe_with thrower (new_SubscribeController cfg0) 7) =
     Inl (Of (VString ''listener failed''))"
    using inst t by blast
  from a b w t d show ?thesis by simp
qed

subsection \<open>C9: unsubscribing twice\<close>

lemma unsubscribe_twice: "unsubscribe l (unsubscribe l c) = unsubscribe l c"
  by (simp add: unsubscribe_def set_delete_def)

lemma unsubscribe_absent: "l \<notin> set (listeners c) \<Longrightarrow> unsubscribe l c = c"
  by (simp add: unsubscribe_def set_delete_def)

lemma unsubscribe_removes: "l \<notin> set (listeners (unsubscribe l c))"
  by (simp add: unsubscribe_def set_delete_def)

lemma notify_skips_absent:
  "l \<notin> set (listeners c) \<Longrightarrow> deliveries_to l (notify c) = deliveries_to l c"
  by (auto simp: notify_def deliveries_to_def Let_def filter_map o_def filter_empty_conv)

lemma listeners_notify: "listeners (notify c) = listeners c"
  by (simp add: notify_def Let_def)

lemma listeners_issue: "listeners (issue r c) = listeners c"
  by (simp add: issue_def)

lemma deliveries_issue: "deliveries_to l (issue r c) = deliveries_to l c"
  by (simp add: issue_def deliveries_to_def)

lemma deliveries_state_update: "deliveries_to l (c\<lparr>state := s\<rparr>) = deliveries_to l c"
  by (simp add: deliveries_to_def)

lemma notify_state_quiet:
  "l \<notin> set (listeners c) \<Longrightarrow>
   l \<notin> set (listeners (notify (c\<lparr>state := s\<rparr>))) \<and>
   deliveries_to l (notify (c\<lparr>state := s\<rparr>)) = deliveries_to l c"
  using notify_skips_absent [of l "c\<lparr>state := s\<rparr>"]
  by (simp add: listeners_notify deliveries_state_update)

lemma issue_quiet:
  "l \<notin> set (listeners c) \<and> deliveries_to l c = d \<Longrightarrow>
   l \<notin> set (listeners (issue r c)) \<and> deliveries_to l (issue r c) = d"
  by (simp add: listeners_issue deliveries_issue)

lemma subscribe_other_quiet:
  "l \<notin> set (listeners c) \<Longrightarrow> l' \<noteq> l \<Longrightarrow>
   l \<notin> set (listeners (snd (subscribe c l'))) \<and>
   deliveries_to l (snd (subscribe c l')) = deliveries_to l c"
  by (simp add: subscribe_def Let_def set_add_def deliveries_to_def)

lemma unsubscribe_quiet:
  "l \<notin> set (listeners c) \<Longrightarrow>
   l \<notin> set (listeners (unsubscribe l' c)) \<and>
   deliveries_to l (unsubscribe l' c) = deliveries_to l c"
  by (simp add: unsubscribe_def set_delete_def deliveries_to_def)

lemmas quiet_simps = notify_state_quiet issue_quiet subscribe_other_quiet unsubscribe_quiet
  listeners_issue deliveries_issue

lemma Subscribe_step_quiet:
  "l \<notin> set (listeners c) \<Longrightarrow> e \<noteq> Sub_subscribe l \<Longrightarrow>
   l \<notin> set (listeners (Subscribe_step c e)) \<and>
   deliveries_to l (Subscribe_step c e) = deliveries_to l c"
  by (cases e)
     (simp_all add: quiet_simps Subscribe_submit_call_def Subscribe_submit_settle_def
        Subscribe_reset_def Let_def split: settled.splits)

lemma Subscribe_run_quiet:
  "l \<notin> set (listeners c) \<Longrightarrow> Sub_subscribe l \<notin> set es \<Longrightarrow>
   l \<notin> set (listeners (foldl Subscribe_step c es)) \<and>
   deliveries_to l (foldl Subscribe_step c es) = deliveries_to l c"
proof (induction es arbitrary: c)
  case Nil
  then show ?case by simp
next
  case (Cons e es)
  from Cons.prems have "e \<noteq> Sub_subscribe l" by auto
  with Cons.prems have s: "l \<notin> set (listeners (Subscribe_step c e))"
    "deliveries_to l (Subscribe_step c e) = deliveries_to l c"
    using Subscribe_step_quiet by blast+
  from Cons.prems have "Sub_subscribe l \<notin> set es" by simp
  with Cons.IH [OF s(1)] s(2) show ?case by simp
qed

lemma Waitlist_step_quiet:
  "l \<notin> set (listeners c) \<Longrightarrow> e \<noteq> Wait_subscribe l \<Longrightarrow>
   l \<notin> set (listeners (Waitlist_step c e)) \<and>
   deliveries_to l (Waitlist_step c e) = deliveries_to l c"
  by (cases e)
     (simp_all add: quiet_simps Waitlist_join_call_def Waitlist_join_settle_def Waitlist_reset_def
        Let_def split: settled.splits option.splits)

lemma Waitlist_run_quiet:
  "l \<notin> set (listeners c) \<Longrightarrow> Wait_subscribe l \<notin> set es \<Longrightarrow>
   l \<notin> set (listeners (foldl Waitlist_step c es)) \<and>
   deliveries_to l (foldl Waitlist_step c es) = deliveries_to l c"
proof (induction es arbitrary: c)
  case Nil
  then show ?case by simp
next
  case (Cons e es)
  from Cons.prems have "e \<noteq> Wait_subscribe l" by auto
  with Cons.prems have s: "l \<notin> set (listeners (Waitlist_step c e))"
    "deliveries_to l (Waitlist_step c e) = deliveries_to l c"
    using Waitlist_step_quiet by blast+
  from Cons.prems have "Wait_subscribe l \<notin> set es" by simp
  with Cons.IH [OF s(1)] s(2) show ?case by simp
qed

lemma Feedback_step_quiet:
  "l \<notin> set (listeners c) \<Longrightarrow> e \<noteq> Feed_subscribe l \<Longrightarrow>
   l \<notin> set (listeners (Feedback_step c e)) \<and>
   deliveries_to l (Feedback_step c e) = deliveries_to l c"
  by (cases e)
     (simp_all add: quiet_simps Feedback_submit_call_def Feedback_submit_settle_def Feedback_reset_def
        Let_def split: settled.splits option.splits)

lemma Feedback_run_quiet:
  "l \<notin> set (listeners c) \<Longrightarrow> Feed_subscribe l \<notin> set es \<Longrightarrow>
   l \<notin> set (listeners (foldl Feedback_step c es)) \<and>
   deliveries_to l (foldl Feedback_step c es) = deliveries_to l c"
proof (induction es arbitrary: c)
  case Nil
  then show ?case by simp
next
  case (Cons e es)
  from Cons.prems have "e \<noteq> Feed_subscribe l" by auto
  with Cons.prems have s: "l \<notin> set (listeners (Feedback_step c e))"
    "deliveries_to l (Feedback_step c e) = deliveries_to l c"
    using Feedback_step_quiet by blast+
  from Cons.prems have "Feed_subscribe l \<notin> set es" by simp
  with Cons.IH [OF s(1)] s(2) show ?case by simp
qed

lemma Reactions_step_quiet:
  "l \<notin> set (listeners c) \<Longrightarrow> e \<noteq> Reac_subscribe l \<Longrightarrow>
   l \<notin> set (listeners (Reactions_step c e)) \<and>
   deliveries_to l (Reactions_step c e) = deliveries_to l c"
  by (cases e)
     (simp_all add: quiet_simps Reactions_fetch_call_def Reactions_fetch_settle_def Reactions_add_call_def Reactions_add_settle_def Reactions_remove_call_def Reactions_remove_settle_def
        Let_def split: settled.splits option.splits)

lemma Reactions_run_quiet:
  "l \<notin> set (listeners c) \<Longrightarrow> Reac_subscribe l \<notin> set es \<Longrightarrow>
   l \<notin> set (listeners (foldl Reactions_step c es)) \<and>
   deliveries_to l (foldl Reactions_step c es) = deliveries_to l c"
proof (induction es arbitrary: c)
  case Nil
  then show ?case by simp
next
  case (Cons e es)
  from Cons.prems have "e \<noteq> Reac_subscribe l" by auto
  with Cons.prems have s: "l \<notin> set (listeners (Reactions_step c e))"
    "deliveries_to l (Reactions_step c e) = deliveries_to l c"
    using Reactions_step_quiet by blast+
  from Cons.prems have "Reac_subscribe l \<notin> set es" by simp
  with Cons.IH [OF s(1)] s(2) show ?case by simp
qed

lemma Poll_step_quiet:
  "l \<notin> set (listeners c) \<Longrightarrow> e \<noteq> Poll_subscribe l \<Longrightarrow>
   l \<notin> set (listeners (Poll_step c e)) \<and>
   deliveries_to l (Poll_step c e) = deliveries_to l c"
  by (cases e)
     (simp_all add: quiet_simps Poll_fetch_call_def Poll_fetch_settle_def Poll_vote_call_def Poll_vote_settle_def
        Let_def split: settled.splits option.splits)

lemma Poll_run_quiet:
  "l \<notin> set (listeners c) \<Longrightarrow> Poll_subscribe l \<notin> set es \<Longrightarrow>
   l \<notin> set (listeners (foldl Poll_step c es)) \<and>
   deliveries_to l (foldl Poll_step c es) = deliveries_to l c"
proof (induction es arbitrary: c)
  case Nil
  then show ?case by simp
next
  case (Cons e es)
  from Cons.prems have "e \<noteq> Poll_subscribe l" by auto
  with Cons.prems have s: "l \<notin> set (listeners (Poll_step c e))"
    "deliveries_to l (Poll_step c e) = deliveries_to l c"
    using Poll_step_quiet by blast+
  from Cons.prems have "Poll_subscribe l \<notin> set es" by simp
  with Cons.IH [OF s(1)] s(2) show ?case by simp
qed

lemma Announcements_step_quiet:
  "l \<notin> set (listeners c) \<Longrightarrow> e \<noteq> Ann_subscribe l \<Longrightarrow>
   l \<notin> set (listeners (Announcements_step c e)) \<and>
   deliveries_to l (Announcements_step c e) = deliveries_to l c"
  by (cases e)
     (simp_all add: quiet_simps Announcements_fetch_call_def Announcements_fetch_settle_def Announcements_dismiss_call_def Announcements_dismiss_settle_def
        Let_def split: settled.splits option.splits)

lemma Announcements_run_quiet:
  "l \<notin> set (listeners c) \<Longrightarrow> Ann_subscribe l \<notin> set es \<Longrightarrow>
   l \<notin> set (listeners (foldl Announcements_step c es)) \<and>
   deliveries_to l (foldl Announcements_step c es) = deliveries_to l c"
proof (induction es arbitrary: c)
  case Nil
  then show ?case by simp
next
  case (Cons e es)
  from Cons.prems have "e \<noteq> Ann_subscribe l" by auto
  with Cons.prems have s: "l \<notin> set (listeners (Announcements_step c e))"
    "deliveries_to l (Announcements_step c e) = deliveries_to l c"
    using Announcements_step_quiet by blast+
  from Cons.prems have "Ann_subscribe l \<notin> set es" by simp
  with Cons.IH [OF s(1)] s(2) show ?case by simp
qed

lemma ViewCounts_step_quiet:
  "l \<notin> set (listeners c) \<Longrightarrow> e \<noteq> View_subscribe l \<Longrightarrow>
   l \<notin> set (listeners (ViewCounts_step c e)) \<and>
   deliveries_to l (ViewCounts_step c e) = deliveries_to l c"
  by (cases e)
     (simp_all add: quiet_simps ViewCounts_fetch_call_def ViewCounts_fetch_settle_def ViewCounts_record_call_def ViewCounts_record_settle_def
        Let_def split: settled.splits option.splits)

lemma ViewCounts_run_quiet:
  "l \<notin> set (listeners c) \<Longrightarrow> View_subscribe l \<notin> set es \<Longrightarrow>
   l \<notin> set (listeners (foldl ViewCounts_step c es)) \<and>
   deliveries_to l (foldl ViewCounts_step c es) = deliveries_to l c"
proof (induction es arbitrary: c)
  case Nil
  then show ?case by simp
next
  case (Cons e es)
  from Cons.prems have "e \<noteq> View_subscribe l" by auto
  with Cons.prems have s: "l \<notin> set (listeners (ViewCounts_step c e))"
    "deliveries_to l (ViewCounts_step c e) = deliveries_to l c"
    using ViewCounts_step_quiet by blast+
  from Cons.prems have "View_subscribe l \<notin> set es" by simp
  with Cons.IH [OF s(1)] s(2) show ?case by simp
qed

lemma Form_reset_quiet:
  "l \<notin> set (listeners c) \<Longrightarrow>
   l \<notin> set (listeners (Form_reset c now)) \<and>
   deliveries_to l (Form_reset c now) = deliveries_to l c"
  by (auto simp: Form_reset_def notify_def Let_def deliveries_to_def filter_empty_conv)

lemma Form_step_quiet:
  "l \<notin> set (listeners c) \<Longrightarrow> e \<noteq> Form_subscribe l \<Longrightarrow>
   l \<notin> set (listeners (Form_step c e)) \<and>
   deliveries_to l (Form_step c e) = deliveries_to l c"
  by (cases e)
     (simp_all add: quiet_simps Form_submit_call_def Form_submit_settle_def Form_reset_quiet
        Let_def split: settled.splits)

lemma Form_run_quiet:
  "l \<notin> set (listeners c) \<Longrightarrow> Form_subscribe l \<notin> set es \<Longrightarrow>
   l \<notin> set (listeners (foldl Form_step c es)) \<and>
   deliveries_to l (foldl Form_step c es) = deliveries_to l c"
proof (induction es arbitrary: c)
  case Nil
  then show ?case by simp
next
  case (Cons e es)
  from Cons.prems have "e \<noteq> Form_subscribe l" by auto
  with Cons.prems have s: "l \<notin> set (listeners (Form_step c e))"
    "deliveries_to l (Form_step c e) = deliveries_to l c"
    using Form_step_quiet by blast+
  from Cons.prems have "Form_subscribe l \<notin> set es" by simp
  with Cons.IH [OF s(1)] s(2) show ?case by simp
qed

lemma Comments_step_quiet:
  assumes "l \<notin> set (listeners c)" and "e \<noteq> Comm_subscribe l"
  shows "l \<notin> set (listeners (Comments_step c e)) \<and>
         deliveries_to l (Comments_step c e) = deliveries_to l c"
proof (cases e)
  case (Comm_post_settle x)
  with assms show ?thesis
    by (cases x) (simp_all add: quiet_simps Comments_fetch_call_def Comments_post_catch_def Let_def)
next
  case (Comm_post_resume x)
  with assms show ?thesis
    by (cases x) (simp_all add: quiet_simps Comments_post_catch_def Let_def)
qed (use assms in \<open>simp_all add: quiet_simps Comments_fetch_call_def Comments_fetch_settle_def
       Comments_post_call_def Let_def split: settled.splits\<close>)

lemma Comments_run_quiet:
  "l \<notin> set (listeners c) \<Longrightarrow> Comm_subscribe l \<notin> set es \<Longrightarrow>
   l \<notin> set (listeners (foldl Comments_step c es)) \<and>
   deliveries_to l (foldl Comments_step c es) = deliveries_to l c"
proof (induction es arbitrary: c)
  case Nil
  then show ?case by simp
next
  case (Cons e es)
  from Cons.prems have "e \<noteq> Comm_subscribe l" by auto
  with Cons.prems have s: "l \<notin> set (listeners (Comments_step c e))"
    "deliveries_to l (Comments_step c e) = deliveries_to l c"
    using Comments_step_quiet by blast+
  from Cons.prems have "Comm_subscribe l \<notin> set es" by simp
  with Cons.IH [OF s(1)] s(2) show ?case by simp
qed

lemma unsubscribe_keeps_deliveries: "deliveries_to l (unsubscribe l' c) = deliveries_to l c"
  by (simp add: unsubscribe_def deliveries_to_def)

text \<open>
  C9: let \<open>u\<close> be the function \<open>subscribe(l)\<close> returned. Run on any later controller
  \<open>k\<close>, running \<open>u\<close> twice gives the controller that running it once gives; after it
  \<open>l\<close> is not registered and a \<open>notify()\<close> does not call \<open>l\<close>, after one run as after
  two; and where \<open>l\<close> is not registered \<open>u\<close> changes nothing. For each of the nine
  controllers, after \<open>u\<close> has run twice no history of events in which \<open>l\<close> is not
  subscribed again calls \<open>l\<close>. \<open>u\<close> is a total function into controllers: there is
  no outcome in which it throws.
\<close>

theorem unsubscribe_idempotent:
  "fst (subscribe c l) (fst (subscribe c l) k) = fst (subscribe c l) k \<and>
   l \<notin> set (listeners (fst (subscribe c l) k)) \<and>
   deliveries_to l (notify (fst (subscribe c l) k)) = deliveries_to l k \<and>
   deliveries_to l (notify (fst (subscribe c l) (fst (subscribe c l) k))) = deliveries_to l k \<and>
   (l \<notin> set (listeners k) \<longrightarrow> fst (subscribe c l) k = k) \<and>
   (Sub_subscribe l \<notin> set es1 \<longrightarrow>
      deliveries_to l
        (foldl Subscribe_step (fst (subscribe c1 l) (fst (subscribe c1 l) k1)) es1) =
      deliveries_to l k1) \<and>
   (Wait_subscribe l \<notin> set es2 \<longrightarrow>
      deliveries_to l
        (foldl Waitlist_step (fst (subscribe c2 l) (fst (subscribe c2 l) k2)) es2) =
      deliveries_to l k2) \<and>
   (Form_subscribe l \<notin> set es3 \<longrightarrow>
      deliveries_to l
        (foldl Form_step (fst (subscribe c3 l) (fst (subscribe c3 l) k3)) es3) =
      deliveries_to l k3) \<and>
   (Feed_subscribe l \<notin> set es4 \<longrightarrow>
      deliveries_to l
        (foldl Feedback_step (fst (subscribe c4 l) (fst (subscribe c4 l) k4)) es4) =
      deliveries_to l k4) \<and>
   (Reac_subscribe l \<notin> set es5 \<longrightarrow>
      deliveries_to l
        (foldl Reactions_step (fst (subscribe c5 l) (fst (subscribe c5 l) k5)) es5) =
      deliveries_to l k5) \<and>
   (Comm_subscribe l \<notin> set es6 \<longrightarrow>
      deliveries_to l
        (foldl Comments_step (fst (subscribe c6 l) (fst (subscribe c6 l) k6)) es6) =
      deliveries_to l k6) \<and>
   (Poll_subscribe l \<notin> set es7 \<longrightarrow>
      deliveries_to l
        (foldl Poll_step (fst (subscribe c7 l) (fst (subscribe c7 l) k7)) es7) =
      deliveries_to l k7) \<and>
   (Ann_subscribe l \<notin> set es8 \<longrightarrow>
      deliveries_to l
        (foldl Announcements_step (fst (subscribe c8 l) (fst (subscribe c8 l) k8)) es8) =
      deliveries_to l k8) \<and>
   (View_subscribe l \<notin> set es9 \<longrightarrow>
      deliveries_to l
        (foldl ViewCounts_step (fst (subscribe c9 l) (fst (subscribe c9 l) k9)) es9) =
      deliveries_to l k9)"
proof -
  have u: "fst (subscribe c l) = unsubscribe l"
    by (simp add: subscribe_def Let_def)
  have n: "deliveries_to l (notify (unsubscribe l k)) = deliveries_to l k"
    using notify_skips_absent [OF unsubscribe_removes, of l k]
    by (simp add: unsubscribe_keeps_deliveries)
  have g: "fst (subscribe c l) (fst (subscribe c l) k) = fst (subscribe c l) k \<and>
   l \<notin> set (listeners (fst (subscribe c l) k)) \<and>
   deliveries_to l (notify (fst (subscribe c l) k)) = deliveries_to l k \<and>
   deliveries_to l (notify (fst (subscribe c l) (fst (subscribe c l) k))) = deliveries_to l k \<and>
   (l \<notin> set (listeners k) \<longrightarrow> fst (subscribe c l) k = k)"
    by (simp add: u unsubscribe_twice unsubscribe_removes n unsubscribe_absent)
  have r1: "(Sub_subscribe l \<notin> set es1 \<longrightarrow>
      deliveries_to l
        (foldl Subscribe_step (fst (subscribe c1 l) (fst (subscribe c1 l) k1)) es1) =
      deliveries_to l k1)"
    using Subscribe_run_quiet [where c = "unsubscribe l k1" and l = l and es = es1]
    by (simp add: subscribe_def Let_def unsubscribe_twice unsubscribe_removes
          unsubscribe_keeps_deliveries)
  have r2: "(Wait_subscribe l \<notin> set es2 \<longrightarrow>
      deliveries_to l
        (foldl Waitlist_step (fst (subscribe c2 l) (fst (subscribe c2 l) k2)) es2) =
      deliveries_to l k2)"
    using Waitlist_run_quiet [where c = "unsubscribe l k2" and l = l and es = es2]
    by (simp add: subscribe_def Let_def unsubscribe_twice unsubscribe_removes
          unsubscribe_keeps_deliveries)
  have r3: "(Form_subscribe l \<notin> set es3 \<longrightarrow>
      deliveries_to l
        (foldl Form_step (fst (subscribe c3 l) (fst (subscribe c3 l) k3)) es3) =
      deliveries_to l k3)"
    using Form_run_quiet [where c = "unsubscribe l k3" and l = l and es = es3]
    by (simp add: subscribe_def Let_def unsubscribe_twice unsubscribe_removes
          unsubscribe_keeps_deliveries)
  have r4: "(Feed_subscribe l \<notin> set es4 \<longrightarrow>
      deliveries_to l
        (foldl Feedback_step (fst (subscribe c4 l) (fst (subscribe c4 l) k4)) es4) =
      deliveries_to l k4)"
    using Feedback_run_quiet [where c = "unsubscribe l k4" and l = l and es = es4]
    by (simp add: subscribe_def Let_def unsubscribe_twice unsubscribe_removes
          unsubscribe_keeps_deliveries)
  have r5: "(Reac_subscribe l \<notin> set es5 \<longrightarrow>
      deliveries_to l
        (foldl Reactions_step (fst (subscribe c5 l) (fst (subscribe c5 l) k5)) es5) =
      deliveries_to l k5)"
    using Reactions_run_quiet [where c = "unsubscribe l k5" and l = l and es = es5]
    by (simp add: subscribe_def Let_def unsubscribe_twice unsubscribe_removes
          unsubscribe_keeps_deliveries)
  have r6: "(Comm_subscribe l \<notin> set es6 \<longrightarrow>
      deliveries_to l
        (foldl Comments_step (fst (subscribe c6 l) (fst (subscribe c6 l) k6)) es6) =
      deliveries_to l k6)"
    using Comments_run_quiet [where c = "unsubscribe l k6" and l = l and es = es6]
    by (simp add: subscribe_def Let_def unsubscribe_twice unsubscribe_removes
          unsubscribe_keeps_deliveries)
  have r7: "(Poll_subscribe l \<notin> set es7 \<longrightarrow>
      deliveries_to l
        (foldl Poll_step (fst (subscribe c7 l) (fst (subscribe c7 l) k7)) es7) =
      deliveries_to l k7)"
    using Poll_run_quiet [where c = "unsubscribe l k7" and l = l and es = es7]
    by (simp add: subscribe_def Let_def unsubscribe_twice unsubscribe_removes
          unsubscribe_keeps_deliveries)
  have r8: "(Ann_subscribe l \<notin> set es8 \<longrightarrow>
      deliveries_to l
        (foldl Announcements_step (fst (subscribe c8 l) (fst (subscribe c8 l) k8)) es8) =
      deliveries_to l k8)"
    using Announcements_run_quiet [where c = "unsubscribe l k8" and l = l and es = es8]
    by (simp add: subscribe_def Let_def unsubscribe_twice unsubscribe_removes
          unsubscribe_keeps_deliveries)
  have r9: "(View_subscribe l \<notin> set es9 \<longrightarrow>
      deliveries_to l
        (foldl ViewCounts_step (fst (subscribe c9 l) (fst (subscribe c9 l) k9)) es9) =
      deliveries_to l k9)"
    using ViewCounts_run_quiet [where c = "unsubscribe l k9" and l = l and es = es9]
    by (simp add: subscribe_def Let_def unsubscribe_twice unsubscribe_removes
          unsubscribe_keeps_deliveries)
  from g r1 r2 r3 r4 r5 r6 r7 r8 r9 show ?thesis by blast
qed

theorem unsubscribe_idempotent_witness:
  "((7::nat) \<notin> set (listeners (new_SubscribeController cfg0)) \<and>
    Sub_subscribe 7 \<notin> set [Sub_submit_call ''a@b.c'', Sub_submit_settle (Rejected VNull)] \<and>
    Wait_subscribe 7 \<notin> set [] \<and> Form_subscribe 7 \<notin> set [] \<and>
    Feed_subscribe 7 \<notin> set [] \<and> Reac_subscribe 7 \<notin> set [] \<and>
    Comm_subscribe 7 \<notin> set [] \<and> Poll_subscribe 7 \<notin> set [] \<and>
    Ann_subscribe 7 \<notin> set [] \<and> View_subscribe 7 \<notin> set []) \<and>
   fst (subscribe (new_SubscribeController cfg0) 7) (new_SubscribeController cfg0) =
     new_SubscribeController cfg0 \<and>
   deliveries_to 7
     (foldl Subscribe_step
        (fst (subscribe (new_SubscribeController cfg0) 7)
           (fst (subscribe (new_SubscribeController cfg0) 7)
              (snd (subscribe (new_SubscribeController cfg0) 7))))
        [Sub_submit_call ''a@b.c'', Sub_submit_settle (Rejected VNull)]) =
     [\<lparr>status = Idle, error = None, message = None\<rparr>]"
proof -
  let ?c = "new_SubscribeController cfg0"
  let ?es = "[Sub_submit_call ''a@b.c'', Sub_submit_settle (Rejected VNull)]"
  have h: "(7::nat) \<notin> set (listeners ?c) \<and> Sub_subscribe 7 \<notin> set ?es \<and>
    Wait_subscribe 7 \<notin> set [] \<and> Form_subscribe 7 \<notin> set [] \<and>
    Feed_subscribe 7 \<notin> set [] \<and> Reac_subscribe 7 \<notin> set [] \<and>
    Comm_subscribe 7 \<notin> set [] \<and> Poll_subscribe 7 \<notin> set [] \<and>
    Ann_subscribe 7 \<notin> set [] \<and> View_subscribe 7 \<notin> set []"
    by (simp add: new_SubscribeController_def new_cell_def)
  have d: "deliveries_to 7 (snd (subscribe ?c 7)) = [\<lparr>status = Idle, error = None, message = None\<rparr>]"
    by (simp add: subscribe_def Let_def deliveries_to_def getState_def set_add_def
          new_SubscribeController_def new_cell_def)
  from unsubscribe_idempotent
    [where c = ?c and l = 7 and k = ?c and ?c1.0 = ?c and ?k1.0 = "snd (subscribe ?c 7)"
       and ?es1.0 = ?es and ?es2.0 = "[]" and ?es3.0 = "[]" and ?es4.0 = "[]" and ?es5.0 = "[]"
       and ?es6.0 = "[]" and ?es7.0 = "[]" and ?es8.0 = "[]" and ?es9.0 = "[]"] h d
  show ?thesis by simp
qed

subsection \<open>C5: dismiss is not optimistic\<close>

text \<open>
  C5: calling \<open>dismiss(i)\<close> changes no state before the remote call settles. When the
  remote call is rejected the dismissed set, the announcement list and the visible
  announcements are what they were; so an announcement with id \<open>i\<close> that was listed and
  not dismissed is still not dismissed and still visible. When the remote call is
  fulfilled, \<open>i\<close> is added to the dismissed set.
\<close>

theorem dismiss_after_success_only:
  "state (Announcements_dismiss_call c i) = state c \<and>
   dismissed (state (snd (Announcements_dismiss c i (Rejected e)))) = dismissed (state c) \<and>
   announcements (state (snd (Announcements_dismiss c i (Rejected e)))) = announcements (state c) \<and>
   getVisibleAnnouncements (snd (Announcements_dismiss c i (Rejected e))) =
     getVisibleAnnouncements c \<and>
   dismissed (state (snd (Announcements_dismiss c i (Fulfilled ())))) =
     insert i (dismissed (state c)) \<and>
   (i \<notin> dismissed (state c) \<and> a \<in> set (announcements (state c)) \<and> announcement_id a = i \<longrightarrow>
      i \<notin> dismissed (state (snd (Announcements_dismiss c i (Rejected e)))) \<and>
      a \<in> set (getVisibleAnnouncements (snd (Announcements_dismiss c i (Rejected e)))))"
  by (auto simp: Announcements_dismiss_def Announcements_dismiss_call_def
        Announcements_dismiss_settle_def getVisibleAnnouncements_def Let_def
        state_notify state_issue)

theorem dismiss_after_success_only_witness:
  "(42 \<notin> dismissed (state (snd (Announcements_fetch
        (new_AnnouncementsController \<lparr>siteKey = ''sk'', endpoint = None\<rparr>) (Fulfilled [ann42])))) \<and>
    ann42 \<in> set (announcements (state (snd (Announcements_fetch
        (new_AnnouncementsController \<lparr>siteKey = ''sk'', endpoint = None\<rparr>) (Fulfilled [ann42]))))) \<and>
    announcement_id ann42 = 42) \<and>
   42 \<notin> dismissed (state (snd (Announcements_dismiss
        (snd (Announcements_fetch
           (new_AnnouncementsController \<lparr>siteKey = ''sk'', endpoint = None\<rparr>) (Fulfilled [ann42])))
        42 (Rejected (VError (JsError ''Failed to dismiss announcement: Forbidden'')))))) \<and>
   ann42 \<in> set (getVisibleAnnouncements (snd (Announcements_dismiss
        (snd (Announcements_fetch
           (new_AnnouncementsController \<lparr>siteKey = ''sk'', endpoint = None\<rparr>) (Fulfilled [ann42])))
        42 (Rejected (VError (JsError ''Failed to dismiss announcement: Forbidden''))))))"
proof -
  let ?c = "snd (Announcements_fetch
        (new_AnnouncementsController \<lparr>siteKey = ''sk'', endpoint = None\<rparr>) (Fulfilled [ann42]))"
  have h: "42 \<notin> dismissed (state ?c) \<and> ann42 \<in> set (announcements (state ?c)) \<and>
           announcement_id ann42 = 42"
    by (simp add: Announcements_fetch_def Announcements_fetch_call_def
          Announcements_fetch_settle_def new_AnnouncementsController_def new_cell_def
          state_notify state_issue ann42_def)
  with dismiss_after_success_only
    [of ?c 42 "VError (JsError ''Failed to dismiss announcement: Forbidden'')" ann42]
  show ?thesis by blast
qed

subsection \<open>C6: vote with no poll loaded\<close>

text \<open>
  C6: on a controller with \<open>poll = null\<close>, \<open>vote(sel)\<close> whose remote call is
  fulfilled with \<open>result\<close> issues the \<open>votePoll\<close> request, returns \<open>result\<close> (it does
  not throw), leaves the state as it was, \<open>poll\<close> still null, and notifies the listeners.
\<close>

theorem vote_without_poll:
  assumes "poll (state c) = None"
  shows "fst (Poll_vote c sel (Fulfilled result)) = Inr result \<and>
         poll (state (snd (Poll_vote c sel (Fulfilled result)))) = None \<and>
         state (snd (Poll_vote c sel (Fulfilled result))) = state c \<and>
         requests (snd (Poll_vote c sel (Fulfilled result))) =
           requests c @ [Call_votePoll (config c) (slug c) sel] \<and>
         delivered (snd (Poll_vote c sel (Fulfilled result))) =
           delivered c @ map (\<lambda>l. (l, state c)) (listeners c)"
  using assms
  by (simp add: Poll_vote_def Poll_vote_call_def Poll_vote_settle_def Let_def notify_def
        issue_def getState_def)

theorem vote_without_poll_witness:
  "poll (state (new_PollController \<lparr>siteKey = ''sk'', endpoint = None\<rparr> ''lunch'')) = None \<and>
   fst (Poll_vote (new_PollController \<lparr>siteKey = ''sk'', endpoint = None\<rparr> ''lunch'') [''opt-a'']
          (Fulfilled \<lparr>success = True, results = [''opt-a'' \<mapsto> 1], totalVotes = 1\<rparr>)) =
     Inr \<lparr>success = True, results = [''opt-a'' \<mapsto> 1], totalVotes = 1\<rparr> \<and>
   poll (state (snd (Poll_vote (new_PollController \<lparr>siteKey = ''sk'', endpoint = None\<rparr> ''lunch'')
          [''opt-a''] (Fulfilled \<lparr>success = True, results = [''opt-a'' \<mapsto> 1], totalVotes = 1\<rparr>)))) =
     None"
proof -
  have h: "poll (state (new_PollController \<lparr>siteKey = ''sk'', endpoint = None\<rparr> ''lunch'')) = None"
    by (simp add: new_PollController_def)
  from vote_without_poll [OF h, of "[''opt-a'']"
      "\<lparr>success = True, results = [''opt-a'' \<mapsto> 1], totalVotes = 1\<rparr>"] h
  show ?thesis by blast
qed

subsection \<open>C7: record leaves status alone\<close>

text \<open>
  C7: \<open>record()\<close> changes no state before the remote call (no \<open>Loading\<close>); however the
  remote call settles, \<open>status\<close> afterwards is what it was before; on success the new
  state is the old one with \<open>views\<close> and \<open>uniqueVisitors\<close> taken from the response;
  and every snapshot handed to a listener during \<open>record()\<close> carries the old status.
\<close>

theorem record_keeps_status:
  "state (ViewCounts_record_call c) = state c \<and>
   status (state (snd (ViewCounts_record_settle c outcome))) = status (state c) \<and>
   status (state (snd (ViewCounts_record c outcome))) = status (state c) \<and>
   state (snd (ViewCounts_record c (Fulfilled result))) =
     (state c)\<lparr>views := ViewCounts.views result,
               uniqueVisitors := ViewCounts.uniqueVisitors result\<rparr> \<and>
   map (status \<circ> snd) (delivered (snd (ViewCounts_record c outcome))) =
     map (status \<circ> snd) (delivered c) @ map (\<lambda>l. status (state c)) (listeners c)"
  by (cases outcome)
     (simp_all add: ViewCounts_record_def ViewCounts_record_call_def
        ViewCounts_record_settle_def Let_def notify_def issue_def getState_def)

subsection \<open>C8: post refetches\<close>

text \<open>
  C8: \<open>post\<close> changes no state when called. When \<open>postComment\<close> is fulfilled, the
  requests issued by the whole \<open>post\<close> are the \<open>postComment\<close> call followed by exactly
  one \<open>fetchComments\<close> call; when that fetch is fulfilled with \<open>cs\<close>, \<open>post\<close> returns
  the posted comment and the state's \<open>comments\<close> is \<open>cs\<close>; when that fetch is rejected
  \<open>comments\<close> is what it was. When \<open>postComment\<close> is rejected no fetch is issued.
  In no case is the posted comment spliced into the list.
\<close>

theorem post_refetches:
  "state (Comments_post_call c a b opts) = state c \<and>
   requests (snd (Comments_post c a b opts (Fulfilled cm) fo)) =
     requests c @
     [Call_postComment (config c) (pageId c) a b
        (Option.bind opts opt_authorEmail) (Option.bind opts opt_parentId),
      Call_fetchComments (config c) (pageId c)] \<and>
   fst (Comments_post c a b opts (Fulfilled cm) (Fulfilled cs)) = Inr cm \<and>
   comments (state (snd (Comments_post c a b opts (Fulfilled cm) (Fulfilled cs)))) = cs \<and>
   comments (state (snd (Comments_post c a b opts (Fulfilled cm) (Rejected e)))) =
     comments (state c) \<and>
   requests (snd (Comments_post c a b opts (Rejected e) fo)) =
     requests c @
     [Call_postComment (config c) (pageId c) a b
        (Option.bind opts opt_authorEmail) (Option.bind opts opt_parentId)]"
  by (cases fo)
     (simp_all add: Comments_post_def Comments_post_call_def Comments_post_catch_def
        Comments_fetch_def Comments_fetch_call_def Comments_fetch_settle_def
        Let_def notify_def issue_def getState_def)

subsection \<open>C10: success of a mutator that does not touch status keeps a stale error\<close>

lemma Reactions_add_keeps:
  "error (state (snd (Reactions_add_settle c rt (Fulfilled r)))) = error (state c) \<and>
   status (state (snd (Reactions_add_settle c rt (Fulfilled r)))) = status (state c) \<and>
   state (snd (Reactions_add_settle c rt (Fulfilled r))) =
     (state c)\<lparr>counts := assign_key (counts (state c)) (default_like rt) (count r),
               userReactions :=
                 (if default_like rt \<in> set (userReactions (state c))
                  then userReactions (state c)
                  else userReactions (state c) @ [default_like rt])\<rparr>"
  by (simp add: Reactions_add_settle_def Let_def state_notify)

lemma Reactions_remove_keeps:
  "error (state (snd (Reactions_remove_settle c rt (Fulfilled r)))) = error (state c) \<and>
   status (state (snd (Reactions_remove_settle c rt (Fulfilled r)))) = status (state c) \<and>
   state (snd (Reactions_remove_settle c rt (Fulfilled r))) =
     (state c)\<lparr>counts := assign_key (counts (state c)) (default_like rt) (count r),
               userReactions := filter (\<lambda>x. x \<noteq> default_like rt) (userReactions (state c))\<rparr>"
  by (simp add: Reactions_remove_settle_def Let_def state_notify)

lemma Poll_vote_keeps:
  "error (state (snd (Poll_vote_settle c sel (Fulfilled r)))) = error (state c) \<and>
   status (state (snd (Poll_vote_settle c sel (Fulfilled r)))) = status (state c) \<and>
   state (snd (Poll_vote_settle c sel (Fulfilled r))) =
     (state c)\<lparr>poll := map_option
        (\<lambda>p. p\<lparr>results := VotePollResponse.results r,
                totalVotes := VotePollResponse.totalVotes r,
                userVotes := Some sel\<rparr>) (poll (state c))\<rparr>"
  by (simp add: Poll_vote_settle_def Let_def state_notify split: option.splits)

lemma Announcements_dismiss_keeps:
  "error (state (snd (Announcements_dismiss_settle c i (Fulfilled u)))) = error (state c) \<and>
   status (state (snd (Announcements_dismiss_settle c i (Fulfilled u)))) = status (state c) \<and>
   state (snd (Announcements_dismiss_settle c i (Fulfilled u))) =
     (state c)\<lparr>dismissed := insert i (dismissed (state c))\<rparr>"
  by (simp add: Announcements_dismiss_settle_def Let_def state_notify)

lemma ViewCounts_record_keeps:
  "error (state (snd (ViewCounts_record_settle c (Fulfilled r)))) = error (state c) \<and>
   status (state (snd (ViewCounts_record_settle c (Fulfilled r)))) = status (state c) \<and>
   state (snd (ViewCounts_record_settle c (Fulfilled r))) =
     (state c)\<lparr>views := ViewCounts.views r, uniqueVisitors := ViewCounts.uniqueVisitors r\<rparr>"
  by (simp add: ViewCounts_record_settle_def Let_def state_notify)

lemma call_keeps_state:
  "state (Reactions_add_call cr rt) = state cr"
  "state (Reactions_remove_call cr rt) = state cr"
  "state (Poll_vote_call cp sel) = state cp"
  "state (Announcements_dismiss_call ca i) = state ca"
  "state (ViewCounts_record_call cv) = state cv"
  by (simp_all add: Reactions_add_call_def Reactions_remove_call_def Poll_vote_call_def
        Announcements_dismiss_call_def ViewCounts_record_call_def state_issue)

text \<open>
  C10: when the state holds an error, a fulfilled \<open>add\<close>, \<open>remove\<close>, \<open>vote\<close>,
  \<open>dismiss\<close> or \<open>record\<close> leaves that error and the status in place and changes only
  its payload: \<open>counts\<close> and \<open>userReactions\<close>; \<open>poll\<close>; \<open>dismissed\<close>; \<open>views\<close>
  and \<open>uniqueVisitors\<close>. The last conjunct is what the assignment
  \<open>counts[k] = v\<close> leaves under each key: \<open>v\<close> under \<open>k\<close>, except that the key
  \<open>__proto__\<close> gets no entry when it had none.
\<close>

theorem success_keeps_stale_error:
  assumes "error (state cr) = Some e1" and "error (state cp) = Some e2"
    and "error (state ca) = Some e3" and "error (state cv) = Some e4"
  shows
  "(error (state (snd (Reactions_add cr rt (Fulfilled r)))) = Some e1 \<and>
    status (state (snd (Reactions_add cr rt (Fulfilled r)))) = status (state cr) \<and>
    state (snd (Reactions_add cr rt (Fulfilled r))) =
      (state cr)\<lparr>counts := assign_key (counts (state cr)) (default_like rt) (count r),
                 userReactions :=
                   (if default_like rt \<in> set (userReactions (state cr))
                    then userReactions (state cr)
                    else userReactions (state cr) @ [default_like rt])\<rparr>) \<and>
   (error (state (snd (Reactions_remove cr rt (Fulfilled r)))) = Some e1 \<and>
    status (state (snd (Reactions_remove cr rt (Fulfilled r)))) = status (state cr) \<and>
    state (snd (Reactions_remove cr rt (Fulfilled r))) =
      (state cr)\<lparr>counts := assign_key (counts (state cr)) (default_like rt) (count r),
                 userReactions :=
                   filter (\<lambda>x. x \<noteq> default_like rt) (userReactions (state cr))\<rparr>) \<and>
   (error (state (snd (Poll_vote cp sel (Fulfilled vr)))) = Some e2 \<and>
    status (state (snd (Poll_vote cp sel (Fulfilled vr)))) = status (state cp) \<and>
    state (snd (Poll_vote cp sel (Fulfilled vr))) =
      (state cp)\<lparr>poll := map_option
         (\<lambda>p. p\<lparr>results := VotePollResponse.results vr,
                 totalVotes := VotePollResponse.totalVotes vr,
                 userVotes := Some sel\<rparr>) (poll (state cp))\<rparr>) \<and>
   (error (state (snd (Announcements_dismiss ca i (Fulfilled u)))) = Some e3 \<and>
    status (state (snd (Announcements_dismiss ca i (Fulfilled u)))) = status (state ca) \<and>
    state (snd (Announcements_dismiss ca i (Fulfilled u))) =
      (state ca)\<lparr>dismissed := insert i (dismissed (state ca))\<rparr>) \<and>
   (error (state (snd (ViewCounts_record cv (Fulfilled rv)))) = Some e4 \<and>
    status (state (snd (ViewCounts_record cv (Fulfilled rv)))) = status (state cv) \<and>
    state (snd (ViewCounts_record cv (Fulfilled rv))) =
      (state cv)\<lparr>views := ViewCounts.views rv,
                 uniqueVisitors := ViewCounts.uniqueVisitors rv\<rparr>) \<and>
   (\<forall>k'. assign_key m k v k' =
      (if k' = k \<and> \<not> (k = ''__proto__'' \<and> m k = None) then Some v else m k'))"
proof -
  have main: "(error (state (snd (Reactions_add cr rt (Fulfilled r)))) = Some e1 \<and>
    status (state (snd (Reactions_add cr rt (Fulfilled r)))) = status (state cr) \<and>
    state (snd (Reactions_add cr rt (Fulfilled r))) =
      (state cr)\<lparr>counts := assign_key (counts (state cr)) (default_like rt) (count r),
                 userReactions :=
                   (if default_like rt \<in> set (userReactions (state cr))
                    then userReactions (state cr)
                    else userReactions (state cr) @ [default_like rt])\<rparr>) \<and>
   (error (state (snd (Reactions_remove cr rt (Fulfilled r)))) = Some e1 \<and>
    status (state (snd (Reactions_remove cr rt (Fulfilled r)))) = status (state cr) \<and>
    state (snd (Reactions_remove cr rt (Fulfilled r))) =
      (state cr)\<lparr>counts := assign_key (counts (state cr)) (default_like rt) (count r),
                 userReactions :=
                   filter (\<lambda>x. x \<noteq> default_like rt) (userReactions (state cr))\<rparr>) \<and>
   (error (state (snd (Poll_vote cp sel (Fulfilled vr)))) = Some e2 \<and>
    status (state (snd (Poll_vote cp sel (Fulfilled vr)))) = status (state cp) \<and>
    state (snd (Poll_vote cp sel (Fulfilled vr))) =
      (state cp)\<lparr>poll := map_option
         (\<lambda>p. p\<lparr>results := VotePollResponse.results vr,
                 totalVotes := VotePollResponse.totalVotes vr,
                 userVotes := Some sel\<rparr>) (poll (state cp))\<rparr>) \<and>
   (error (state (snd (Announcements_dismiss ca i (Fulfilled u)))) = Some e3 \<and>
    status (state (snd (Announcements_dismiss ca i (Fulfilled u)))) = status (state ca) \<and>
    state (snd (Announcements_dismiss ca i (Fulfilled u))) =
      (state ca)\<lparr>dismissed := insert i (dismissed (state ca))\<rparr>) \<and>
   (error (state (snd (ViewCounts_record cv (Fulfilled rv)))) = Some e4 \<and>
    status (state (snd (ViewCounts_record cv (Fulfilled rv)))) = status (state cv) \<and>
    state (snd (ViewCounts_record cv (Fulfilled rv))) =
      (state cv)\<lparr>views := ViewCounts.views rv,
                 uniqueVisitors := ViewCounts.uniqueVisitors rv\<rparr>)"
    using assms
      Reactions_add_keeps [of "Reactions_add_call cr rt" rt r]
      Reactions_remove_keeps [of "Reactions_remove_call cr rt" rt r]
      Poll_vote_keeps [of "Poll_vote_call cp sel" sel vr]
      Announcements_dismiss_keeps [of "Announcements_dismiss_call ca i" i u]
      ViewCounts_record_keeps [of "ViewCounts_record_call cv" rv]
    by (simp add: Reactions_add_def Reactions_remove_def Poll_vote_def Announcements_dismiss_def
        ViewCounts_record_def call_keeps_state)
  have pin: "(\<forall>k'. assign_key m k v k' =
      (if k' = k \<and> \<not> (k = ''__proto__'' \<and> m k = None) then Some v else m k'))"
    by (auto simp: assign_key_def)
  from main pin show ?thesis by blast
qed

theorem success_keeps_stale_error_witness:
  "error (state (snd (Reactions_add (new_ReactionsController cfg0 ''page'') None (Rejected boom)))) =
     Some (JsError ''Failed to fetch'') \<and>
   error (state (snd (Poll_vote (new_PollController cfg0 ''lunch'') [''opt-a''] (Rejected boom)))) =
     Some (JsError ''Failed to fetch'') \<and>
   error (state (snd (Announcements_dismiss (new_AnnouncementsController cfg0) 42 (Rejected boom)))) =
     Some (JsError ''Failed to fetch'') \<and>
   error (state (snd (ViewCounts_record (new_ViewCountsController cfg0 ''page'') (Rejected boom)))) =
     Some (JsError ''Failed to fetch'') \<and>
   error (state (snd (Reactions_add
      (snd (Reactions_add (new_ReactionsController cfg0 ''page'') None (Rejected boom)))
      None (Fulfilled \<lparr>reactionType = ''like'', count = 3\<rparr>)))) = Some (JsError ''Failed to fetch'') \<and>
   status (state (snd (Reactions_add
      (snd (Reactions_add (new_ReactionsController cfg0 ''page'') None (Rejected boom)))
      None (Fulfilled \<lparr>reactionType = ''like'', count = 3\<rparr>)))) = Idle \<and>
   error (state (snd (ViewCounts_record
      (snd (ViewCounts_record (new_ViewCountsController cfg0 ''page'') (Rejected boom)))
      (Fulfilled \<lparr>ViewCounts.pageId = ''page'', views = 10, uniqueVisitors = 4,
                  isNewVisitor = False\<rparr>)))) = Some (JsError ''Failed to fetch'') \<and>
   counts (state (snd (Reactions_add
      (snd (Reactions_add (new_ReactionsController cfg0 ''page'') None (Rejected boom)))
      None (Fulfilled \<lparr>reactionType = ''like'', count = 3\<rparr>)))) = [''like'' \<mapsto> 3] \<and>
   counts (state (snd (Reactions_add
      (snd (Reactions_add (new_ReactionsController cfg0 ''page'') None (Rejected boom)))
      (Some ''__proto__'') (Fulfilled \<lparr>reactionType = ''__proto__'', count = 3\<rparr>)))) =
     Map.empty"
proof -
  let ?cr = "snd (Reactions_add (new_ReactionsController cfg0 ''page'') None (Rejected boom))"
  let ?cp = "snd (Poll_vote (new_PollController cfg0 ''lunch'') [''opt-a''] (Rejected boom))"
  let ?ca = "snd (Announcements_dismiss (new_AnnouncementsController cfg0) 42 (Rejected boom))"
  let ?cv = "snd (ViewCounts_record (new_ViewCountsController cfg0 ''page'') (Rejected boom))"
  have h1: "error (state ?cr) = Some (JsError ''Failed to fetch'')"
    by (simp add: Reactions_add_def Reactions_add_settle_def boom_def Let_def state_notify)
  have h2: "error (state ?cp) = Some (JsError ''Failed to fetch'')"
    by (simp add: Poll_vote_def Poll_vote_settle_def boom_def Let_def state_notify)
  have h3: "error (state ?ca) = Some (JsError ''Failed to fetch'')"
    by (simp add: Announcements_dismiss_def Announcements_dismiss_settle_def boom_def Let_def
          state_notify)
  have h4: "error (state ?cv) = Some (JsError ''Failed to fetch'')"
    by (simp add: ViewCounts_record_def ViewCounts_record_settle_def boom_def Let_def
          state_notify)
  have s: "status (state ?cr) = Idle"
    by (simp add: Reactions_add_def Reactions_add_settle_def Reactions_add_call_def boom_def
          Let_def state_notify state_issue new_ReactionsController_def)
  from success_keeps_stale_error [OF h1 h2 h3 h4, of None "\<lparr>reactionType = ''like'', count = 3\<rparr>"
      _ _ _ _ "\<lparr>ViewCounts.pageId = ''page'', views = 10, uniqueVisitors = 4,
                  isNewVisitor = False\<rparr>"] h1 h2 h3 h4 s
  have w: "error (state ?cr) = Some (JsError ''Failed to fetch'') \<and>
    error (state ?cp) = Some (JsError ''Failed to fetch'') \<and>
    error (state ?ca) = Some (JsError ''Failed to fetch'') \<and>
    error (state ?cv) = Some (JsError ''Failed to fetch'') \<and>
    error (state (snd (Reactions_add ?cr None (Fulfilled \<lparr>reactionType = ''like'', count = 3\<rparr>)))) =
      Some (JsError ''Failed to fetch'') \<and>
    status (state (snd (Reactions_add ?cr None (Fulfilled \<lparr>reactionType = ''like'', count = 3\<rparr>)))) =
      Idle \<and>
    error (state (snd (ViewCounts_record ?cv
      (Fulfilled \<lparr>ViewCounts.pageId = ''page'', views = 10, uniqueVisitors = 4,
                  isNewVisitor = False\<rparr>)))) = Some (JsError ''Failed to fetch'')"
    by simp
  have c0: "counts (state ?cr) = Map.empty"
    by (simp add: Reactions_add_def Reactions_add_settle_def Reactions_add_call_def boom_def
          Let_def state_notify state_issue new_ReactionsController_def)
  have k: "counts (state (snd (Reactions_add ?cr rt (Fulfilled r)))) =
      assign_key (counts (state ?cr)) (default_like rt) (count r)" for rt r
    using Reactions_add_keeps [of "Reactions_add_call ?cr rt" rt r]
    by (simp add: Reactions_add_def [of ?cr] call_keeps_state)
  have c1: "counts (state (snd (Reactions_add ?cr None
      (Fulfilled \<lparr>reactionType = ''like'', count = 3\<rparr>)))) = [''like'' \<mapsto> 3]"
    by (simp add: k c0 assign_key_def default_like_def)
  have c2: "counts (state (snd (Reactions_add ?cr (Some ''__proto__'')
      (Fulfilled \<lparr>reactionType = ''__proto__'', count = 3\<rparr>)))) = Map.empty"
    by (simp add: k c0 assign_key_def default_like_def)
  from w c1 c2 show ?thesis by blast
qed

subsection \<open>C2: what a snapshot shares with the state\<close>

lemma tree_of_obj_cong:
  "(\<And>v. v \<in> set (obj_vals ob) \<Longrightarrow> f v = g v) \<Longrightarrow> tree_of_obj f ob = tree_of_obj g ob"
  by (cases ob) (force simp: tree_of_obj_def)+

lemma closed_nth:
  "closed h \<Longrightarrow> a < length h \<Longrightarrow> v \<in> set (obj_vals (h ! a)) \<Longrightarrow> val_ok (length h) v"
  by (auto simp: closed_def list_all_iff)

lemma extends_refl: "extends h h"
  by (simp add: extends_def)

lemma extends_append: "extends H h \<Longrightarrow> extends (H @ xs) h"
  by (simp add: extends_def nth_append)

lemma extends_update: "extends H h \<Longrightarrow> length h \<le> a \<Longrightarrow> extends (H[a := ob]) h"
  by (simp add: extends_def)

lemma reify_frame:
  "closed h \<Longrightarrow> extends H h \<Longrightarrow> val_ok (length h) v \<Longrightarrow> reify n H v = reify n h v"
proof (induction n arbitrary: v)
  case 0
  then show ?case by simp
next
  case (Suc n)
  show ?case
  proof (cases v)
    case (HRef a)
    with Suc.prems have a: "a < length h" by (simp add: val_ok_def)
    with Suc.prems have aH: "a < length H" and eq: "H ! a = h ! a"
      by (simp_all add: extends_def)
    have "tree_of_obj (reify n H) (h ! a) = tree_of_obj (reify n h) (h ! a)"
      by (rule tree_of_obj_cong) (use Suc a closed_nth in blast)
    with HRef a aH eq show ?thesis by simp
  qed simp_all
qed

lemma reify_fresh:
  assumes "closed h" and "extends H h" and "x < length H" and "H ! x = ob"
    and "\<And>v. v \<in> set (obj_vals ob) \<Longrightarrow> val_ok (length h) v"
  shows "reify n H (HRef x) = fresh_tree n h ob"
proof (cases n)
  case 0
  then show ?thesis by (simp add: fresh_tree_def prim_tree_def)
next
  case (Suc m)
  have "tree_of_obj (reify m H) ob = tree_of_obj (reify m h) ob"
    by (rule tree_of_obj_cong) (use assms reify_frame in blast)
  with Suc assms show ?thesis by (simp add: fresh_tree_def)
qed

lemma props_of_extends:
  "extends H h \<Longrightarrow> val_ok (length h) v \<Longrightarrow> props_of H v = props_of h v"
  by (cases v) (auto simp: props_of_def extends_def val_ok_def)

lemma elems_of_extends:
  "extends H h \<Longrightarrow> val_ok (length h) v \<Longrightarrow> elems_of H v = elems_of h v"
  by (cases v) (auto simp: elems_of_def extends_def val_ok_def)

lemma js_get_extends:
  "extends H h \<Longrightarrow> val_ok (length h) v \<Longrightarrow> js_get H v k = js_get h v k"
  by (simp add: js_get_def props_of_extends)

lemma closed_Object:
  "closed h \<Longrightarrow> a < length h \<Longrightarrow> h ! a = Object ps \<Longrightarrow> (k, x) \<in> set ps \<Longrightarrow>
   val_ok (length h) x"
  using closed_nth [of h a x] by force

lemma closed_Array:
  "closed h \<Longrightarrow> a < length h \<Longrightarrow> h ! a = Array vs \<Longrightarrow> x \<in> set vs \<Longrightarrow> val_ok (length h) x"
  using closed_nth [of h a x] by force

lemma closed_SetObj:
  "closed h \<Longrightarrow> a < length h \<Longrightarrow> h ! a = SetObj vs \<Longrightarrow> x \<in> set vs \<Longrightarrow> val_ok (length h) x"
  using closed_nth [of h a x] by force

lemma props_of_cases:
  "props_of h v = [] \<or> (\<exists>a. v = HRef a \<and> a < length h \<and> h ! a = Object (props_of h v))"
  by (cases v; cases "h ! (case v of HRef a \<Rightarrow> a | _ \<Rightarrow> 0)") (simp_all add: props_of_def)

lemma elems_of_cases:
  "elems_of h v = [] \<or>
   (\<exists>a. v = HRef a \<and> a < length h \<and>
        (h ! a = Array (elems_of h v) \<or> h ! a = SetObj (elems_of h v)))"
  by (cases v; cases "h ! (case v of HRef a \<Rightarrow> a | _ \<Rightarrow> 0)") (simp_all add: elems_of_def)

lemma props_of_ok:
  assumes "closed h" and "(k, x) \<in> set (props_of h v)"
  shows "val_ok (length h) x"
  using props_of_cases [of h v] assms closed_Object by fastforce

lemma elems_of_ok:
  assumes "closed h" and "x \<in> set (elems_of h v)"
  shows "val_ok (length h) x"
  using elems_of_cases [of h v] assms closed_Array closed_SetObj by fastforce

lemma js_get_ok: "closed h \<Longrightarrow> val_ok (length h) (js_get h v k)"
  by (auto simp: js_get_def val_ok_def split: option.splits hval.splits
      dest!: map_of_SomeD props_of_ok)

lemma map_set_prop:
  "map (\<lambda>(k, v). (k, f v)) (set_prop k0 v0 ps) = set_prop k0 (f v0) (map (\<lambda>(k, v). (k, f v)) ps)"
  by (induction ps) auto

lemma map_props_frame:
  "closed h \<Longrightarrow> extends H h \<Longrightarrow>
   map (\<lambda>(k, v). (k, reify n H v)) (props_of h w) = map (\<lambda>(k, v). (k, reify n h v)) (props_of h w)"
  by (auto intro!: reify_frame dest: props_of_ok)

lemma map_of_set_prop: "map_of (set_prop k v ps) = (map_of ps)(k \<mapsto> v)"
  by (induction ps) auto

lemma val_ok_HRef: "val_ok n (HRef s) = (s < n)"
  by (simp add: val_ok_def)

lemma spread_object_observe:
  assumes "closed h" and "s < length h" and "extends H h"
  shows "observe n (spread_object H (HRef s)) = fresh_tree n h (Object (props_of h (HRef s)))"
proof -
  have p: "props_of H (HRef s) = props_of h (HRef s)"
    using assms by (simp add: props_of_extends val_ok_HRef)
  have e: "extends (H @ [Object (props_of h (HRef s))]) h"
    using assms(3) by (rule extends_append)
  have "reify n (H @ [Object (props_of h (HRef s))]) (HRef (length H)) =
        fresh_tree n h (Object (props_of h (HRef s)))"
    by (rule reify_fresh [OF assms(1) e]) (auto dest: props_of_ok [OF assms(1)])
  then show ?thesis by (simp add: observe_def spread_object_def alloc_def p)
qed

lemma Reactions_observe:
  assumes "closed h" and "s < length h" and "extends H h"
  shows "observe n (Reactions_getState_ref H s) =
    (case n of 0 \<Rightarrow> TCut
     | Suc m \<Rightarrow> TObject
        (set_prop ''userReactions''
           (fresh_tree m h (Array (elems_of h (js_get h (HRef s) ''userReactions''))))
           (set_prop ''counts''
              (fresh_tree m h (Object (props_of h (js_get h (HRef s) ''counts''))))
              (map (\<lambda>(k, v). (k, reify m h v)) (props_of h (HRef s))))))"
proof -
  let ?cv = "js_get h (HRef s) ''counts''"
  let ?uv = "js_get h (HRef s) ''userReactions''"
  let ?co = "Object (props_of h ?cv)"
  let ?uo = "Array (elems_of h ?uv)"
  let ?ps = "set_prop ''userReactions'' (HRef (Suc (length H)))
               (set_prop ''counts'' (HRef (length H)) (props_of h (HRef s)))"
  let ?H3 = "H @ [?co, ?uo, Object ?ps]"
  have ok: "val_ok (length h) (HRef s)" using assms(2) by (simp add: val_ok_HRef)
  have e1: "extends (H @ [?co]) h" using assms(3) by (rule extends_append)
  have e2: "extends ((H @ [?co]) @ [?uo]) h" using e1 by (rule extends_append)
  have g: "Reactions_getState_ref H s = (HRef (Suc (Suc (length H))), ?H3)"
    using assms e1 e2 ok
    by (simp add: Reactions_getState_ref_def spread_object_def spread_array_def alloc_def
          js_get_extends props_of_extends elems_of_extends js_get_ok)
  have e3: "extends ?H3 h" using extends_append [OF assms(3), of "[?co, ?uo, Object ?ps]"] by simp
  have c: "reify m ?H3 (HRef (length H)) = fresh_tree m h ?co" for m
    by (rule reify_fresh [OF assms(1) e3]) (auto dest: props_of_ok [OF assms(1)])
  have u: "reify m ?H3 (HRef (Suc (length H))) = fresh_tree m h ?uo" for m
    by (rule reify_fresh [OF assms(1) e3])
       (auto simp: nth_append dest: elems_of_ok [OF assms(1)])
  show ?thesis
  proof (cases n)
    case 0
    then show ?thesis by (simp add: g observe_def prim_tree_def)
  next
    case (Suc m)
    then show ?thesis
      by (simp add: g observe_def nth_append tree_of_obj_def map_set_prop c u
            map_props_frame [OF assms(1) e3])
  qed
qed

lemma Comments_observe:
  assumes "closed h" and "s < length h" and "extends H h"
  shows "observe n (Comments_getState_ref H s) =
    (case n of 0 \<Rightarrow> TCut
     | Suc m \<Rightarrow> TObject
        (set_prop ''comments''
           (fresh_tree m h (Array (elems_of h (js_get h (HRef s) ''comments''))))
           (map (\<lambda>(k, v). (k, reify m h v)) (props_of h (HRef s)))))"
proof -
  let ?co = "Array (elems_of h (js_get h (HRef s) ''comments''))"
  let ?ps = "set_prop ''comments'' (HRef (length H)) (props_of h (HRef s))"
  let ?H2 = "H @ [?co, Object ?ps]"
  have ok: "val_ok (length h) (HRef s)" using assms(2) by (simp add: val_ok_HRef)
  have e1: "extends (H @ [?co]) h" using assms(3) by (rule extends_append)
  have g: "Comments_getState_ref H s = (HRef (Suc (length H)), ?H2)"
    using assms e1 ok
    by (simp add: Comments_getState_ref_def spread_array_def alloc_def
          js_get_extends props_of_extends elems_of_extends js_get_ok)
  have e2: "extends ?H2 h" using extends_append [OF assms(3), of "[?co, Object ?ps]"] by simp
  have c: "reify m ?H2 (HRef (length H)) = fresh_tree m h ?co" for m
    by (rule reify_fresh [OF assms(1) e2]) (auto dest: elems_of_ok [OF assms(1)])
  show ?thesis
  proof (cases n)
    case 0
    then show ?thesis by (simp add: g observe_def prim_tree_def)
  next
    case (Suc m)
    then show ?thesis
      by (simp add: g observe_def nth_append tree_of_obj_def map_set_prop c
            map_props_frame [OF assms(1) e2])
  qed
qed

lemma Announcements_observe:
  assumes "closed h" and "s < length h" and "extends H h"
  shows "observe n (Announcements_getState_ref H s) =
    (case n of 0 \<Rightarrow> TCut
     | Suc m \<Rightarrow> TObject
        (set_prop ''dismissed''
           (fresh_tree m h
              (SetObj (rev (remdups (rev (elems_of h (js_get h (HRef s) ''dismissed'')))))))
           (set_prop ''announcements''
              (fresh_tree m h (Array (elems_of h (js_get h (HRef s) ''announcements''))))
              (map (\<lambda>(k, v). (k, reify m h v)) (props_of h (HRef s))))))"
proof -
  let ?ao = "Array (elems_of h (js_get h (HRef s) ''announcements''))"
  let ?do = "SetObj (rev (remdups (rev (elems_of h (js_get h (HRef s) ''dismissed'')))))"
  let ?ps = "set_prop ''dismissed'' (HRef (Suc (length H)))
               (set_prop ''announcements'' (HRef (length H)) (props_of h (HRef s)))"
  let ?H3 = "H @ [?ao, ?do, Object ?ps]"
  have ok: "val_ok (length h) (HRef s)" using assms(2) by (simp add: val_ok_HRef)
  have e1: "extends (H @ [?ao]) h" using assms(3) by (rule extends_append)
  have e2: "extends ((H @ [?ao]) @ [?do]) h" using e1 by (rule extends_append)
  have g: "Announcements_getState_ref H s = (HRef (Suc (Suc (length H))), ?H3)"
    using assms e1 e2 ok
    by (simp add: Announcements_getState_ref_def spread_array_def new_Set_def alloc_def
          js_get_extends props_of_extends elems_of_extends js_get_ok)
  have e3: "extends ?H3 h" using extends_append [OF assms(3), of "[?ao, ?do, Object ?ps]"] by simp
  have a: "reify m ?H3 (HRef (length H)) = fresh_tree m h ?ao" for m
    by (rule reify_fresh [OF assms(1) e3]) (auto dest: elems_of_ok [OF assms(1)])
  have d: "reify m ?H3 (HRef (Suc (length H))) = fresh_tree m h ?do" for m
    by (rule reify_fresh [OF assms(1) e3])
       (auto simp: nth_append dest: elems_of_ok [OF assms(1)])
  show ?thesis
  proof (cases n)
    case 0
    then show ?thesis by (simp add: g observe_def prim_tree_def)
  next
    case (Suc m)
    then show ?thesis
      by (simp add: g observe_def nth_append tree_of_obj_def map_set_prop a d
            map_props_frame [OF assms(1) e3])
  qed
qed

text \<open>Where the snapshot and its copied containers are.\<close>

lemma spread_object_result:
  "spread_object h v = (HRef (length h), h @ [Object (props_of h v)])"
  by (simp add: spread_object_def alloc_def)

lemma Reactions_result:
  "fst (Reactions_getState_ref h s) = HRef (length h + 2) \<and>
   length (snd (Reactions_getState_ref h s)) = length h + 3 \<and>
   extends (snd (Reactions_getState_ref h s)) h \<and>
   js_get (snd (Reactions_getState_ref h s)) (fst (Reactions_getState_ref h s)) ''counts'' =
     HRef (length h) \<and>
   js_get (snd (Reactions_getState_ref h s)) (fst (Reactions_getState_ref h s)) ''userReactions'' =
     HRef (length h + 1)"
  by (simp add: Reactions_getState_ref_def spread_object_def spread_array_def alloc_def
        js_get_def props_of_def map_of_set_prop extends_def nth_append)

lemma Comments_result:
  "fst (Comments_getState_ref h s) = HRef (length h + 1) \<and>
   length (snd (Comments_getState_ref h s)) = length h + 2 \<and>
   extends (snd (Comments_getState_ref h s)) h \<and>
   js_get (snd (Comments_getState_ref h s)) (fst (Comments_getState_ref h s)) ''comments'' =
     HRef (length h)"
  by (simp add: Comments_getState_ref_def spread_array_def alloc_def
        js_get_def props_of_def map_of_set_prop extends_def nth_append)

lemma Announcements_result:
  "fst (Announcements_getState_ref h s) = HRef (length h + 2) \<and>
   length (snd (Announcements_getState_ref h s)) = length h + 3 \<and>
   extends (snd (Announcements_getState_ref h s)) h \<and>
   js_get (snd (Announcements_getState_ref h s)) (fst (Announcements_getState_ref h s))
     ''announcements'' = HRef (length h) \<and>
   js_get (snd (Announcements_getState_ref h s)) (fst (Announcements_getState_ref h s))
     ''dismissed'' = HRef (length h + 1)"
  by (simp add: Announcements_getState_ref_def spread_array_def new_Set_def alloc_def
        js_get_def props_of_def map_of_set_prop extends_def nth_append)

lemma spread_stable:
  assumes "closed h" and "s < length h" and "length h \<le> a"
  shows "observe n (spread_object ((snd (spread_object h (HRef s)))[a := ob]) (HRef s)) =
         observe n (spread_object h (HRef s))"
proof -
  have "extends (snd (spread_object h (HRef s))) h"
    by (simp add: spread_object_result extends_def nth_append)
  then have "extends ((snd (spread_object h (HRef s)))[a := ob]) h"
    using assms(3) by (rule extends_update)
  then show ?thesis
    using assms by (simp add: spread_object_observe extends_refl)
qed

lemma Reactions_stable:
  assumes "closed h" and "s < length h" and "length h \<le> a"
  shows "observe n (Reactions_getState_ref ((snd (Reactions_getState_ref h s))[a := ob]) s) =
         observe n (Reactions_getState_ref h s)"
proof -
  have "extends ((snd (Reactions_getState_ref h s))[a := ob]) h"
    using Reactions_result [of h s] assms(3) by (simp add: extends_update)
  then show ?thesis
    using assms by (simp add: Reactions_observe extends_refl)
qed

lemma Comments_stable:
  assumes "closed h" and "s < length h" and "length h \<le> a"
  shows "observe n (Comments_getState_ref ((snd (Comments_getState_ref h s))[a := ob]) s) =
         observe n (Comments_getState_ref h s)"
proof -
  have "extends ((snd (Comments_getState_ref h s))[a := ob]) h"
    using Comments_result [of h s] assms(3) by (simp add: extends_update)
  then show ?thesis
    using assms by (simp add: Comments_observe extends_refl)
qed

lemma Announcements_stable:
  assumes "closed h" and "s < length h" and "length h \<le> a"
  shows "observe n (Announcements_getState_ref ((snd (Announcements_getState_ref h s))[a := ob]) s) =
         observe n (Announcements_getState_ref h s)"
proof -
  have "extends ((snd (Announcements_getState_ref h s))[a := ob]) h"
    using Announcements_result [of h s] assms(3) by (simp add: extends_update)
  then show ?thesis
    using assms by (simp add: Announcements_observe extends_refl)
qed

lemma holds_object_cases:
  "holds_object h v \<Longrightarrow> \<exists>a ps. v = HRef a \<and> a < length h \<and> h ! a = Object ps"
  by (cases v; cases "h ! (case v of HRef a \<Rightarrow> a | _ \<Rightarrow> 0)") (simp_all add: holds_object_def)

lemma holds_array_cases:
  "holds_array h v \<Longrightarrow> \<exists>a vs. v = HRef a \<and> a < length h \<and> h ! a = Array vs"
  by (cases v; cases "h ! (case v of HRef a \<Rightarrow> a | _ \<Rightarrow> 0)") (simp_all add: holds_array_def)

lemma holds_set_cases:
  "holds_set h v \<Longrightarrow> \<exists>a vs. v = HRef a \<and> a < length h \<and> h ! a = SetObj vs \<and> distinct vs"
  by (cases v; cases "h ! (case v of HRef a \<Rightarrow> a | _ \<Rightarrow> 0)") (simp_all add: holds_set_def)

lemma fresh_tree_object:
  assumes "holds_object h v"
  shows "fresh_tree n h (Object (props_of h v)) = reify n h v"
proof -
  from holds_object_cases [OF assms] obtain a ps
    where v: "v = HRef a" "a < length h" "h ! a = Object ps" by blast
  then show ?thesis
    by (cases n) (simp_all add: fresh_tree_def props_of_def prim_tree_def)
qed

lemma fresh_tree_array:
  assumes "holds_array h v"
  shows "fresh_tree n h (Array (elems_of h v)) = reify n h v"
proof -
  from holds_array_cases [OF assms] obtain a vs
    where v: "v = HRef a" "a < length h" "h ! a = Array vs" by blast
  then show ?thesis
    by (cases n) (simp_all add: fresh_tree_def elems_of_def prim_tree_def)
qed

lemma fresh_tree_set:
  assumes "holds_set h v"
  shows "fresh_tree n h (SetObj (rev (remdups (rev (elems_of h v))))) = reify n h v"
proof -
  from holds_set_cases [OF assms] obtain a vs
    where v: "v = HRef a" "a < length h" "h ! a = SetObj vs" "distinct vs" by blast
  then show ?thesis
    by (cases n) (simp_all add: fresh_tree_def elems_of_def prim_tree_def distinct_remdups_id)
qed

lemma set_prop_same:
  "map_of ps k0 = Some v0 \<Longrightarrow>
   set_prop k0 (f v0) (map (\<lambda>(k, v). (k, f v)) ps) = map (\<lambda>(k, v). (k, f v)) ps"
  by (induction ps) (auto split: if_splits)

lemma js_get_present:
  "js_get h v k \<noteq> HNull \<Longrightarrow> map_of (props_of h v) k = Some (js_get h v k)"
  by (cases "map_of (props_of h v) k") (simp_all add: js_get_def)

lemma holds_object_not_null: "holds_object h v \<Longrightarrow> v \<noteq> HNull"
  by (auto simp: holds_object_def)

lemma holds_array_not_null: "holds_array h v \<Longrightarrow> v \<noteq> HNull"
  by (auto simp: holds_array_def)

lemma holds_set_not_null: "holds_set h v \<Longrightarrow> v \<noteq> HNull"
  by (auto simp: holds_set_def)

lemma reify_state_object:
  "holds_object h (HRef s) \<Longrightarrow>
   reify (Suc m) h (HRef s) = TObject (map (\<lambda>(k, v). (k, reify m h v)) (props_of h (HRef s)))"
  by (drule holds_object_cases) (auto simp: props_of_def tree_of_obj_def)

lemma spread_object_content:
  assumes "closed h" and "s < length h" and "holds_object h (HRef s)"
  shows "observe n (spread_object h (HRef s)) = reify n h (HRef s)"
  using spread_object_observe [OF assms(1,2) extends_refl, of n] fresh_tree_object [OF assms(3), of n]
  by simp

lemma Reactions_content:
  assumes "closed h" and "s < length h" and "Reactions_typed h s"
  shows "observe n (Reactions_getState_ref h s) = reify n h (HRef s)"
proof (cases n)
  case 0
  then show ?thesis
    using Reactions_observe [OF assms(1,2) extends_refl, of 0] by (simp add: prim_tree_def)
next
  case (Suc m)
  from assms(3) have t: "holds_object h (HRef s)"
    "holds_object h (js_get h (HRef s) ''counts'')"
    "holds_array h (js_get h (HRef s) ''userReactions'')"
    by (simp_all add: Reactions_typed_def)
  have c: "map_of (props_of h (HRef s)) ''counts'' = Some (js_get h (HRef s) ''counts'')"
    by (rule js_get_present) (rule holds_object_not_null [OF t(2)])
  have u: "map_of (props_of h (HRef s)) ''userReactions'' =
           Some (js_get h (HRef s) ''userReactions'')"
    by (rule js_get_present) (rule holds_array_not_null [OF t(3)])
  show ?thesis
    using Reactions_observe [OF assms(1,2) extends_refl, of n]
    by (simp del: reify.simps add: Suc reify_state_object [OF t(1)] fresh_tree_object [OF t(2)]
          fresh_tree_array [OF t(3)] set_prop_same [OF c] set_prop_same [OF u])
qed

lemma Comments_content:
  assumes "closed h" and "s < length h" and "Comments_typed h s"
  shows "observe n (Comments_getState_ref h s) = reify n h (HRef s)"
proof (cases n)
  case 0
  then show ?thesis
    using Comments_observe [OF assms(1,2) extends_refl, of 0] by (simp add: prim_tree_def)
next
  case (Suc m)
  from assms(3) have t: "holds_object h (HRef s)"
    "holds_array h (js_get h (HRef s) ''comments'')"
    by (simp_all add: Comments_typed_def)
  have c: "map_of (props_of h (HRef s)) ''comments'' = Some (js_get h (HRef s) ''comments'')"
    by (rule js_get_present) (rule holds_array_not_null [OF t(2)])
  show ?thesis
    using Comments_observe [OF assms(1,2) extends_refl, of n]
    by (simp del: reify.simps add: Suc reify_state_object [OF t(1)] fresh_tree_array [OF t(2)]
          set_prop_same [OF c])
qed

lemma Announcements_content:
  assumes "closed h" and "s < length h" and "Announcements_typed h s"
  shows "observe n (Announcements_getState_ref h s) = reify n h (HRef s)"
proof (cases n)
  case 0
  then show ?thesis
    using Announcements_observe [OF assms(1,2) extends_refl, of 0] by (simp add: prim_tree_def)
next
  case (Suc m)
  from assms(3) have t: "holds_object h (HRef s)"
    "holds_array h (js_get h (HRef s) ''announcements'')"
    "holds_set h (js_get h (HRef s) ''dismissed'')"
    by (simp_all add: Announcements_typed_def)
  have c: "map_of (props_of h (HRef s)) ''announcements'' =
           Some (js_get h (HRef s) ''announcements'')"
    by (rule js_get_present) (rule holds_array_not_null [OF t(2)])
  have u: "map_of (props_of h (HRef s)) ''dismissed'' = Some (js_get h (HRef s) ''dismissed'')"
    by (rule js_get_present) (rule holds_set_not_null [OF t(3)])
  show ?thesis
    using Announcements_observe [OF assms(1,2) extends_refl, of n]
    by (simp del: reify.simps add: Suc reify_state_object [OF t(1)] fresh_tree_array [OF t(2)]
          fresh_tree_set [OF t(3)] set_prop_same [OF c] set_prop_same [OF u])
qed

lemma spread_object_shares:
  "props_of (snd (spread_object h (HRef s))) (fst (spread_object h (HRef s))) =
   props_of h (HRef s)"
  by (simp add: spread_object_result props_of_def)

lemma Reactions_explicit:
  assumes "closed h" and "s < length h"
  shows "Reactions_getState_ref h s =
    (HRef (length h + 2),
     h @ [Object (props_of h (js_get h (HRef s) ''counts'')),
          Array (elems_of h (js_get h (HRef s) ''userReactions'')),
          Object (set_prop ''userReactions'' (HRef (length h + 1))
                    (set_prop ''counts'' (HRef (length h)) (props_of h (HRef s))))])"
proof -
  let ?co = "Object (props_of h (js_get h (HRef s) ''counts''))"
  let ?uo = "Array (elems_of h (js_get h (HRef s) ''userReactions''))"
  have ok: "val_ok (length h) (HRef s)" using assms(2) by (simp add: val_ok_HRef)
  have e1: "extends (h @ [?co]) h" using extends_refl by (rule extends_append)
  have e2: "extends ((h @ [?co]) @ [?uo]) h" using e1 by (rule extends_append)
  show ?thesis
    using assms e1 e2 ok
    by (simp add: Reactions_getState_ref_def spread_object_def spread_array_def alloc_def
          js_get_extends props_of_extends elems_of_extends js_get_ok)
qed

lemma Comments_explicit:
  assumes "closed h" and "s < length h"
  shows "Comments_getState_ref h s =
    (HRef (length h + 1),
     h @ [Array (elems_of h (js_get h (HRef s) ''comments'')),
          Object (set_prop ''comments'' (HRef (length h)) (props_of h (HRef s)))])"
proof -
  let ?co = "Array (elems_of h (js_get h (HRef s) ''comments''))"
  have ok: "val_ok (length h) (HRef s)" using assms(2) by (simp add: val_ok_HRef)
  have e1: "extends (h @ [?co]) h" using extends_refl by (rule extends_append)
  show ?thesis
    using assms e1 ok
    by (simp add: Comments_getState_ref_def spread_array_def alloc_def
          js_get_extends props_of_extends elems_of_extends js_get_ok)
qed

lemma Announcements_explicit:
  assumes "closed h" and "s < length h"
  shows "Announcements_getState_ref h s =
    (HRef (length h + 2),
     h @ [Array (elems_of h (js_get h (HRef s) ''announcements'')),
          SetObj (rev (remdups (rev (elems_of h (js_get h (HRef s) ''dismissed''))))),
          Object (set_prop ''dismissed'' (HRef (length h + 1))
                    (set_prop ''announcements'' (HRef (length h)) (props_of h (HRef s))))])"
proof -
  let ?ao = "Array (elems_of h (js_get h (HRef s) ''announcements''))"
  let ?do = "SetObj (rev (remdups (rev (elems_of h (js_get h (HRef s) ''dismissed'')))))"
  have ok: "val_ok (length h) (HRef s)" using assms(2) by (simp add: val_ok_HRef)
  have e1: "extends (h @ [?ao]) h" using extends_refl by (rule extends_append)
  have e2: "extends ((h @ [?ao]) @ [?do]) h" using e1 by (rule extends_append)
  show ?thesis
    using assms e1 e2 ok
    by (simp add: Announcements_getState_ref_def spread_array_def new_Set_def alloc_def
          js_get_extends props_of_extends elems_of_extends js_get_ok)
qed

lemma Reactions_shares:
  assumes "closed h" and "s < length h"
  shows
   "(k \<noteq> ''counts'' \<and> k \<noteq> ''userReactions'' \<longrightarrow>
       js_get (snd (Reactions_getState_ref h s)) (fst (Reactions_getState_ref h s)) k =
       js_get h (HRef s) k) \<and>
    props_of (snd (Reactions_getState_ref h s))
      (js_get (snd (Reactions_getState_ref h s)) (fst (Reactions_getState_ref h s)) ''counts'') =
      props_of h (js_get h (HRef s) ''counts'') \<and>
    elems_of (snd (Reactions_getState_ref h s))
      (js_get (snd (Reactions_getState_ref h s)) (fst (Reactions_getState_ref h s))
         ''userReactions'') =
      elems_of h (js_get h (HRef s) ''userReactions'')"
  by (simp add: Reactions_explicit [OF assms] js_get_def props_of_def elems_of_def
        map_of_set_prop nth_append)

lemma Comments_shares:
  assumes "closed h" and "s < length h"
  shows
   "(k \<noteq> ''comments'' \<longrightarrow>
       js_get (snd (Comments_getState_ref h s)) (fst (Comments_getState_ref h s)) k =
       js_get h (HRef s) k) \<and>
    elems_of (snd (Comments_getState_ref h s))
      (js_get (snd (Comments_getState_ref h s)) (fst (Comments_getState_ref h s)) ''comments'') =
      elems_of h (js_get h (HRef s) ''comments'')"
  by (simp add: Comments_explicit [OF assms] js_get_def props_of_def elems_of_def
        map_of_set_prop nth_append)

lemma Announcements_shares:
  assumes "closed h" and "s < length h"
  shows
   "(k \<noteq> ''announcements'' \<and> k \<noteq> ''dismissed'' \<longrightarrow>
       js_get (snd (Announcements_getState_ref h s)) (fst (Announcements_getState_ref h s)) k =
       js_get h (HRef s) k) \<and>
    elems_of (snd (Announcements_getState_ref h s))
      (js_get (snd (Announcements_getState_ref h s)) (fst (Announcements_getState_ref h s))
         ''announcements'') =
      elems_of h (js_get h (HRef s) ''announcements'') \<and>
    elems_of (snd (Announcements_getState_ref h s))
      (js_get (snd (Announcements_getState_ref h s)) (fst (Announcements_getState_ref h s))
         ''dismissed'') =
      rev (remdups (rev (elems_of h (js_get h (HRef s) ''dismissed''))))"
  by (simp add: Announcements_explicit [OF assms] js_get_def props_of_def elems_of_def
        map_of_set_prop nth_append)

text \<open>
  C2, as stated, says that mutating any nested container inside a snapshot leaves what a
  later \<open>getState()\<close> observes unchanged. \<open>PollController.getState()\<close> is
  \<open>{ ...this._state }\<close>: the snapshot's \<open>poll\<close> is the state's poll object, so the
  \<open>results\<close> mapping reached through the snapshot is the state's own (address 4), and
  after \<open>snapshot.poll.results["opt-a"] = 99\<close> the next \<open>getState()\<close> observes 99.
\<close>

theorem defensive_copy_counterexample:
  "closed poll_heap \<and>
   js_get (snd poll_snapshot) (js_get (snd poll_snapshot) (fst poll_snapshot) ''poll'') ''results'' =
     HRef 4 \<and>
   observe 3 (Poll_getState_ref poll_heap_mutated 0) \<noteq> observe 3 poll_snapshot"
  by (simp add: poll_heap_mutated_def poll_snapshot_def Poll_getState_ref_def
        spread_object_result poll_heap_def props_of_def js_get_def js_assign_def
        closed_def val_ok_def observe_def tree_of_obj_def prim_tree_def eval_nat_numeral)

text \<open>
  C2, amended: in a closed heap, every \<open>getState()\<close> returns a newly allocated record
  that, on a state of its declared type, reads to any depth exactly as the state reads;
  the containers held directly in a state field that the method's object literal names
  (the \<open>counts\<close> mapping and \<open>userReactions\<close> list of reactions, the \<open>comments\<close>
  list, the \<open>announcements\<close> list and \<open>dismissed\<close> set) are newly allocated and hold
  the elements of the state's containers; every other field of the snapshot holds the
  very value of the state's field, so an object behind a field or a list element is the
  state's own object, not a copy; and replacing the contents of any object allocated by
  \<open>getState()\<close> (any address at or above the old heap's size) by anything leaves what
  a subsequent \<open>getState()\<close> observes, to any depth, equal to what the first one
  observed.
\<close>

theorem getState_copies_direct_containers:
  assumes f: "closed h" "s < length h" "length h \<le> a"
    and r: "closed hr" "sr < length hr" "length hr \<le> ar"
    and c: "closed hc" "sc < length hc" "length hc \<le> ac"
    and a: "closed ha" "sa < length ha" "length ha \<le> aa"
  shows
  "(fst (Subscribe_getState_ref h s) = HRef (length h) \<and>
    props_of (snd (Subscribe_getState_ref h s)) (fst (Subscribe_getState_ref h s)) = props_of h (HRef s) \<and>
    (holds_object h (HRef s) \<longrightarrow> observe n (Subscribe_getState_ref h s) = reify n h (HRef s)) \<and>
    observe n (Subscribe_getState_ref ((snd (Subscribe_getState_ref h s))[a := ob]) s) = observe n (Subscribe_getState_ref h s)) \<and>
   (fst (Waitlist_getState_ref h s) = HRef (length h) \<and>
    props_of (snd (Waitlist_getState_ref h s)) (fst (Waitlist_getState_ref h s)) = props_of h (HRef s) \<and>
    (holds_object h (HRef s) \<longrightarrow> observe n (Waitlist_getState_ref h s) = reify n h (HRef s)) \<and>
    observe n (Waitlist_getState_ref ((snd (Waitlist_getState_ref h s))[a := ob]) s) = observe n (Waitlist_getState_ref h s)) \<and>
   (fst (Form_getState_ref h s) = HRef (length h) \<and>
    props_of (snd (Form_getState_ref h s)) (fst (Form_getState_ref h s)) = props_of h (HRef s) \<and>
    (holds_object h (HRef s) \<longrightarrow> observe n (Form_getState_ref h s) = reify n h (HRef s)) \<and>
    observe n (Form_getState_ref ((snd (Form_getState_ref h s))[a := ob]) s) = observe n (Form_getState_ref h s)) \<and>
   (fst (Feedback_getState_ref h s) = HRef (length h) \<and>
    props_of (snd (Feedback_getState_ref h s)) (fst (Feedback_getState_ref h s)) = props_of h (HRef s) \<and>
    (holds_object h (HRef s) \<longrightarrow> observe n (Feedback_getState_ref h s) = reify n h (HRef s)) \<and>
    observe n (Feedback_getState_ref ((snd (Feedback_getState_ref h s))[a := ob]) s) = observe n (Feedback_getState_ref h s)) \<and>
   (fst (Poll_getState_ref h s) = HRef (length h) \<and>
    props_of (snd (Poll_getState_ref h s)) (fst (Poll_getState_ref h s)) = props_of h (HRef s) \<and>
    (holds_object h (HRef s) \<longrightarrow> observe n (Poll_getState_ref h s) = reify n h (HRef s)) \<and>
    observe n (Poll_getState_ref ((snd (Poll_getState_ref h s))[a := ob]) s) = observe n (Poll_getState_ref h s)) \<and>
   (fst (ViewCounts_getState_ref h s) = HRef (length h) \<and>
    props_of (snd (ViewCounts_getState_ref h s)) (fst (ViewCounts_getState_ref h s)) = props_of h (HRef s) \<and>
    (holds_object h (HRef s) \<longrightarrow> observe n (ViewCounts_getState_ref h s) = reify n h (HRef s)) \<and>
    observe n (ViewCounts_getState_ref ((snd (ViewCounts_getState_ref h s))[a := ob]) s) = observe n (ViewCounts_getState_ref h s)) \<and>
   (fst (Reactions_getState_ref hr sr) = HRef (length hr + 2) \<and>
    js_get (snd (Reactions_getState_ref hr sr)) (fst (Reactions_getState_ref hr sr)) ''counts'' = HRef (length hr) \<and>
    js_get (snd (Reactions_getState_ref hr sr)) (fst (Reactions_getState_ref hr sr)) ''userReactions'' = HRef (length hr + 1) \<and>
    (Reactions_typed hr sr \<longrightarrow> observe n (Reactions_getState_ref hr sr) = reify n hr (HRef sr)) \<and>
    (k \<noteq> ''counts'' \<and> k \<noteq> ''userReactions'' \<longrightarrow>
       js_get (snd (Reactions_getState_ref hr sr)) (fst (Reactions_getState_ref hr sr)) k =
       js_get hr (HRef sr) k) \<and>
    props_of (snd (Reactions_getState_ref hr sr))
      (js_get (snd (Reactions_getState_ref hr sr)) (fst (Reactions_getState_ref hr sr)) ''counts'') =
      props_of hr (js_get hr (HRef sr) ''counts'') \<and>
    elems_of (snd (Reactions_getState_ref hr sr))
      (js_get (snd (Reactions_getState_ref hr sr)) (fst (Reactions_getState_ref hr sr))
         ''userReactions'') =
      elems_of hr (js_get hr (HRef sr) ''userReactions'') \<and>
    observe n (Reactions_getState_ref ((snd (Reactions_getState_ref hr sr))[ar := ob]) sr) = observe n (Reactions_getState_ref hr sr)) \<and>
   (fst (Comments_getState_ref hc sc) = HRef (length hc + 1) \<and>
    js_get (snd (Comments_getState_ref hc sc)) (fst (Comments_getState_ref hc sc)) ''comments'' = HRef (length hc) \<and>
    (Comments_typed hc sc \<longrightarrow> observe n (Comments_getState_ref hc sc) = reify n hc (HRef sc)) \<and>
    (k \<noteq> ''comments'' \<longrightarrow>
       js_get (snd (Comments_getState_ref hc sc)) (fst (Comments_getState_ref hc sc)) k =
       js_get hc (HRef sc) k) \<and>
    elems_of (snd (Comments_getState_ref hc sc))
      (js_get (snd (Comments_getState_ref hc sc)) (fst (Comments_getState_ref hc sc)) ''comments'') =
      elems_of hc (js_get hc (HRef sc) ''comments'') \<and>
    observe n (Comments_getState_ref ((snd (Comments_getState_ref hc sc))[ac := ob]) sc) = observe n (Comments_getState_ref hc sc)) \<and>
   (fst (Announcements_getState_ref ha sa) = HRef (length ha + 2) \<and>
    js_get (snd (Announcements_getState_ref ha sa)) (fst (Announcements_getState_ref ha sa)) ''announcements'' = HRef (length ha) \<and>
    js_get (snd (Announcements_getState_ref ha sa)) (fst (Announcements_getState_ref ha sa)) ''dismissed'' = HRef (length ha + 1) \<and>
    (Announcements_typed ha sa \<longrightarrow> observe n (Announcements_getState_ref ha sa) = reify n ha (HRef sa)) \<and>
    (k \<noteq> ''announcements'' \<and> k \<noteq> ''dismissed'' \<longrightarrow>
       js_get (snd (Announcements_getState_ref ha sa)) (fst (Announcements_getState_ref ha sa)) k =
       js_get ha (HRef sa) k) \<and>
    elems_of (snd (Announcements_getState_ref ha sa))
      (js_get (snd (Announcements_getState_ref ha sa)) (fst (Announcements_getState_ref ha sa))
         ''announcements'') =
      elems_of ha (js_get ha (HRef sa) ''announcements'') \<and>
    elems_of (snd (Announcements_getState_ref ha sa))
      (js_get (snd (Announcements_getState_ref ha sa)) (fst (Announcements_getState_ref ha sa))
         ''dismissed'') =
      rev (remdups (rev (elems_of ha (js_get ha (HRef sa) ''dismissed'')))) \<and>
    observe n (Announcements_getState_ref ((snd (Announcements_getState_ref ha sa))[aa := ob]) sa) = observe n (Announcements_getState_ref ha sa))"
proof -
  note flat = spread_stable [OF f, of n ob] spread_object_result [of h "HRef s"]
    spread_object_shares [of h s] spread_object_content [OF f(1,2), of n]
  have f1: "(fst (Subscribe_getState_ref h s) = HRef (length h) \<and>
    props_of (snd (Subscribe_getState_ref h s)) (fst (Subscribe_getState_ref h s)) = props_of h (HRef s) \<and>
    (holds_object h (HRef s) \<longrightarrow> observe n (Subscribe_getState_ref h s) = reify n h (HRef s)) \<and>
    observe n (Subscribe_getState_ref ((snd (Subscribe_getState_ref h s))[a := ob]) s) = observe n (Subscribe_getState_ref h s))"
    using flat by (simp add: Subscribe_getState_ref_def)
  have f2: "(fst (Waitlist_getState_ref h s) = HRef (length h) \<and>
    props_of (snd (Waitlist_getState_ref h s)) (fst (Waitlist_getState_ref h s)) = props_of h (HRef s) \<and>
    (holds_object h (HRef s) \<longrightarrow> observe n (Waitlist_getState_ref h s) = reify n h (HRef s)) \<and>
    observe n (Waitlist_getState_ref ((snd (Waitlist_getState_ref h s))[a := ob]) s) = observe n (Waitlist_getState_ref h s))"
    using flat by (simp add: Waitlist_getState_ref_def)
  have f3: "(fst (Form_getState_ref h s) = HRef (length h) \<and>
    props_of (snd (Form_getState_ref h s)) (fst (Form_getState_ref h s)) = props_of h (HRef s) \<and>
    (holds_object h (HRef s) \<longrightarrow> observe n (Form_getState_ref h s) = reify n h (HRef s)) \<and>
    observe n (Form_getState_ref ((snd (Form_getState_ref h s))[a := ob]) s) = observe n (Form_getState_ref h s))"
    using flat by (simp add: Form_getState_ref_def)
  have f4: "(fst (Feedback_getState_ref h s) = HRef (length h) \<and>
    props_of (snd (Feedback_getState_ref h s)) (fst (Feedback_getState_ref h s)) = props_of h (HRef s) \<and>
    (holds_object h (HRef s) \<longrightarrow> observe n (Feedback_getState_ref h s) = reify n h (HRef s)) \<and>
    observe n (Feedback_getState_ref ((snd (Feedback_getState_ref h s))[a := ob]) s) = observe n (Feedback_getState_ref h s))"
    using flat by (simp add: Feedback_getState_ref_def)
  have f5: "(fst (Poll_getState_ref h s) = HRef (length h) \<and>
    props_of (snd (Poll_getState_ref h s)) (fst (Poll_getState_ref h s)) = props_of h (HRef s) \<and>
    (holds_object h (HRef s) \<longrightarrow> observe n (Poll_getState_ref h s) = reify n h (HRef s)) \<and>
    observe n (Poll_getState_ref ((snd (Poll_getState_ref h s))[a := ob]) s) = observe n (Poll_getState_ref h s))"
    using flat by (simp add: Poll_getState_ref_def)
  have f6: "(fst (ViewCounts_getState_ref h s) = HRef (length h) \<and>
    props_of (snd (ViewCounts_getState_ref h s)) (fst (ViewCounts_getState_ref h s)) = props_of h (HRef s) \<and>
    (holds_object h (HRef s) \<longrightarrow> observe n (ViewCounts_getState_ref h s) = reify n h (HRef s)) \<and>
    observe n (ViewCounts_getState_ref ((snd (ViewCounts_getState_ref h s))[a := ob]) s) = observe n (ViewCounts_getState_ref h s))"
    using flat by (simp add: ViewCounts_getState_ref_def)
  have gr: "(fst (Reactions_getState_ref hr sr) = HRef (length hr + 2) \<and>
    js_get (snd (Reactions_getState_ref hr sr)) (fst (Reactions_getState_ref hr sr)) ''counts'' = HRef (length hr) \<and>
    js_get (snd (Reactions_getState_ref hr sr)) (fst (Reactions_getState_ref hr sr)) ''userReactions'' = HRef (length hr + 1) \<and>
    (Reactions_typed hr sr \<longrightarrow> observe n (Reactions_getState_ref hr sr) = reify n hr (HRef sr)) \<and>
    (k \<noteq> ''counts'' \<and> k \<noteq> ''userReactions'' \<longrightarrow>
       js_get (snd (Reactions_getState_ref hr sr)) (fst (Reactions_getState_ref hr sr)) k =
       js_get hr (HRef sr) k) \<and>
    props_of (snd (Reactions_getState_ref hr sr))
      (js_get (snd (Reactions_getState_ref hr sr)) (fst (Reactions_getState_ref hr sr)) ''counts'') =
      props_of hr (js_get hr (HRef sr) ''counts'') \<and>
    elems_of (snd (Reactions_getState_ref hr sr))
      (js_get (snd (Reactions_getState_ref hr sr)) (fst (Reactions_getState_ref hr sr))
         ''userReactions'') =
      elems_of hr (js_get hr (HRef sr) ''userReactions'') \<and>
    observe n (Reactions_getState_ref ((snd (Reactions_getState_ref hr sr))[ar := ob]) sr) = observe n (Reactions_getState_ref hr sr))"
    using Reactions_result Reactions_stable [OF r, of n ob] Reactions_content [OF r(1,2), of n]
      Reactions_shares [OF r(1,2), of k]
    by blast
  have gc: "(fst (Comments_getState_ref hc sc) = HRef (length hc + 1) \<and>
    js_get (snd (Comments_getState_ref hc sc)) (fst (Comments_getState_ref hc sc)) ''comments'' = HRef (length hc) \<and>
    (Comments_typed hc sc \<longrightarrow> observe n (Comments_getState_ref hc sc) = reify n hc (HRef sc)) \<and>
    (k \<noteq> ''comments'' \<longrightarrow>
       js_get (snd (Comments_getState_ref hc sc)) (fst (Comments_getState_ref hc sc)) k =
       js_get hc (HRef sc) k) \<and>
    elems_of (snd (Comments_getState_ref hc sc))
      (js_get (snd (Comments_getState_ref hc sc)) (fst (Comments_getState_ref hc sc)) ''comments'') =
      elems_of hc (js_get hc (HRef sc) ''comments'') \<and>
    observe n (Comments_getState_ref ((snd (Comments_getState_ref hc sc))[ac := ob]) sc) = observe n (Comments_getState_ref hc sc))"
    using Comments_result Comments_stable [OF c, of n ob] Comments_content [OF c(1,2), of n]
      Comments_shares [OF c(1,2), of k]
    by blast
  have ga: "(fst (Announcements_getState_ref ha sa) = HRef (length ha + 2) \<and>
    js_get (snd (Announcements_getState_ref ha sa)) (fst (Announcements_getState_ref ha sa)) ''announcements'' = HRef (length ha) \<and>
    js_get (snd (Announcements_getState_ref ha sa)) (fst (Announcements_getState_ref ha sa)) ''dismissed'' = HRef (length ha + 1) \<and>
    (Announcements_typed ha sa \<longrightarrow> observe n (Announcements_getState_ref ha sa) = reify n ha (HRef sa)) \<and>
    (k \<noteq> ''announcements'' \<and> k \<noteq> ''dismissed'' \<longrightarrow>
       js_get (snd (Announcements_getState_ref ha sa)) (fst (Announcements_getState_ref ha sa)) k =
       js_get ha (HRef sa) k) \<and>
    elems_of (snd (Announcements_getState_ref ha sa))
      (js_get (snd (Announcements_getState_ref ha sa)) (fst (Announcements_getState_ref ha sa))
         ''announcements'') =
      elems_of ha (js_get ha (HRef sa) ''announcements'') \<and>
    elems_of (snd (Announcements_getState_ref ha sa))
      (js_get (snd (Announcements_getState_ref ha sa)) (fst (Announcements_getState_ref ha sa))
         ''dismissed'') =
      rev (remdups (rev (elems_of ha (js_get ha (HRef sa) ''dismissed'')))) \<and>
    observe n (Announcements_getState_ref ((snd (Announcements_getState_ref ha sa))[aa := ob]) sa) = observe n (Announcements_getState_ref ha sa))"
    using Announcements_result Announcements_stable [OF a, of n ob] Announcements_content [OF a(1,2), of n]
      Announcements_shares [OF a(1,2), of k]
    by blast
  from f1 f2 f3 f4 f5 f6 gr gc ga show ?thesis by blast
qed

theorem getState_copies_direct_containers_witness:
  "(closed poll_heap \<and> (0::nat) < length poll_heap \<and> length poll_heap \<le> 7 \<and>
    closed reactions_heap \<and> (0::nat) < length reactions_heap \<and> length reactions_heap \<le> 3 \<and>
    closed comments_heap \<and> (0::nat) < length comments_heap \<and> length comments_heap \<le> 4 \<and>
    closed announcements_heap \<and> (0::nat) < length announcements_heap \<and>
    length announcements_heap \<le> 4 \<and>
    holds_object poll_heap (HRef 0) \<and> Reactions_typed reactions_heap 0 \<and>
    Comments_typed comments_heap 0 \<and> Announcements_typed announcements_heap 0 \<and>
    ''status'' \<noteq> ''counts'' \<and> ''status'' \<noteq> ''userReactions'' \<and>
    ''status'' \<noteq> ''comments'' \<and> ''status'' \<noteq> ''announcements'' \<and>
    ''status'' \<noteq> ''dismissed'') \<and>
   observe 3 (Poll_getState_ref poll_heap 0) = reify 3 poll_heap (HRef 0) \<and>
   observe 3 (Reactions_getState_ref reactions_heap 0) = reify 3 reactions_heap (HRef 0) \<and>
   observe 3 (Comments_getState_ref comments_heap 0) = reify 3 comments_heap (HRef 0) \<and>
   observe 3 (Announcements_getState_ref announcements_heap 0) =
     reify 3 announcements_heap (HRef 0) \<and>
   js_get (snd (Reactions_getState_ref reactions_heap 0))
     (fst (Reactions_getState_ref reactions_heap 0)) ''counts'' = HRef 3 \<and>
   js_get (snd (Reactions_getState_ref reactions_heap 0))
     (fst (Reactions_getState_ref reactions_heap 0)) ''status'' =
     js_get reactions_heap (HRef 0) ''status'' \<and>
   observe 3 (Reactions_getState_ref
      ((snd (Reactions_getState_ref reactions_heap 0))[3 := Object [(''like'', HNum 99)]]) 0) =
   observe 3 (Reactions_getState_ref reactions_heap 0)"
proof -
  have lp: "length poll_heap = 7" by (simp add: poll_heap_def)
  have lr: "length reactions_heap = 3" by (simp add: reactions_heap_def)
  have lc: "length comments_heap = 4" by (simp add: comments_heap_def)
  have la: "length announcements_heap = 4" by (simp add: announcements_heap_def)
  have cp: "closed poll_heap" by (simp add: poll_heap_def closed_def val_ok_def)
  have cr: "closed reactions_heap" by (simp add: reactions_heap_def closed_def val_ok_def)
  have cc: "closed comments_heap" by (simp add: comments_heap_def closed_def val_ok_def)
  have ca: "closed announcements_heap"
    by (simp add: announcements_heap_def closed_def val_ok_def)
  have tp: "holds_object poll_heap (HRef 0)"
    by (simp add: poll_heap_def holds_object_def)
  have tr: "Reactions_typed reactions_heap 0"
    by (simp add: reactions_heap_def Reactions_typed_def holds_object_def holds_array_def
          js_get_def props_of_def)
  have tc: "Comments_typed comments_heap 0"
    by (simp add: comments_heap_def Comments_typed_def holds_object_def holds_array_def
          js_get_def props_of_def)
  have ta: "Announcements_typed announcements_heap 0"
    by (simp add: announcements_heap_def Announcements_typed_def holds_object_def
          holds_array_def holds_set_def js_get_def props_of_def)
  have ne: "''status'' \<noteq> ''counts'' \<and> ''status'' \<noteq> ''userReactions'' \<and>
    ''status'' \<noteq> ''comments'' \<and> ''status'' \<noteq> ''announcements'' \<and>
    ''status'' \<noteq> ''dismissed''"
    by simp
  have b: "(0::nat) < 7" "(7::nat) \<le> 7" "(0::nat) < 3" "(3::nat) \<le> 3" "(0::nat) < 4"
    "(4::nat) \<le> 4"
    by simp_all
  note inst = getState_copies_direct_containers
    [where h = poll_heap and s = 0 and a = 7 and hr = reactions_heap and sr = 0 and ar = 3
       and hc = comments_heap and sc = 0 and ac = 4 and ha = announcements_heap and sa = 0
       and aa = 4 and n = 3 and ob = "Object [(''like'', HNum 99)]" and k = "''status''",
     unfolded lp lr lc la, OF cp b(1) b(2) cr b(3) b(4) cc b(5) b(6) ca b(5) b(6)]
  have hyps: "closed poll_heap \<and> (0::nat) < length poll_heap \<and> length poll_heap \<le> 7 \<and>
    closed reactions_heap \<and> (0::nat) < length reactions_heap \<and> length reactions_heap \<le> 3 \<and>
    closed comments_heap \<and> (0::nat) < length comments_heap \<and> length comments_heap \<le> 4 \<and>
    closed announcements_heap \<and> (0::nat) < length announcements_heap \<and>
    length announcements_heap \<le> 4 \<and>
    holds_object poll_heap (HRef 0) \<and> Reactions_typed reactions_heap 0 \<and>
    Comments_typed comments_heap 0 \<and> Announcements_typed announcements_heap 0 \<and>
    ''status'' \<noteq> ''counts'' \<and> ''status'' \<noteq> ''userReactions'' \<and>
    ''status'' \<noteq> ''comments'' \<and> ''status'' \<noteq> ''announcements'' \<and>
    ''status'' \<noteq> ''dismissed''"
    by (simp add: lp lr lc la cp cr cc ca tp tr tc ta)
  have concl: "observe 3 (Poll_getState_ref poll_heap 0) = reify 3 poll_heap (HRef 0) \<and>
   observe 3 (Reactions_getState_ref reactions_heap 0) = reify 3 reactions_heap (HRef 0) \<and>
   observe 3 (Comments_getState_ref comments_heap 0) = reify 3 comments_heap (HRef 0) \<and>
   observe 3 (Announcements_getState_ref announcements_heap 0) =
     reify 3 announcements_heap (HRef 0) \<and>
   js_get (snd (Reactions_getState_ref reactions_heap 0))
     (fst (Reactions_getState_ref reactions_heap 0)) ''counts'' = HRef 3 \<and>
   js_get (snd (Reactions_getState_ref reactions_heap 0))
     (fst (Reactions_getState_ref reactions_heap 0)) ''status'' =
     js_get reactions_heap (HRef 0) ''status'' \<and>
   observe 3 (Reactions_getState_ref
      ((snd (Reactions_getState_ref reactions_heap 0))[3 := Object [(''like'', HNum 99)]]) 0) =
   observe 3 (Reactions_getState_ref reactions_heap 0)"
    using inst tp tr tc ta ne by blast
  from hyps concl show ?thesis by (rule conjI)
qed

end
